theory Spec2Isabelle
  imports Complex_Main
begin

section \<open>Python exceptions and programs with effects\<close>

text \<open>
  The repository is a set of Python classes that drive two registration engines: ITK's
  in-process registration pipeline (\<^verbatim>\<open>registrationtools/WrapItkRegistration.py\<close>) and
  the NiftyReg command-line tools reached through nipype and temporary files
  (\<^verbatim>\<open>simplereg/niftyreg.py\<close>, on top of \<^verbatim>\<open>registrationtools/WrapperRegistration.py\<close>).

  An exception is a value. The constructors are the exception classes the code raises
  itself or provokes in the interpreter; the string is the message.
\<close>

datatype error =
    ValueError string
  | UnboundLocalError string
  | AttributeError string
  | IndexError string
  | LibraryError string

text \<open>
  A method is a function from the state to a result and a new state. The state is the
  object \<^verbatim>\<open>self\<close> together with the list of calls made into the wrapped libraries so
  far, oldest first. A raised exception is \<open>Inl\<close>; whatever was done before the
  \<^verbatim>\<open>raise\<close> stays done.
\<close>

type_synonym ('o, 'c, 'a) prog = "'o \<times> 'c list \<Rightarrow> (error + 'a) \<times> ('o \<times> 'c list)"

definition ret :: "'a \<Rightarrow> ('o, 'c, 'a) prog" where
  "ret x = (\<lambda>s. (Inr x, s))"

definition raise :: "error \<Rightarrow> ('o, 'c, 'a) prog" where
  "raise e = (\<lambda>s. (Inl e, s))"

definition bind :: "('o, 'c, 'a) prog \<Rightarrow> ('a \<Rightarrow> ('o, 'c, 'b) prog) \<Rightarrow> ('o, 'c, 'b) prog" where
  "bind p f = (\<lambda>s. case p s of (Inl e, s') \<Rightarrow> (Inl e, s') | (Inr x, s') \<Rightarrow> f x s')"

fun block :: "('o, 'c, unit) prog list \<Rightarrow> ('o, 'c, unit) prog" where
  "block [] = ret ()"
| "block (p # ps) = bind p (\<lambda>_. block ps)"

definition py_if :: "bool \<Rightarrow> ('o, 'c, unit) prog \<Rightarrow> ('o, 'c, unit) prog" where
  "py_if b p = (if b then p else ret ())"

definition get_self :: "('o, 'c, 'o) prog" where
  "get_self = (\<lambda>(self, tr). (Inr self, (self, tr)))"

definition modify :: "('o \<Rightarrow> 'o) \<Rightarrow> ('o, 'c, unit) prog" where
  "modify f = (\<lambda>(self, tr). (Inr (), (f self, tr)))"

definition lift :: "error + 'a \<Rightarrow> ('o, 'c, 'a) prog" where
  "lift r = (\<lambda>s. (r, s))"

text \<open>
  A call into a library is recorded in the trace, and the library decides whether it
  raises and what it returns. Neither is in the repository, so both are parameters:
  \<open>raises\<close> and \<open>answer\<close> see the calls made so far and the call being made. Every
  theorem below quantifies over them unless it says otherwise.
\<close>

definition query ::
  "('c list \<Rightarrow> 'c \<Rightarrow> error option) \<Rightarrow> ('c list \<Rightarrow> 'c \<Rightarrow> 'a) \<Rightarrow> 'c \<Rightarrow> ('o, 'c, 'a) prog" where
  "query raises answer c = (\<lambda>(self, tr).
     case raises tr c of
       Some e \<Rightarrow> (Inl e, (self, tr @ [c]))
     | None \<Rightarrow> (Inr (answer tr c), (self, tr @ [c])))"

definition call :: "('c list \<Rightarrow> 'c \<Rightarrow> error option) \<Rightarrow> 'c \<Rightarrow> ('o, 'c, unit) prog" where
  "call raises c = query raises (\<lambda>_ _. ()) c"

text \<open>
  A Python attribute that is assigned only by some method does not exist before that
  method ran; reading it raises \<^verbatim>\<open>AttributeError\<close>. \<open>Missing\<close> is that state.
\<close>

datatype 'a attribute = Missing | Bound 'a

section \<open>numpy and os.path, as far as the code uses them\<close>

text \<open>
  \<^verbatim>\<open>posixpath.join\<close> of two components: an absolute second component replaces the
  first.
\<close>

definition os_path_join :: "string \<Rightarrow> string \<Rightarrow> string" where
  "os_path_join a b =
     (if b \<noteq> [] \<and> hd b = CHR ''/'' then b
      else if a = [] \<or> last a = CHR ''/'' then a @ b
      else a @ ''/'' @ b)"

text \<open>
  The entries of an array are float64: a finite number, an infinity or a NaN
  (\<^verbatim>\<open>np.loadtxt\<close> reads \<^verbatim>\<open>inf\<close>, \<^verbatim>\<open>-inf\<close> and \<^verbatim>\<open>nan\<close>, and \<^verbatim>\<open>1e400\<close> as \<^verbatim>\<open>inf\<close>). Sums
  and products of infinities and NaNs are those of IEEE 754: \<open>0 * inf\<close> and
  \<open>inf - inf\<close> are NaN, and a NaN operand gives NaN. On finite numbers the arithmetic
  here is exact: rounding, overflow and the sign of zero are left out. In
  \<^verbatim>\<open>_convert_to_sitk_transform\<close> one factor of every product is 0, 1 or -1 and finite
  sums have at most one term that is not zero, so float64 computes the same finite
  results.
\<close>

datatype float64 = Finite real | PInf | NInf | NaN

fun fl_add :: "float64 \<Rightarrow> float64 \<Rightarrow> float64" where
  "fl_add (Finite x) (Finite y) = Finite (x + y)"
| "fl_add (Finite x) PInf = PInf"
| "fl_add (Finite x) NInf = NInf"
| "fl_add PInf (Finite y) = PInf"
| "fl_add NInf (Finite y) = NInf"
| "fl_add PInf PInf = PInf"
| "fl_add NInf NInf = NInf"
| "fl_add PInf NInf = NaN"
| "fl_add NInf PInf = NaN"
| "fl_add NaN b = NaN"
| "fl_add a NaN = NaN"

fun fl_neg :: "float64 \<Rightarrow> float64" where
  "fl_neg (Finite x) = Finite (- x)"
| "fl_neg PInf = NInf"
| "fl_neg NInf = PInf"
| "fl_neg NaN = NaN"

fun fl_mult :: "float64 \<Rightarrow> float64 \<Rightarrow> float64" where
  "fl_mult (Finite x) (Finite y) = Finite (x * y)"
| "fl_mult (Finite x) PInf = (if x = 0 then NaN else if 0 < x then PInf else NInf)"
| "fl_mult (Finite x) NInf = (if x = 0 then NaN else if 0 < x then NInf else PInf)"
| "fl_mult PInf (Finite y) = (if y = 0 then NaN else if 0 < y then PInf else NInf)"
| "fl_mult NInf (Finite y) = (if y = 0 then NaN else if 0 < y then NInf else PInf)"
| "fl_mult PInf PInf = PInf"
| "fl_mult NInf NInf = PInf"
| "fl_mult PInf NInf = NInf"
| "fl_mult NInf PInf = NInf"
| "fl_mult NaN b = NaN"
| "fl_mult a NaN = NaN"

text \<open>
  With these operations float64 has \<open>0\<close>, \<open>1\<close>, \<open>+\<close>, \<open>*\<close> and unary \<open>-\<close>, so numerals
  and sums over lists can be written as usual. Addition is associative and commutative
  with \<open>0\<close> neutral; multiplication by \<open>0\<close> does not give \<open>0\<close> for an infinity or a NaN.
\<close>

instantiation float64 :: "{zero, one, plus, times, uminus}"
begin

definition zero_float64 :: float64 where "zero_float64 = Finite 0"

definition one_float64 :: float64 where "one_float64 = Finite 1"

definition plus_float64 :: "float64 \<Rightarrow> float64 \<Rightarrow> float64" where
  "plus_float64 a b = fl_add a b"

definition times_float64 :: "float64 \<Rightarrow> float64 \<Rightarrow> float64" where
  "times_float64 a b = fl_mult a b"

definition uminus_float64 :: "float64 \<Rightarrow> float64" where
  "uminus_float64 a = fl_neg a"

instance ..

end

instance float64 :: comm_monoid_add
proof
  fix a b c :: float64
  show "a + b + c = a + (b + c)"
    by (cases a; cases b; cases c) (simp_all add: plus_float64_def)
  show "a + b = b + a"
    by (cases a; cases b) (simp_all add: plus_float64_def)
  show "0 + a = a"
    by (cases a) (simp_all add: plus_float64_def zero_float64_def)
qed

instance float64 :: numeral ..

text \<open>
  \<^verbatim>\<open>np.loadtxt\<close> returns a two-dimensional array (the list of its rows, all of one length)
  for a file of several rows, a one-dimensional array for a file of one row or of one
  column, and a zero-dimensional one for a file of a single number.
\<close>

type_synonym matrix = "float64 list list"

datatype ndarray = Array0 float64 | Array1 "float64 list" | Array2 matrix

definition ncols :: "'a list list \<Rightarrow> nat" where
  "ncols m = (case m of [] \<Rightarrow> 0 | r # _ \<Rightarrow> length r)"

definition np_eye :: "nat \<Rightarrow> matrix" where
  "np_eye n = map (\<lambda>i. map (\<lambda>j. if i = j then 1 else 0) [0..<n]) [0..<n]"

definition np_setitem :: "matrix \<Rightarrow> nat \<Rightarrow> nat \<Rightarrow> float64 \<Rightarrow> error + matrix" where
  \<comment> \<open>\<^verbatim>\<open>R[i, j] = v\<close>\<close>
  "np_setitem R i j v =
     (if i < length R \<and> j < ncols R then Inr (R[i := (R ! i)[j := v]])
      else Inl (IndexError ''index is out of bounds''))"

definition np_slice_block :: "ndarray \<Rightarrow> nat \<Rightarrow> error + matrix" where
  \<comment> \<open>\<^verbatim>\<open>matrix[0:d, 0:d]\<close>: two indices need two dimensions; slices are cut short, they
      never raise\<close>
  "np_slice_block a d =
     (case a of
        Array2 m \<Rightarrow> Inr (map (take d) (take d m))
      | _ \<Rightarrow> Inl (IndexError ''too many indices for array''))"

definition np_slice_last_column :: "ndarray \<Rightarrow> nat \<Rightarrow> error + float64 list" where
  \<comment> \<open>\<^verbatim>\<open>matrix[0:d, -1]\<close>\<close>
  "np_slice_last_column a d =
     (case a of
        Array2 m \<Rightarrow>
          (if ncols m = 0 then Inl (IndexError ''index -1 is out of bounds'')
           else Inr (map last (take d m)))
      | _ \<Rightarrow> Inl (IndexError ''too many indices for array''))"

definition np_dot :: "matrix \<Rightarrow> matrix \<Rightarrow> error + matrix" where
  \<comment> \<open>\<^verbatim>\<open>a.dot(b)\<close> for two-dimensional \<open>a\<close> and \<open>b\<close>\<close>
  "np_dot a b =
     (if ncols a \<noteq> length b then Inl (ValueError ''shapes not aligned'')
      else Inr (map (\<lambda>row. map (\<lambda>j. sum_list (map2 (*) row (map (\<lambda>r. r ! j) b)))
                                  [0..<ncols b]) a))"

definition np_dot_vec :: "matrix \<Rightarrow> float64 list \<Rightarrow> error + float64 list" where
  \<comment> \<open>\<^verbatim>\<open>a.dot(t)\<close> for two-dimensional \<open>a\<close> and one-dimensional \<open>t\<close>\<close>
  "np_dot_vec a t =
     (if ncols a \<noteq> length t then Inl (ValueError ''shapes not aligned'')
      else Inr (map (\<lambda>row. sum_list (map2 (*) row t)) a))"

section \<open>WrapperRegistration\<close>

text \<open>
  SimpleITK objects. An image is known by its dimension, its pixel type and an identity;
  an affine transform by the flattened matrix and the translation it was built from.
\<close>

datatype sitk_image = SitkImage (GetDimension: nat) (GetPixelIDValue: int) (image_id: nat)

datatype sitk_transform =
  AffineTransform (matrix_of: "float64 list") (translation_of: "float64 list")

text \<open>
  Modelled from the spec: the base class \<^verbatim>\<open>SimpleItkRegistrationBase\<close> is imported by
  \<^verbatim>\<open>WrapperRegistration.py\<close> and is not among the sources. Of it only the constructor
  is used here, which stores what is "basic for all registration tools": the fixed and
  the moving image and their masks, each possibly \<^verbatim>\<open>None\<close>. The subclasses read them
  as \<^verbatim>\<open>self._fixed_sitk\<close>, \<^verbatim>\<open>self._moving_sitk\<close>, \<^verbatim>\<open>self._fixed_sitk_mask\<close> and
  \<^verbatim>\<open>self._moving_sitk_mask\<close>.
\<close>

record SimpleItkRegistrationBase =
  fixed_sitk :: "sitk_image option"
  moving_sitk :: "sitk_image option"
  fixed_sitk_mask :: "sitk_image option"
  moving_sitk_mask :: "sitk_image option"

definition SimpleItkRegistrationBase_init ::
  "sitk_image option \<Rightarrow> sitk_image option \<Rightarrow> sitk_image option \<Rightarrow> sitk_image option
   \<Rightarrow> SimpleItkRegistrationBase" where
  "SimpleItkRegistrationBase_init f m fm mm =
     \<lparr>fixed_sitk = f, moving_sitk = m, fixed_sitk_mask = fm, moving_sitk_mask = mm\<rparr>"

record WrapperRegistration = SimpleItkRegistrationBase +
  options :: string

definition WrapperRegistration_init ::
  "sitk_image option \<Rightarrow> sitk_image option \<Rightarrow> sitk_image option \<Rightarrow> sitk_image option
   \<Rightarrow> string \<Rightarrow> WrapperRegistration" where
  "WrapperRegistration_init f m fm mm opts =
     SimpleItkRegistrationBase.extend (SimpleItkRegistrationBase_init f m fm mm)
       (WrapperRegistration.fields opts)"

definition set_options :: "string \<Rightarrow> 'a WrapperRegistration_scheme \<Rightarrow> 'a WrapperRegistration_scheme" where
  "set_options opts self = self\<lparr>options := opts\<rparr>"

definition get_options :: "'a WrapperRegistration_scheme \<Rightarrow> string" where
  "get_options self = options self"

section \<open>NiftyReg, RegAladin and RegF3D\<close>

text \<open>
  What \<^verbatim>\<open>niftyreg.py\<close> calls outside itself: \<^verbatim>\<open>ph.create_directory\<close>, SimpleITK's
  \<^verbatim>\<open>WriteImage\<close>, \<^verbatim>\<open>ReadImage\<close> and \<^verbatim>\<open>AffineTransform\<close>, \<^verbatim>\<open>np.loadtxt\<close>, the nipype
  interface object \<^verbatim>\<open>nreg\<close> (created, its inputs assigned one by one, its command line
  printed, run) and \<^verbatim>\<open>sitkh.get_transformed_sitk_image\<close>.
\<close>

datatype nreg_interface = RegAladin_interface | RegF3D_interface

datatype nreg_input =
    ref_file string
  | flo_file string
  | res_file string
  | aff_file string
  | cpp_file string
  | omp_core_val int
  | args string
  | rmask_file string
  | fmask_file string

datatype nr_call =
    create_directory string bool
  | WriteImage "sitk_image option" string
  | ReadImage string
  | loadtxt string
  | sitk_AffineTransform "float64 list" "float64 list"
  | nreg_new nreg_interface
  | nreg_inputs nreg_input
  | nreg_cmdline
  | nreg_run
  | get_transformed_sitk_image "sitk_image option" sitk_transform

record nr_world =
  nr_raises :: "nr_call list \<Rightarrow> nr_call \<Rightarrow> error option"
  nr_image :: "nr_call list \<Rightarrow> nr_call \<Rightarrow> sitk_image"
  nr_matrix :: "nr_call list \<Rightarrow> nr_call \<Rightarrow> ndarray"

definition nr_do :: "nr_world \<Rightarrow> nr_call \<Rightarrow> ('o, nr_call, unit) prog" where
  "nr_do w c = call (nr_raises w) c"

record NiftyReg = WrapperRegistration +
  dir_tmp :: string
  fixed_str :: string
  moving_str :: string
  warped_moving_str :: string
  fixed_mask_str :: string
  moving_mask_str :: string
  warped_moving_mask_str :: string
  omp_cores :: int

text \<open>
  \<^verbatim>\<open>DIR_TMP\<close> comes from \<^verbatim>\<open>simplereg.definitions\<close>, which is not among the sources: it
  is a parameter of the constructors.
\<close>

definition NiftyReg_init ::
  "string \<Rightarrow> sitk_image option \<Rightarrow> sitk_image option \<Rightarrow> sitk_image option
   \<Rightarrow> sitk_image option \<Rightarrow> string \<Rightarrow> int \<Rightarrow> string \<Rightarrow> NiftyReg" where
  "NiftyReg_init DIR_TMP f m fm mm opts cores subfolder =
     (let d = os_path_join DIR_TMP subfolder in
      WrapperRegistration.extend (WrapperRegistration_init f m fm mm opts)
        (NiftyReg.fields
           d
           (os_path_join d ''fixed.nii.gz'')
           (os_path_join d ''moving.nii.gz'')
           (os_path_join d ''warped_moving.nii.gz'')
           (os_path_join d ''fixed_mask.nii.gz'')
           (os_path_join d ''moving_mask.nii.gz'')
           (os_path_join d ''warped_mask.nii.gz'')
           cores))"

definition NiftyReg_run :: "nr_world \<Rightarrow> ('a NiftyReg_scheme, nr_call, unit) prog" where
  "NiftyReg_run w = bind get_self (\<lambda>self. block
     [nr_do w (create_directory (dir_tmp self) True),
      nr_do w (WriteImage (fixed_sitk self) (fixed_str self)),
      nr_do w (WriteImage (moving_sitk self) (moving_str self)),
      py_if (fixed_sitk_mask self \<noteq> None)
        (nr_do w (WriteImage (fixed_sitk_mask self) (fixed_mask_str self))),
      py_if (moving_sitk_mask self \<noteq> None)
        (nr_do w (WriteImage (moving_sitk_mask self) (moving_mask_str self)))])"

text \<open>
  \<^verbatim>\<open>_warped_moving_sitk\<close> and \<^verbatim>\<open>_registration_transform_sitk\<close> are assigned by
  \<^verbatim>\<open>_run\<close>. In \<^verbatim>\<open>RegAladin\<close> the second holds an affine transform, in \<^verbatim>\<open>RegF3D\<close> an
  image (the control point grid), so each class has its own pair of fields here. What
  they hold before \<^verbatim>\<open>_run\<close> is up to the absent base class; nothing below depends on it.
\<close>

record RegAladin = NiftyReg +
  registration_transform_str :: string
  aladin_warped_moving_sitk :: "sitk_image attribute"
  aladin_registration_transform_sitk :: "sitk_transform attribute"

definition RegAladin_init ::
  "string \<Rightarrow> sitk_image option \<Rightarrow> sitk_image option \<Rightarrow> sitk_image option
   \<Rightarrow> sitk_image option \<Rightarrow> string \<Rightarrow> string \<Rightarrow> int \<Rightarrow> RegAladin" where
  "RegAladin_init DIR_TMP f m fm mm opts subfolder cores =
     (let base = NiftyReg_init DIR_TMP f m fm mm opts cores subfolder in
      NiftyReg.extend base
        (RegAladin.fields (os_path_join (dir_tmp base) ''registration_transform.txt'')
           Missing Missing))"

definition convert_to_sitk_transform :: "nr_world \<Rightarrow> (RegAladin, nr_call, sitk_transform) prog" where
  "convert_to_sitk_transform w = bind get_self (\<lambda>self.
     bind (case fixed_sitk self of
             None \<Rightarrow> raise (AttributeError ''NoneType object has no attribute GetDimension'')
           | Some img \<Rightarrow> ret (GetDimension img)) (\<lambda>dimension.
     bind (query (nr_raises w) (nr_matrix w) (loadtxt (registration_transform_str self))) (\<lambda>matrix.
     bind (lift (np_slice_block matrix dimension)) (\<lambda>A.
     bind (lift (np_slice_last_column matrix dimension)) (\<lambda>t.
     let R = np_eye dimension in
     bind (lift (np_setitem R 0 0 (- 1))) (\<lambda>R.
     bind (lift (np_setitem R 1 1 (- 1))) (\<lambda>R.
     bind (lift (np_dot R A)) (\<lambda>RA.
     bind (lift (np_dot RA R)) (\<lambda>A.
     bind (lift (np_dot_vec R t)) (\<lambda>t.
     query (nr_raises w) (\<lambda>_ _. AffineTransform (concat A) t)
       (sitk_AffineTransform (concat A) t)))))))))))"

definition RegAladin_run :: "nr_world \<Rightarrow> bool \<Rightarrow> (RegAladin, nr_call, unit) prog" where
  "RegAladin_run w debug = bind (NiftyReg_run w) (\<lambda>_. bind get_self (\<lambda>self. block
     [nr_do w (nreg_new RegAladin_interface),
      nr_do w (nreg_inputs (ref_file (fixed_str self))),
      nr_do w (nreg_inputs (flo_file (moving_str self))),
      nr_do w (nreg_inputs (res_file (warped_moving_str self))),
      nr_do w (nreg_inputs (aff_file (registration_transform_str self))),
      nr_do w (nreg_inputs (omp_core_val (omp_cores self))),
      nr_do w (nreg_inputs (args (options self))),
      py_if (fixed_sitk_mask self \<noteq> None)
        (nr_do w (nreg_inputs (rmask_file (fixed_mask_str self)))),
      py_if (moving_sitk_mask self \<noteq> None)
        (nr_do w (nreg_inputs (fmask_file (moving_mask_str self)))),
      py_if debug (nr_do w nreg_cmdline),
      nr_do w nreg_run,
      bind (query (nr_raises w) (nr_image w) (ReadImage (warped_moving_str self)))
        (\<lambda>img. modify (\<lambda>s. s\<lparr>aladin_warped_moving_sitk := Bound img\<rparr>)),
      bind (convert_to_sitk_transform w)
        (\<lambda>T. modify (\<lambda>s. s\<lparr>aladin_registration_transform_sitk := Bound T\<rparr>))]))"

text \<open>
  \<^verbatim>\<open>self.get_registration_transform_sitk()\<close> is inherited from the absent base class:
  \<open>getter\<close> stands for it.
\<close>

definition RegAladin_get_transformed_fixed_sitk ::
  "nr_world \<Rightarrow> (RegAladin, nr_call, sitk_transform) prog \<Rightarrow> (RegAladin, nr_call, sitk_image) prog" where
  "RegAladin_get_transformed_fixed_sitk w getter = bind get_self (\<lambda>self.
     bind getter (\<lambda>T.
     query (nr_raises w) (nr_image w) (get_transformed_sitk_image (fixed_sitk self) T)))"

definition RegAladin_get_transformed_fixed_sitk_mask ::
  "nr_world \<Rightarrow> (RegAladin, nr_call, sitk_transform) prog \<Rightarrow> (RegAladin, nr_call, sitk_image) prog" where
  "RegAladin_get_transformed_fixed_sitk_mask w getter = bind get_self (\<lambda>self.
     bind getter (\<lambda>T.
     query (nr_raises w) (nr_image w) (get_transformed_sitk_image (fixed_sitk_mask self) T)))"

definition RegAladin_get_warped_moving_sitk :: "(RegAladin, nr_call, sitk_image) prog" where
  "RegAladin_get_warped_moving_sitk = bind get_self (\<lambda>self.
     case aladin_warped_moving_sitk self of
       Missing \<Rightarrow> raise (AttributeError ''_warped_moving_sitk'')
     | Bound img \<Rightarrow> ret img)"

record RegF3D = NiftyReg +
  registration_control_point_grid_str :: string
  f3d_warped_moving_sitk :: "sitk_image attribute"
  f3d_registration_transform_sitk :: "sitk_image attribute"

definition RegF3D_init ::
  "string \<Rightarrow> sitk_image option \<Rightarrow> sitk_image option \<Rightarrow> sitk_image option
   \<Rightarrow> sitk_image option \<Rightarrow> string \<Rightarrow> string \<Rightarrow> int \<Rightarrow> RegF3D" where
  "RegF3D_init DIR_TMP f m fm mm opts subfolder cores =
     (let base = NiftyReg_init DIR_TMP f m fm mm opts cores subfolder in
      NiftyReg.extend base
        (RegF3D.fields (os_path_join (dir_tmp base) ''registration_cpp.nii.gz'')
           Missing Missing))"

definition RegF3D_run :: "nr_world \<Rightarrow> bool \<Rightarrow> (RegF3D, nr_call, unit) prog" where
  "RegF3D_run w debug = bind (NiftyReg_run w) (\<lambda>_. bind get_self (\<lambda>self. block
     [nr_do w (nreg_new RegF3D_interface),
      nr_do w (nreg_inputs (ref_file (fixed_str self))),
      nr_do w (nreg_inputs (flo_file (moving_str self))),
      nr_do w (nreg_inputs (res_file (warped_moving_str self))),
      nr_do w (nreg_inputs (cpp_file (registration_control_point_grid_str self))),
      nr_do w (nreg_inputs (omp_core_val (omp_cores self))),
      nr_do w (nreg_inputs (args (options self))),
      py_if (fixed_sitk_mask self \<noteq> None)
        (nr_do w (nreg_inputs (rmask_file (fixed_mask_str self)))),
      py_if (moving_sitk_mask self \<noteq> None)
        (nr_do w (nreg_inputs (fmask_file (moving_mask_str self)))),
      py_if debug (nr_do w nreg_cmdline),
      nr_do w nreg_run,
      bind (query (nr_raises w) (nr_image w) (ReadImage (warped_moving_str self)))
        (\<lambda>img. modify (\<lambda>s. s\<lparr>f3d_warped_moving_sitk := Bound img\<rparr>)),
      bind (query (nr_raises w) (nr_image w)
              (ReadImage (registration_control_point_grid_str self)))
        (\<lambda>img. modify (\<lambda>s. s\<lparr>f3d_registration_transform_sitk := Bound img\<rparr>))]))"

definition RegF3D_get_transformed_fixed_sitk :: "(RegF3D, nr_call, sitk_image) prog" where
  "RegF3D_get_transformed_fixed_sitk = raise (UnboundLocalError ''Not implemented for RegF3D'')"

definition RegF3D_get_transformed_fixed_sitk_mask :: "(RegF3D, nr_call, sitk_image) prog" where
  "RegF3D_get_transformed_fixed_sitk_mask = raise (UnboundLocalError ''Not implemented for RegF3D'')"

definition RegF3D_get_warped_moving_sitk :: "(RegF3D, nr_call, sitk_image) prog" where
  "RegF3D_get_warped_moving_sitk = bind get_self (\<lambda>self.
     case f3d_warped_moving_sitk self of
       Missing \<Rightarrow> raise (AttributeError ''_warped_moving_sitk'')
     | Bound img \<Rightarrow> ret img)"

section \<open>WrapItkRegistration\<close>

text \<open>
  ITK's Python classes are templates: \<^verbatim>\<open>itk.Image[itk.D, 3]\<close> is a class. The ones the
  wrapper names are the constructors of \<open>itk_type\<close>, with their template arguments.
  \<^verbatim>\<open>eval("itk.Euler%dDTransform[self._pixel_type]" % d)\<close> is \<open>Euler_Transform d p\<close>, and
  \<^verbatim>\<open>eval("itk.%sInterpolateImageFunction[...]" % name)\<close> is \<open>InterpolateImageFunction name\<close>
  with its two arguments. Looking a class up (\<open>Instantiate\<close>) is a call into the library
  like any other: it can raise, as it does for a name ITK does not have.
\<close>

datatype pixel_type = itk_D | itk_F | itk_UC

datatype itk_type =
    Image pixel_type nat
  | Euler_Transform nat pixel_type
  | Similarity_Transform nat pixel_type
  | Affine_Transform pixel_type nat
  | InterpolateImageFunction string itk_type pixel_type
  | NormalizedCorrelationImageToImageMetric itk_type itk_type
  | MattesMutualInformationImageToImageMetric itk_type itk_type
  | MeanSquaresImageToImageMetric itk_type itk_type
  | RegularStepGradientDescentOptimizer
  | ImageRegistrationMethod itk_type itk_type
  | CastImageFilter itk_type itk_type
  | ImageMaskSpatialObject nat
  | CenteredRigid2DTransform pixel_type
  | VersorRigid3DTransform pixel_type
  | CenteredTransformInitializer itk_type itk_type itk_type

text \<open>
  An object handed to the constructor is an instance of an ITK class or something else
  (a SimpleITK image, an array). What the library returns is opaque: a \<open>handle\<close>.
\<close>

datatype py_object = Instance itk_type nat | Foreign nat

fun isinstance :: "py_object \<Rightarrow> itk_type \<Rightarrow> bool" where
  "isinstance (Instance T _) T' = (T = T')"
| "isinstance (Foreign _) T' = False"

datatype handle = Handle nat

datatype interpolator_ref = Given py_object | Created itk_type

text \<open>
  A call into ITK or into the helper modules is a class looked up, an object created, or
  a function or method called: \<open>Call f xs\<close> is the call the source writes as \<open>f\<close>
  (\<^verbatim>\<open>registration.SetMetric\<close>, \<^verbatim>\<open>ph.print_info\<close>) with the arguments \<open>xs\<close> that are
  data of the wrapper. Arguments that are objects the library itself made just before
  (the optimizer handed to \<^verbatim>\<open>registration.SetOptimizer\<close>) are not listed.
\<close>

datatype arg =
    Object py_object
  | Number real
  | Count nat
  | Interpolator interpolator_ref
  | Returned handle
  | Field "handle option attribute"
  | Str string
  | OptStr "string option"
  | Truth bool
  | Schedule "nat list" "real list"

datatype itk_call =
    Instantiate itk_type
  | New itk_type
  | Call string "arg list"

abbreviation registration_Update :: itk_call where
  "registration_Update \<equiv> Call ''registration.Update'' []"

abbreviation metric_SetFixedImageMask :: itk_call where
  "metric_SetFixedImageMask \<equiv> Call ''metric.SetFixedImageMask'' []"

abbreviation metric_SetMovingImageMask :: itk_call where
  "metric_SetMovingImageMask \<equiv> Call ''metric.SetMovingImageMask'' []"

abbreviation mask_caster_SetInput :: "py_object \<Rightarrow> itk_call" where
  "mask_caster_SetInput msk \<equiv> Call ''self._mask_caster.SetInput'' [Object msk]"

record itk_world =
  itk_raises :: "itk_call list \<Rightarrow> itk_call \<Rightarrow> error option"
  itk_answer :: "itk_call list \<Rightarrow> itk_call \<Rightarrow> handle"

definition itk_do :: "itk_world \<Rightarrow> itk_call \<Rightarrow> ('o, itk_call, unit) prog" where
  "itk_do w c = call (itk_raises w) c"

definition itk_ask :: "itk_world \<Rightarrow> itk_call \<Rightarrow> ('o, itk_call, handle) prog" where
  "itk_ask w c = query (itk_raises w) (itk_answer w) c"

definition instantiate :: "itk_world \<Rightarrow> itk_type \<Rightarrow> ('o, itk_call, itk_type) prog" where
  "instantiate w T = query (itk_raises w) (\<lambda>_ _. T) (Instantiate T)"

definition quoted :: "string \<Rightarrow> string" where
  "quoted s = CHR 0x27 # s @ [CHR 0x27]"

record WrapItkRegistration =
  fixed_itk :: py_object
  fixed_itk_mask :: "py_object option"
  moving_itk :: py_object
  moving_itk_mask :: "py_object option"
  dimension :: nat
  pixel_type :: pixel_type
  image_type :: itk_type
  registration_type :: string
  metric :: string
  interpolator :: string
  initializer_type :: "string option"
  optimizer :: string
  use_multiresolution_framework :: bool
  shrink_factors :: "nat list"
  smoothing_sigmas :: "real list"
  verbose :: bool
  optimizer_scales :: "string option"
  itk_oriented_gaussian_interpolate_image_filter :: "py_object option"
  registration_transform_itk :: "handle option"
  computational_time :: handle
  mask_caster :: handle
  registration_transform_sitk :: "handle option attribute"

text \<open>
  The constructor, with its arguments in the order of the signature. It assigns every
  field of the record but \<^verbatim>\<open>_registration_transform_sitk\<close>, which no line of
  \<^verbatim>\<open>__init__\<close> mentions. Its state is the trace alone; the object is its result.
\<close>

definition WrapItkRegistration_init ::
  "itk_world \<Rightarrow> py_object \<Rightarrow> py_object \<Rightarrow> nat \<Rightarrow> pixel_type \<Rightarrow> py_object option
   \<Rightarrow> py_object option \<Rightarrow> string \<Rightarrow> string \<Rightarrow> string \<Rightarrow> string option \<Rightarrow> string \<Rightarrow> bool
   \<Rightarrow> nat list \<Rightarrow> real list \<Rightarrow> bool \<Rightarrow> py_object option \<Rightarrow> string option
   \<Rightarrow> (unit, itk_call, WrapItkRegistration) prog" where
  "WrapItkRegistration_init w fixed moving dimn ptype fixed_mask moving_mask reg_type metr interp
     init_type optim multires shrink sigmas verb oriented scales =
     bind (instantiate w (Image ptype dimn)) (\<lambda>img_type.
     bind (itk_ask w (Call ''ph.get_zero_time'' [])) (\<lambda>zero_time.
     bind (instantiate w (Image itk_UC dimn)) (\<lambda>mask_type.
     bind (instantiate w (CastImageFilter img_type mask_type)) (\<lambda>caster_type.
     bind (itk_ask w (New caster_type)) (\<lambda>caster.
     ret \<lparr>fixed_itk = fixed, fixed_itk_mask = fixed_mask, moving_itk = moving,
          moving_itk_mask = moving_mask, dimension = dimn, pixel_type = ptype,
          image_type = img_type, registration_type = reg_type, metric = metr,
          interpolator = interp, initializer_type = init_type, optimizer = optim,
          use_multiresolution_framework = multires, shrink_factors = shrink,
          smoothing_sigmas = sigmas, verbose = verb, optimizer_scales = scales,
          itk_oriented_gaussian_interpolate_image_filter = oriented,
          registration_transform_itk = None, computational_time = zero_time,
          mask_caster = caster, registration_transform_sitk = Missing\<rparr>)))))"

definition get_computational_time :: "(WrapItkRegistration, itk_call, handle) prog" where
  "get_computational_time = bind get_self (\<lambda>self. ret (computational_time self))"

definition get_registration_transform_sitk :: "(WrapItkRegistration, itk_call, handle) prog" where
  "get_registration_transform_sitk = bind get_self (\<lambda>self.
     case registration_transform_sitk self of
       Missing \<Rightarrow> raise (AttributeError
         ''WrapItkRegistration object has no attribute _registration_transform_sitk'')
     | Bound None \<Rightarrow> raise (UnboundLocalError (''Execute '' @ quoted ''run'' @ '' first.''))
     | Bound (Some T) \<Rightarrow> ret T)"

definition get_registration_transform_itk :: "(WrapItkRegistration, itk_call, handle) prog" where
  "get_registration_transform_itk = bind get_self (\<lambda>self.
     case registration_transform_itk self of
       None \<Rightarrow> raise (UnboundLocalError (''Execute '' @ quoted ''run'' @ '' first.''))
     | Some T \<Rightarrow> ret T)"

text \<open>
  \<^verbatim>\<open>_run_v3\<close>, in the order of the source, cut into the parts its comment banners and
  its \<^verbatim>\<open>if\<close> statements mark: the four parts that choose a type and bind a local variable
  (\<^verbatim>\<open>transform_type\<close>, \<^verbatim>\<open>interpolator\<close>, \<^verbatim>\<open>metric_type\<close>, \<^verbatim>\<open>optimizer_type\<close>), the
  registration object with its optimizer, the metric with the two masks, the initial
  transform with its initializer, the check of the multi-resolution flag, and the
  execution with its two reports. \<open>run_v3\<close> puts them together. A metric string that
  is none of the three leaves \<^verbatim>\<open>metric_type\<close> unassigned: \<open>None\<close> here, and
  \<^verbatim>\<open>metric_type.New()\<close> then raises.
\<close>

definition transform_type_of :: "itk_world \<Rightarrow> (WrapItkRegistration, itk_call, itk_type) prog" where
  "transform_type_of w = bind get_self (\<lambda>self.
     if registration_type self = ''Rigid'' then
       instantiate w (Euler_Transform (dimension self) (pixel_type self))
     else if registration_type self = ''Similarity'' then
       instantiate w (Similarity_Transform (dimension self) (pixel_type self))
     else if registration_type self = ''Affine'' then
       instantiate w (Affine_Transform (pixel_type self) (dimension self))
     else raise (ValueError
       (''Registration type '' @ quoted (registration_type self) @ '' not known.'')))"

definition interpolator_of :: "itk_world \<Rightarrow> (WrapItkRegistration, itk_call, interpolator_ref) prog" where
  "interpolator_of w = bind get_self (\<lambda>self.
     case itk_oriented_gaussian_interpolate_image_filter self of
       Some given \<Rightarrow> ret (Given given)
     | None \<Rightarrow>
         bind (instantiate w
                 (InterpolateImageFunction (interpolator self) (image_type self) (pixel_type self)))
           (\<lambda>interpolator_type.
         bind (itk_do w (New interpolator_type)) (\<lambda>_.
         ret (Created interpolator_type))))"

definition metric_type_of :: "itk_world \<Rightarrow> (WrapItkRegistration, itk_call, itk_type option) prog" where
  "metric_type_of w = bind get_self (\<lambda>self.
     if metric self = ''Correlation'' then
       bind (instantiate w
               (NormalizedCorrelationImageToImageMetric (image_type self) (image_type self)))
         (\<lambda>T. ret (Some T))
     else if metric self = ''MattesMutualInformation'' then
       bind (instantiate w
               (MattesMutualInformationImageToImageMetric (image_type self) (image_type self)))
         (\<lambda>T.
       bind (itk_do w (Call ''interpolator.SetInputImage'' [Object (moving_itk self)])) (\<lambda>_.
       ret (Some T)))
     else if metric self = ''MeanSquares'' then
       bind (instantiate w (MeanSquaresImageToImageMetric (image_type self) (image_type self)))
         (\<lambda>T. ret (Some T))
     else ret None)"

definition optimizer_type_of :: "itk_world \<Rightarrow> (WrapItkRegistration, itk_call, itk_type) prog" where
  "optimizer_type_of w = bind get_self (\<lambda>self.
     if optimizer self = ''RegularStepGradientDescent'' then
       instantiate w RegularStepGradientDescentOptimizer
     else raise (ValueError
       (''For '' @ quoted ''ImageRegistrationMethod'' @ '' only RegularStepGradientDescent'')))"

definition set_moving_mask :: "itk_world \<Rightarrow> (WrapItkRegistration, itk_call, unit) prog" where
  "set_moving_mask w = bind get_self (\<lambda>self.
     case moving_itk_mask self of
       None \<Rightarrow> ret ()
     | Some msk \<Rightarrow> block
        [itk_do w (mask_caster_SetInput msk),
         itk_do w (Call ''self._mask_caster.Update'' []),
         itk_do w (Call ''self._mask_caster.GetOutput'' []),
         itk_do w (Call ''moving_itk_mask.DisconnectPipeline'' []),
         bind (instantiate w (ImageMaskSpatialObject (dimension self))) (\<lambda>T. itk_do w (New T)),
         itk_do w (Call ''moving_mask_object.SetImage'' []),
         itk_do w metric_SetMovingImageMask])"

definition set_fixed_mask :: "itk_world \<Rightarrow> (WrapItkRegistration, itk_call, unit) prog" where
  "set_fixed_mask w = bind get_self (\<lambda>self.
     case fixed_itk_mask self of
       None \<Rightarrow> ret ()
     | Some msk \<Rightarrow> block
        [itk_do w (mask_caster_SetInput msk),
         itk_do w (Call ''self._mask_caster.Update'' []),
         itk_do w (Call ''self._mask_caster.GetOutput'' []),
         itk_do w (Call ''fixed_itk_mask.DisconnectPipeline'' []),
         bind (instantiate w (ImageMaskSpatialObject (dimension self))) (\<lambda>T. itk_do w (New T)),
         itk_do w (Call ''fixed_mask_object.SetImage'' []),
         itk_do w metric_SetFixedImageMask])"

definition initialize_transform :: "itk_world \<Rightarrow> (WrapItkRegistration, itk_call, unit) prog" where
  "initialize_transform w = bind get_self (\<lambda>self.
     case initializer_type self of
       None \<Rightarrow> ret ()
     | Some init \<Rightarrow>
         bind (instantiate w
                 (if dimension self = 2 then CenteredRigid2DTransform (pixel_type self)
                  else VersorRigid3DTransform (pixel_type self))) (\<lambda>transform_which_works.
         block
          [itk_do w (New transform_which_works),
           bind (instantiate w (CenteredTransformInitializer transform_which_works
                                  (image_type self) (image_type self)))
             (\<lambda>T. itk_do w (New T)),
           itk_do w (Call ''initializer.SetTransform'' []),
           itk_do w (Call ''initializer.SetFixedImage'' [Object (fixed_itk self)]),
           itk_do w (Call ''initializer.SetMovingImage'' [Object (moving_itk self)]),
           (if init = ''MOMENTS'' then itk_do w (Call ''initializer.MomentsOn'' [])
            else itk_do w (Call ''initializer.GeometryOn'' [])),
           itk_do w (Call ''initializer.InitializeTransform'' []),
           itk_do w (Call ''initial_transform_.GetMatrix'' []),
           itk_do w (Call ''initial_transform.SetMatrix'' []),
           itk_do w (Call ''initial_transform_.GetTranslation'' []),
           itk_do w (Call ''initial_transform.SetTranslation'' []),
           itk_do w (Call ''initial_transform_.GetCenter'' []),
           itk_do w (Call ''initial_transform.SetCenter'' [])]))"

definition print_settings :: "itk_world \<Rightarrow> (WrapItkRegistration, itk_call, unit) prog" where
  "print_settings w = bind get_self (\<lambda>self.
     py_if (verbose self) (block
      [itk_do w (Call ''ph.print_info'' [Str ''Registration: WrapITK'']),
       itk_do w (Call ''ph.print_info'' [Str ''Transform Model: %s'', Str (registration_type self)]),
       itk_do w (Call ''ph.print_info'' [Str ''Interpolator: %s'', Str (interpolator self)]),
       itk_do w (Call ''ph.print_info'' [Str ''Metric: %s'', Str (metric self)]),
       itk_do w (Call ''ph.print_info''
                  [Str ''CenteredTransformInitializer: %s'', OptStr (initializer_type self)]),
       itk_do w (Call ''ph.print_info'' [Str ''Optimizer: %s'', Str (optimizer self)]),
       itk_do w (Call ''ph.print_info''
                  [Str ''Use Multiresolution Framework: %s'',
                   Truth (use_multiresolution_framework self),
                   Truth (\<not> use_multiresolution_framework self)]),
       py_if (use_multiresolution_framework self)
         (itk_do w (Call ''print'' [Schedule (shrink_factors self) (smoothing_sigmas self)])),
       itk_do w (Call ''ph.print_info''
                  [Str ''Use Fixed Mask: %s'', Truth (fixed_itk_mask self \<noteq> None)]),
       itk_do w (Call ''ph.print_info''
                  [Str ''Use Moving Mask: %s'', Truth (moving_itk_mask self \<noteq> None)])]))"

definition print_summary :: "itk_world \<Rightarrow> (WrapItkRegistration, itk_call, unit) prog" where
  "print_summary w = bind get_self (\<lambda>self.
     py_if (verbose self) (block
      [itk_do w (Call ''ph.print_info'' [Str ''Summary Registration Method Result:'']),
       itk_do w (Call ''registration.GetOptimizer'' []),
       bind (itk_ask w (Call ''GetStopConditionDescription'' [])) (\<lambda>description.
         itk_do w (Call ''ph.print_info''
                    [Str (CHR 0x09 # ''Optimizer'' @ [CHR 0x27] @ ''s stopping condition: %s''),
                     Returned description])),
       bind (itk_ask w (Call ''optimizer.GetValue'' [])) (\<lambda>v.
         itk_do w (Call ''ph.print_info''
                    [Str (CHR 0x09 # ''Final metric value: %s''), Returned v])),
       itk_do w (Call ''sitkh.print_sitk_transform'' [Field (registration_transform_sitk self)])]))"

definition execute_registration :: "itk_world \<Rightarrow> (WrapItkRegistration, itk_call, unit) prog" where
  "execute_registration w = block
     [itk_do w registration_Update,
      bind (itk_ask w (Call ''registration.GetTransform'' []))
        (\<lambda>T. modify (\<lambda>s. s\<lparr>registration_transform_itk := Some T\<rparr>)),
      print_settings w,
      bind get_self (\<lambda>self.
        bind (itk_ask w (Call ''sitkh.get_sitk_from_itk_transform''
                           [Field (Bound (registration_transform_itk self))]))
          (\<lambda>T. modify (\<lambda>s. s\<lparr>registration_transform_sitk := Bound (Some T)\<rparr>))),
      print_summary w]"

definition configure_registration ::
  "itk_world \<Rightarrow> interpolator_ref \<Rightarrow> itk_type \<Rightarrow> (WrapItkRegistration, itk_call, unit) prog" where
  "configure_registration w interp optimizer_type = bind get_self (\<lambda>self.
     bind (instantiate w (ImageRegistrationMethod (image_type self) (image_type self)))
       (\<lambda>registration_type.
     block
      [itk_do w (New registration_type),
       itk_do w (Call ''registration.SetFixedImage'' [Object (fixed_itk self)]),
       itk_do w (Call ''registration.SetMovingImage'' [Object (moving_itk self)]),
       itk_do w (Call ''registration.SetInterpolator'' [Interpolator interp]),
       itk_do w (New optimizer_type),
       itk_do w (Call ''optimizer.SetGradientMagnitudeTolerance'' [Number (1 / 10 ^ 6)]),
       itk_do w (Call ''optimizer.SetMinimumStepLength'' [Number (1 / 10 ^ 6)]),
       itk_do w (Call ''optimizer.SetNumberOfIterations'' [Count 200]),
       itk_do w (Call ''optimizer.SetRelaxationFactor'' [Number (1 / 2)]),
       py_if (optimizer_scales self \<noteq> None)
         (raise (ValueError
            (''No scales allowed for '' @ quoted ''ImageRegistrationMethod''))),
       itk_do w (Call ''registration.SetOptimizer'' [])]))"

definition configure_metric ::
  "itk_world \<Rightarrow> itk_type option \<Rightarrow> (WrapItkRegistration, itk_call, unit) prog" where
  "configure_metric w metric_type = block
     [(case metric_type of
         None \<Rightarrow> raise (UnboundLocalError
           (''local variable '' @ quoted ''metric_type'' @ '' referenced before assignment''))
       | Some T \<Rightarrow> itk_do w (New T)),
      set_moving_mask w,
      set_fixed_mask w,
      itk_do w (Call ''registration.SetMetric'' [])]"

definition configure_transform ::
  "itk_world \<Rightarrow> itk_type \<Rightarrow> (WrapItkRegistration, itk_call, unit) prog" where
  "configure_transform w transform_type = block
     [itk_do w (New transform_type),
      itk_do w (Call ''registration.SetTransform'' []),
      initialize_transform w,
      itk_do w (Call ''initial_transform.GetParameters'' []),
      itk_do w (Call ''registration.SetInitialTransformParameters'' [])]"

definition multiresolution_guard :: "(WrapItkRegistration, itk_call, unit) prog" where
  "multiresolution_guard = bind get_self (\<lambda>self.
     py_if (use_multiresolution_framework self)
       (raise (ValueError
          (''Multiresolution-Framework cannot be used with ''
           @ ''ImageRegistrationMethod. ImageRegistrationMethodv4 required.''))))"

definition run_v3 :: "itk_world \<Rightarrow> (WrapItkRegistration, itk_call, unit) prog" where
  "run_v3 w =
     bind (transform_type_of w) (\<lambda>transform_type.
     bind (interpolator_of w) (\<lambda>interpolator.
     bind (metric_type_of w) (\<lambda>metric_type.
     bind (optimizer_type_of w) (\<lambda>optimizer_type.
     block
      [configure_registration w interpolator optimizer_type,
       configure_metric w metric_type,
       configure_transform w transform_type,
       multiresolution_guard,
       execute_registration w]))))"

text \<open>
  \<^verbatim>\<open>run\<close>: the four type checks, then \<^verbatim>\<open>_run_v3\<close> between the two timing calls. The
  call of \<^verbatim>\<open>_run_v4\<close> is commented out in the source.
\<close>

definition run :: "itk_world \<Rightarrow> (WrapItkRegistration, itk_call, unit) prog" where
  "run w = bind get_self (\<lambda>self. block
     [py_if (\<not> isinstance (fixed_itk self) (image_type self))
        (raise (ValueError ''Fixed image must be of type itk.Image'')),
      py_if (\<not> isinstance (moving_itk self) (image_type self))
        (raise (ValueError ''Moving image must be of type itk.Image'')),
      (case fixed_itk_mask self of
         None \<Rightarrow> ret ()
       | Some msk \<Rightarrow> py_if (\<not> isinstance msk (image_type self))
           (raise (ValueError ''Fixed image mask must be of type itk.Image''))),
      (case moving_itk_mask self of
         None \<Rightarrow> ret ()
       | Some msk \<Rightarrow> py_if (\<not> isinstance msk (image_type self))
           (raise (ValueError ''Moving image mask must be of type itk.Image''))),
      bind (itk_ask w (Call ''ph.start_timing'' [])) (\<lambda>time_start.
      bind (run_v3 w) (\<lambda>_.
      bind (itk_ask w (Call ''ph.stop_timing'' [])) (\<lambda>elapsed.
      modify (\<lambda>s. s\<lparr>computational_time := elapsed\<rparr>))))])"

section \<open>Methods as lists of calls\<close>

text \<open>
  Most of a method is a list of calls into the library, made one after the other until
  one of them raises. \<open>steps raises cs k p self\<close> says so of the program \<open>p\<close> run on the
  object \<open>self\<close>: it makes the calls \<open>cs\<close> in this order; if one of them raises, \<open>p\<close>
  stops there with that exception and \<open>self\<close> unchanged (\<open>stopped\<close>); if none does,
  \<open>p\<close> goes on as \<open>k\<close> does after them. \<open>emits P p\<close> says that every call \<open>p\<close> makes
  satisfies \<open>P\<close>, and \<open>preserves f p\<close> that \<open>p\<close> leaves the part \<open>f\<close> of the object alone.
\<close>

definition stopped ::
  "('c list \<Rightarrow> 'c \<Rightarrow> error option) \<Rightarrow> 'c list \<Rightarrow> 'c list \<Rightarrow> 'o \<Rightarrow> (error + 'a) \<Rightarrow> 'o \<times> 'c list \<Rightarrow> bool" where
  "stopped raises cs tr self r s' =
     (\<exists>ys zs e. ys \<noteq> [] \<and> cs = ys @ zs \<and> s' = (self, tr @ ys) \<and> r = Inl e
        \<and> raises (tr @ butlast ys) (last ys) = Some e)"

definition steps ::
  "('c list \<Rightarrow> 'c \<Rightarrow> error option) \<Rightarrow> 'c list \<Rightarrow> ('o, 'c, 'a) prog \<Rightarrow> ('o, 'c, 'a) prog \<Rightarrow> 'o \<Rightarrow> bool" where
  "steps raises cs k p self =
     (\<forall>tr r s'. p (self, tr) = (r, s') \<longrightarrow> stopped raises cs tr self r s' \<or> k (self, tr @ cs) = (r, s'))"

definition emits :: "('c \<Rightarrow> bool) \<Rightarrow> ('o, 'c, 'a) prog \<Rightarrow> bool" where
  "emits P p = (\<forall>self tr. \<exists>ys. snd (snd (p (self, tr))) = tr @ ys \<and> list_all P ys)"

definition preserves :: "('o \<Rightarrow> 'x) \<Rightarrow> ('o, 'c, 'a) prog \<Rightarrow> bool" where
  "preserves f p = (\<forall>s. f (fst (snd (p s))) = f (fst s))"

subsection \<open>The calls of \<^verbatim>\<open>_run_v3\<close>\<close>

text \<open>
  The calls each part of \<^verbatim>\<open>_run_v3\<close> makes when none of them raises, and the value it
  binds. \<open>setup_calls\<close> is everything before \<^verbatim>\<open>registration.Update()\<close>, up to the
  first \<^verbatim>\<open>raise\<close> of the method's own, and \<open>guard_error\<close> is that exception.
\<close>

definition known_registration_type :: "WrapItkRegistration \<Rightarrow> bool" where
  "known_registration_type self =
     (registration_type self = ''Rigid'' \<or> registration_type self = ''Similarity''
      \<or> registration_type self = ''Affine'')"

definition transform_type_value :: "WrapItkRegistration \<Rightarrow> itk_type" where
  "transform_type_value self =
     (if registration_type self = ''Rigid'' then Euler_Transform (dimension self) (pixel_type self)
      else if registration_type self = ''Similarity''
        then Similarity_Transform (dimension self) (pixel_type self)
      else Affine_Transform (pixel_type self) (dimension self))"

definition interpolator_type_value :: "WrapItkRegistration \<Rightarrow> itk_type" where
  "interpolator_type_value self =
     InterpolateImageFunction (interpolator self) (image_type self) (pixel_type self)"

definition interpolator_calls :: "WrapItkRegistration \<Rightarrow> itk_call list" where
  "interpolator_calls self =
     (case itk_oriented_gaussian_interpolate_image_filter self of
        Some given \<Rightarrow> []
      | None \<Rightarrow> [Instantiate (interpolator_type_value self), New (interpolator_type_value self)])"

definition interpolator_value :: "WrapItkRegistration \<Rightarrow> interpolator_ref" where
  "interpolator_value self =
     (case itk_oriented_gaussian_interpolate_image_filter self of
        Some given \<Rightarrow> Given given
      | None \<Rightarrow> Created (interpolator_type_value self))"

definition metric_value :: "WrapItkRegistration \<Rightarrow> itk_type option" where
  "metric_value self =
     (if metric self = ''Correlation''
        then Some (NormalizedCorrelationImageToImageMetric (image_type self) (image_type self))
      else if metric self = ''MattesMutualInformation''
        then Some (MattesMutualInformationImageToImageMetric (image_type self) (image_type self))
      else if metric self = ''MeanSquares''
        then Some (MeanSquaresImageToImageMetric (image_type self) (image_type self))
      else None)"

definition metric_calls :: "WrapItkRegistration \<Rightarrow> itk_call list" where
  "metric_calls self =
     (case metric_value self of
        None \<Rightarrow> []
      | Some T \<Rightarrow> Instantiate T #
          (if metric self = ''MattesMutualInformation''
           then [Call ''interpolator.SetInputImage'' [Object (moving_itk self)]] else []))"

definition registration_calls :: "WrapItkRegistration \<Rightarrow> itk_call list" where
  "registration_calls self =
     [Instantiate RegularStepGradientDescentOptimizer,
      Instantiate (ImageRegistrationMethod (image_type self) (image_type self)),
      New (ImageRegistrationMethod (image_type self) (image_type self)),
      Call ''registration.SetFixedImage'' [Object (fixed_itk self)],
      Call ''registration.SetMovingImage'' [Object (moving_itk self)],
      Call ''registration.SetInterpolator'' [Interpolator (interpolator_value self)],
      New RegularStepGradientDescentOptimizer,
      Call ''optimizer.SetGradientMagnitudeTolerance'' [Number (1 / 10 ^ 6)],
      Call ''optimizer.SetMinimumStepLength'' [Number (1 / 10 ^ 6)],
      Call ''optimizer.SetNumberOfIterations'' [Count 200],
      Call ''optimizer.SetRelaxationFactor'' [Number (1 / 2)]]"

definition moving_mask_calls :: "WrapItkRegistration \<Rightarrow> itk_call list" where
  "moving_mask_calls self =
     (case moving_itk_mask self of
        None \<Rightarrow> []
      | Some msk \<Rightarrow>
        [mask_caster_SetInput msk,
         Call ''self._mask_caster.Update'' [],
         Call ''self._mask_caster.GetOutput'' [],
         Call ''moving_itk_mask.DisconnectPipeline'' [],
         Instantiate (ImageMaskSpatialObject (dimension self)),
         New (ImageMaskSpatialObject (dimension self)),
         Call ''moving_mask_object.SetImage'' [],
         metric_SetMovingImageMask])"

definition fixed_mask_calls :: "WrapItkRegistration \<Rightarrow> itk_call list" where
  "fixed_mask_calls self =
     (case fixed_itk_mask self of
        None \<Rightarrow> []
      | Some msk \<Rightarrow>
        [mask_caster_SetInput msk,
         Call ''self._mask_caster.Update'' [],
         Call ''self._mask_caster.GetOutput'' [],
         Call ''fixed_itk_mask.DisconnectPipeline'' [],
         Instantiate (ImageMaskSpatialObject (dimension self)),
         New (ImageMaskSpatialObject (dimension self)),
         Call ''fixed_mask_object.SetImage'' [],
         metric_SetFixedImageMask])"

definition transform_which_works :: "WrapItkRegistration \<Rightarrow> itk_type" where
  "transform_which_works self =
     (if dimension self = 2 then CenteredRigid2DTransform (pixel_type self)
      else VersorRigid3DTransform (pixel_type self))"

definition initializer_calls :: "WrapItkRegistration \<Rightarrow> itk_call list" where
  "initializer_calls self =
     (case initializer_type self of
        None \<Rightarrow> []
      | Some init \<Rightarrow>
        [Instantiate (transform_which_works self),
         New (transform_which_works self),
         Instantiate (CenteredTransformInitializer (transform_which_works self)
                        (image_type self) (image_type self)),
         New (CenteredTransformInitializer (transform_which_works self)
                (image_type self) (image_type self)),
         Call ''initializer.SetTransform'' [],
         Call ''initializer.SetFixedImage'' [Object (fixed_itk self)],
         Call ''initializer.SetMovingImage'' [Object (moving_itk self)],
         (if init = ''MOMENTS'' then Call ''initializer.MomentsOn'' []
          else Call ''initializer.GeometryOn'' []),
         Call ''initializer.InitializeTransform'' [],
         Call ''initial_transform_.GetMatrix'' [],
         Call ''initial_transform.SetMatrix'' [],
         Call ''initial_transform_.GetTranslation'' [],
         Call ''initial_transform.SetTranslation'' [],
         Call ''initial_transform_.GetCenter'' [],
         Call ''initial_transform.SetCenter'' []])"

definition metric_setup_calls :: "WrapItkRegistration \<Rightarrow> itk_call list" where
  "metric_setup_calls self =
     (case metric_value self of
        None \<Rightarrow> []
      | Some T \<Rightarrow>
          New T # moving_mask_calls self @ fixed_mask_calls self
          @ [Call ''registration.SetMetric'' []])"

definition transform_calls :: "WrapItkRegistration \<Rightarrow> itk_call list" where
  "transform_calls self =
     [New (transform_type_value self), Call ''registration.SetTransform'' []]
     @ initializer_calls self
     @ [Call ''initial_transform.GetParameters'' [],
        Call ''registration.SetInitialTransformParameters'' []]"

definition guard_error :: "WrapItkRegistration \<Rightarrow> error option" where
  "guard_error self =
     (if \<not> known_registration_type self then
        Some (ValueError (''Registration type '' @ quoted (registration_type self) @ '' not known.''))
      else if optimizer self \<noteq> ''RegularStepGradientDescent'' then
        Some (ValueError
          (''For '' @ quoted ''ImageRegistrationMethod'' @ '' only RegularStepGradientDescent''))
      else if optimizer_scales self \<noteq> None then
        Some (ValueError (''No scales allowed for '' @ quoted ''ImageRegistrationMethod''))
      else if metric_value self = None then
        Some (UnboundLocalError
          (''local variable '' @ quoted ''metric_type'' @ '' referenced before assignment''))
      else if use_multiresolution_framework self then
        Some (ValueError
          (''Multiresolution-Framework cannot be used with ''
           @ ''ImageRegistrationMethod. ImageRegistrationMethodv4 required.''))
      else None)"

definition setup_calls :: "WrapItkRegistration \<Rightarrow> itk_call list" where
  "setup_calls self =
     (if \<not> known_registration_type self then []
      else Instantiate (transform_type_value self) # interpolator_calls self @ metric_calls self @
        (if optimizer self \<noteq> ''RegularStepGradientDescent'' then []
         else registration_calls self @
           (if optimizer_scales self \<noteq> None then []
            else Call ''registration.SetOptimizer'' [] #
              (if metric_value self = None then []
               else metric_setup_calls self @ transform_calls self))))"

definition reporting :: "itk_call \<Rightarrow> bool" where
  "reporting c =
     (case c of
        Call f xs \<Rightarrow> f \<in> set [''registration.GetTransform'', ''ph.print_info'', ''print'',
          ''sitkh.get_sitk_from_itk_transform'', ''registration.GetOptimizer'',
          ''GetStopConditionDescription'', ''optimizer.GetValue'',
          ''sitkh.print_sitk_transform'', ''ph.stop_timing'']
      | _ \<Rightarrow> False)"

definition type_error :: "WrapItkRegistration \<Rightarrow> error option" where
  "type_error self =
     (if \<not> isinstance (fixed_itk self) (image_type self)
        then Some (ValueError ''Fixed image must be of type itk.Image'')
      else if \<not> isinstance (moving_itk self) (image_type self)
        then Some (ValueError ''Moving image must be of type itk.Image'')
      else if (case fixed_itk_mask self of None \<Rightarrow> False
               | Some msk \<Rightarrow> \<not> isinstance msk (image_type self))
        then Some (ValueError ''Fixed image mask must be of type itk.Image'')
      else if (case moving_itk_mask self of None \<Rightarrow> False
               | Some msk \<Rightarrow> \<not> isinstance msk (image_type self))
        then Some (ValueError ''Moving image mask must be of type itk.Image'')
      else None)"

definition is_schedule :: "arg \<Rightarrow> bool" where
  "is_schedule x = (case x of Schedule _ _ \<Rightarrow> True | _ \<Rightarrow> False)"

definition carries_schedule :: "itk_call \<Rightarrow> bool" where
  "carries_schedule c = (case c of Call f xs \<Rightarrow> list_ex is_schedule xs | _ \<Rightarrow> False)"

definition setup_ok :: "WrapItkRegistration \<Rightarrow> itk_call \<Rightarrow> bool" where
  "setup_ok self c =
     (c \<noteq> registration_Update \<and> \<not> carries_schedule c
      \<and> (c = metric_SetFixedImageMask \<longrightarrow> fixed_itk_mask self \<noteq> None)
      \<and> (c = metric_SetMovingImageMask \<longrightarrow> moving_itk_mask self \<noteq> None)
      \<and> (\<forall>msk. c = mask_caster_SetInput msk \<longrightarrow>
            fixed_itk_mask self = Some msk \<or> moving_itk_mask self = Some msk))"

subsection \<open>Two libraries and an object to run the wrapper on\<close>

text \<open>
  \<open>quiet_itk\<close> never raises. \<open>strict_itk\<close> is as ITK is for interpolators: it has the
  classes \<^verbatim>\<open>LinearInterpolateImageFunction\<close>, \<^verbatim>\<open>NearestNeighborInterpolateImageFunction\<close>,
  \<^verbatim>\<open>BSplineInterpolateImageFunction\<close> and \<^verbatim>\<open>GaussianInterpolateImageFunction\<close>, and the
  lookup of any other \<^verbatim>\<open>itk.<name>InterpolateImageFunction\<close> raises \<^verbatim>\<open>AttributeError\<close>.
  \<open>example_itk\<close> is the object the constructor builds from two three-dimensional images
  of pixel type \<^verbatim>\<open>itk.D\<close> and its default arguments.
\<close>

definition quiet_itk :: itk_world where
  "quiet_itk = \<lparr>itk_raises = (\<lambda>_ _. None), itk_answer = (\<lambda>tr _. Handle (length tr))\<rparr>"

definition strict_itk :: itk_world where
  "strict_itk =
     \<lparr>itk_raises = (\<lambda>_ c.
        case c of
          Instantiate T \<Rightarrow>
            (case T of
               InterpolateImageFunction name _ _ \<Rightarrow>
                 if name \<in> set [''Linear'', ''NearestNeighbor'', ''BSpline'', ''Gaussian''] then None
                 else Some (AttributeError
                   (''module itk has no attribute '' @ name @ ''InterpolateImageFunction''))
             | _ \<Rightarrow> None)
        | _ \<Rightarrow> None),
      itk_answer = (\<lambda>tr _. Handle (length tr))\<rparr>"

definition example_itk :: WrapItkRegistration where
  "example_itk =
     \<lparr>fixed_itk = Instance (Image itk_D 3) 1, fixed_itk_mask = None,
      moving_itk = Instance (Image itk_D 3) 2, moving_itk_mask = None,
      dimension = 3, pixel_type = itk_D, image_type = Image itk_D 3,
      registration_type = ''Rigid'', metric = ''Correlation'', interpolator = ''Linear'',
      initializer_type = None, optimizer = ''RegularStepGradientDescent'',
      use_multiresolution_framework = False, shrink_factors = [2, 1],
      smoothing_sigmas = [1, 0], verbose = True, optimizer_scales = None,
      itk_oriented_gaussian_interpolate_image_filter = None,
      registration_transform_itk = None, computational_time = Handle 1,
      mask_caster = Handle 4, registration_transform_sitk = Missing\<rparr>"

definition multires_itk :: WrapItkRegistration where
  "multires_itk = example_itk\<lparr>use_multiresolution_framework := True\<rparr>"

definition foreign_itk :: WrapItkRegistration where
  "foreign_itk = example_itk\<lparr>fixed_itk := Foreign 1, registration_type := ''Elastic''\<rparr>"

definition unknown_names_itk :: WrapItkRegistration where
  "unknown_names_itk = example_itk\<lparr>interpolator := ''Cubic'', optimizer := ''Adam''\<rparr>"

definition masked_itk :: WrapItkRegistration where
  "masked_itk = example_itk\<lparr>fixed_itk_mask := Some (Instance (Image itk_D 3) 3)\<rparr>"

definition uc_masked_itk :: WrapItkRegistration where
  "uc_masked_itk = example_itk\<lparr>fixed_itk_mask := Some (Instance (Image itk_UC 3) 3)\<rparr>"

subsection \<open>The calls that concern a mask\<close>

text \<open>
  \<open>itk_mask_ok self c\<close>: if \<open>c\<close> is one of the calls by which \<^verbatim>\<open>_run_v3\<close> casts a mask
  and attaches it to the metric, then the mask it concerns is not \<^verbatim>\<open>None\<close>. The calls
  on \<^verbatim>\<open>moving_itk_mask\<close>, \<^verbatim>\<open>moving_mask_object\<close> and \<^verbatim>\<open>metric.SetMovingImageMask\<close>
  concern the moving mask, their counterparts the fixed mask; the caster is given one of
  the two masks; and the caster's \<^verbatim>\<open>Update\<close> and \<^verbatim>\<open>GetOutput\<close> and the class
  \<^verbatim>\<open>itk.ImageMaskSpatialObject\<close> are used for either. \<open>before_update calls ys\<close>: the
  calls \<open>calls\<close> are made one after the other, in this order, somewhere in \<open>ys\<close> before
  the first \<^verbatim>\<open>registration.Update()\<close>, which is made.
\<close>

definition itk_mask_ok :: "WrapItkRegistration \<Rightarrow> itk_call \<Rightarrow> bool" where
  "itk_mask_ok self c =
     ((c \<in> {Call ''moving_itk_mask.DisconnectPipeline'' [], Call ''moving_mask_object.SetImage'' [],
            metric_SetMovingImageMask} \<longrightarrow> moving_itk_mask self \<noteq> None)
      \<and> (c \<in> {Call ''fixed_itk_mask.DisconnectPipeline'' [], Call ''fixed_mask_object.SetImage'' [],
            metric_SetFixedImageMask} \<longrightarrow> fixed_itk_mask self \<noteq> None)
      \<and> (\<forall>msk. c = mask_caster_SetInput msk \<longrightarrow>
            fixed_itk_mask self = Some msk \<or> moving_itk_mask self = Some msk)
      \<and> (c \<in> {Call ''self._mask_caster.Update'' [], Call ''self._mask_caster.GetOutput'' []}
            \<longrightarrow> fixed_itk_mask self \<noteq> None \<or> moving_itk_mask self \<noteq> None)
      \<and> (\<forall>n. c = Instantiate (ImageMaskSpatialObject n) \<or> c = New (ImageMaskSpatialObject n)
            \<longrightarrow> fixed_itk_mask self \<noteq> None \<or> moving_itk_mask self \<noteq> None))"

definition before_update :: "itk_call list \<Rightarrow> itk_call list \<Rightarrow> bool" where
  "before_update calls ys =
     (\<exists>pre post. ys = pre @ calls @ post \<and> registration_Update \<notin> set pre
        \<and> registration_Update \<notin> set calls \<and> registration_Update \<in> set post)"

subsection \<open>The calls of the NiftyReg wrappers\<close>

text \<open>
  \<open>temporary_files\<close> is what \<^verbatim>\<open>NiftyReg.__init__\<close> establishes about the paths and what
  no method changes. \<open>niftyreg_calls\<close> are the calls of \<^verbatim>\<open>NiftyReg._run\<close> and \<open>nreg_calls\<close>
  those that configure and run the nipype interface; \<open>output\<close> is the one input in which
  \<^verbatim>\<open>RegAladin\<close> (\<^verbatim>\<open>aff_file\<close>) and \<^verbatim>\<open>RegF3D\<close> (\<^verbatim>\<open>cpp_file\<close>) differ.
\<close>

definition temporary_files :: "string \<Rightarrow> string \<Rightarrow> 'a NiftyReg_scheme \<Rightarrow> bool" where
  "temporary_files DIR_TMP subfolder self =
     (dir_tmp self = os_path_join DIR_TMP subfolder
      \<and> fixed_str self = os_path_join (dir_tmp self) ''fixed.nii.gz''
      \<and> moving_str self = os_path_join (dir_tmp self) ''moving.nii.gz''
      \<and> warped_moving_str self = os_path_join (dir_tmp self) ''warped_moving.nii.gz''
      \<and> fixed_mask_str self = os_path_join (dir_tmp self) ''fixed_mask.nii.gz''
      \<and> moving_mask_str self = os_path_join (dir_tmp self) ''moving_mask.nii.gz''
      \<and> warped_moving_mask_str self = os_path_join (dir_tmp self) ''warped_mask.nii.gz'')"

definition niftyreg_calls :: "'a NiftyReg_scheme \<Rightarrow> nr_call list" where
  "niftyreg_calls self =
     [create_directory (dir_tmp self) True,
      WriteImage (fixed_sitk self) (fixed_str self),
      WriteImage (moving_sitk self) (moving_str self)]
     @ (if fixed_sitk_mask self \<noteq> None
        then [WriteImage (fixed_sitk_mask self) (fixed_mask_str self)] else [])
     @ (if moving_sitk_mask self \<noteq> None
        then [WriteImage (moving_sitk_mask self) (moving_mask_str self)] else [])"

definition nreg_calls ::
  "nreg_interface \<Rightarrow> nreg_input \<Rightarrow> bool \<Rightarrow> 'a NiftyReg_scheme \<Rightarrow> nr_call list" where
  "nreg_calls interface output debug self =
     [nreg_new interface,
      nreg_inputs (ref_file (fixed_str self)),
      nreg_inputs (flo_file (moving_str self)),
      nreg_inputs (res_file (warped_moving_str self)),
      nreg_inputs output,
      nreg_inputs (omp_core_val (omp_cores self)),
      nreg_inputs (args (options self))]
     @ (if fixed_sitk_mask self \<noteq> None
        then [nreg_inputs (rmask_file (fixed_mask_str self))] else [])
     @ (if moving_sitk_mask self \<noteq> None
        then [nreg_inputs (fmask_file (moving_mask_str self))] else [])
     @ (if debug then [nreg_cmdline] else [])
     @ [nreg_run]"

definition RegAladin_calls :: "bool \<Rightarrow> RegAladin \<Rightarrow> nr_call list" where
  "RegAladin_calls debug self =
     niftyreg_calls self
     @ nreg_calls RegAladin_interface (aff_file (registration_transform_str self)) debug self"

definition RegF3D_calls :: "bool \<Rightarrow> RegF3D \<Rightarrow> nr_call list" where
  "RegF3D_calls debug self =
     niftyreg_calls self
     @ nreg_calls RegF3D_interface (cpp_file (registration_control_point_grid_str self)) debug self"

subsection \<open>The change of coordinates, in the words of the specification\<close>

text \<open>
  \<open>reflection d\<close> is the \<open>d\<close>-by-\<open>d\<close> identity matrix with the entries (0,0) and (1,1)
  negated; \<open>mat_mult\<close> and \<open>mat_vec\<close> are the product of two matrices and of a matrix and
  a vector, entry by entry. They are used for float64 and, in the proofs, for the real
  numbers. \<open>is_finite\<close> holds of the float64 that are numbers.
\<close>

definition reflection :: "nat \<Rightarrow> 'a::{zero,one,uminus} list list" where
  "reflection d =
     map (\<lambda>i. map (\<lambda>j. if i = j then (if i < 2 then - 1 else 1) else 0) [0..<d]) [0..<d]"

definition mat_mult :: "'a::{comm_monoid_add,times} list list \<Rightarrow> 'a list list \<Rightarrow> 'a list list" where
  "mat_mult a b =
     map (\<lambda>row. map (\<lambda>j. \<Sum>k<length b. row ! k * b ! k ! j) [0..<ncols b]) a"

definition mat_vec :: "'a::{comm_monoid_add,times} list list \<Rightarrow> 'a list \<Rightarrow> 'a list" where
  "mat_vec a v = map (\<lambda>row. \<Sum>k<length v. row ! k * v ! k) a"

fun is_finite :: "float64 \<Rightarrow> bool" where
  "is_finite (Finite x) = True"
| "is_finite a = False"

fun value_of :: "float64 \<Rightarrow> real" where
  "value_of (Finite x) = x"
| "value_of a = 0"

text \<open>
  \<open>converted d a\<close> is the arithmetic of \<^verbatim>\<open>_convert_to_sitk_transform\<close> between its two
  calls: from the dimension and the array read to the flattened matrix and the
  translation handed to \<^verbatim>\<open>sitk.AffineTransform\<close>, or to the exception numpy raises.
\<close>

definition converted :: "nat \<Rightarrow> ndarray \<Rightarrow> error + (matrix \<times> float64 list)" where
  "converted d a =
     (case np_slice_block a d of Inl e \<Rightarrow> Inl e | Inr A \<Rightarrow>
      case np_slice_last_column a d of Inl e \<Rightarrow> Inl e | Inr t \<Rightarrow>
      case np_setitem (np_eye d) 0 0 (- 1) of Inl e \<Rightarrow> Inl e | Inr R0 \<Rightarrow>
      case np_setitem R0 1 1 (- 1) of Inl e \<Rightarrow> Inl e | Inr R \<Rightarrow>
      case np_dot R A of Inl e \<Rightarrow> Inl e | Inr RA \<Rightarrow>
      case np_dot RA R of Inl e \<Rightarrow> Inl e | Inr RAR \<Rightarrow>
      case np_dot_vec R t of Inl e \<Rightarrow> Inl e | Inr Rt \<Rightarrow> Inr (RAR, Rt))"

subsection \<open>A file system that never fails, and two wrappers to run on it\<close>

text \<open>
  In \<open>quiet_nr\<close> no call raises, every image read is the same three-dimensional image, and
  the transform file holds the 4-by-4 matrix \<open>example_matrix\<close>. \<open>example_aladin\<close> and
  \<open>example_f3d\<close> are built by the constructors with a fixed mask and no moving mask.
  \<open>inf_nr\<close> differs from \<open>quiet_nr\<close> in the transform file, whose first entry is \<^verbatim>\<open>inf\<close>.
\<close>

definition example_matrix :: ndarray where
  "example_matrix = Array2 [[1, 2, 3, 4], [5, 6, 7, 8], [9, 10, 11, 12], [0, 0, 0, 1]]"

definition inf_matrix :: matrix where
  "inf_matrix = [[PInf, 0, 0, 0], [0, 1, 0, 0], [0, 0, 1, 0], [0, 0, 0, 1]]"

definition quiet_nr :: nr_world where
  "quiet_nr = \<lparr>nr_raises = (\<lambda>_ _. None), nr_image = (\<lambda>_ _. SitkImage 3 8 7),
     nr_matrix = (\<lambda>_ _. example_matrix)\<rparr>"

definition inf_nr :: nr_world where
  "inf_nr = \<lparr>nr_raises = (\<lambda>_ _. None), nr_image = (\<lambda>_ _. SitkImage 3 8 7),
     nr_matrix = (\<lambda>_ _. Array2 inf_matrix)\<rparr>"

definition example_aladin :: RegAladin where
  "example_aladin =
     RegAladin_init ''/tmp'' (Some (SitkImage 3 8 1)) (Some (SitkImage 3 8 2))
       (Some (SitkImage 3 1 3)) None ''-voff'' ''RegAladin'' 8"

definition example_f3d :: RegF3D where
  "example_f3d =
     RegF3D_init ''/tmp'' (Some (SitkImage 3 8 1)) (Some (SitkImage 3 8 2))
       (Some (SitkImage 3 1 3)) None ''-voff'' ''RegF3D'' 8"

definition aladin_files :: "string \<Rightarrow> string \<Rightarrow> RegAladin \<Rightarrow> bool" where
  "aladin_files DIR_TMP subfolder self =
     (temporary_files DIR_TMP subfolder self
      \<and> registration_transform_str self = os_path_join (dir_tmp self) ''registration_transform.txt'')"

definition f3d_files :: "string \<Rightarrow> string \<Rightarrow> RegF3D \<Rightarrow> bool" where
  "f3d_files DIR_TMP subfolder self =
     (temporary_files DIR_TMP subfolder self
      \<and> registration_control_point_grid_str self
          = os_path_join (dir_tmp self) ''registration_cpp.nii.gz'')"

definition reading :: "nr_call \<Rightarrow> bool" where
  "reading c =
     (case c of ReadImage _ \<Rightarrow> True | loadtxt _ \<Rightarrow> True | sitk_AffineTransform _ _ \<Rightarrow> True
      | _ \<Rightarrow> False)"

definition mask_ok :: "'a NiftyReg_scheme \<Rightarrow> nr_call \<Rightarrow> bool" where
  "mask_ok self c =
     ((\<forall>img. c = WriteImage img (fixed_mask_str self) \<longrightarrow>
         fixed_sitk_mask self \<noteq> None \<and> img = fixed_sitk_mask self)
      \<and> (\<forall>img. c = WriteImage img (moving_mask_str self) \<longrightarrow>
         moving_sitk_mask self \<noteq> None \<and> img = moving_sitk_mask self)
      \<and> (\<forall>p. c = nreg_inputs (rmask_file p) \<longrightarrow>
         fixed_sitk_mask self \<noteq> None \<and> p = fixed_mask_str self)
      \<and> (\<forall>p. c = nreg_inputs (fmask_file p) \<longrightarrow>
         moving_sitk_mask self \<noteq> None \<and> p = moving_mask_str self))"

section \<open>Running a program step by step\<close>

lemma ret_apply: "ret x s = (Inr x, s)"
  by (simp add: ret_def)

lemma raise_apply: "raise e s = (Inl e, s)"
  by (simp add: raise_def)

lemma bind_apply:
  "bind p f s = (case p s of (Inl e, s') \<Rightarrow> (Inl e, s') | (Inr x, s') \<Rightarrow> f x s')"
  by (simp add: bind_def)

lemma py_if_apply: "py_if b p s = (if b then p s else (Inr (), s))"
  by (simp add: py_if_def ret_def)

lemma get_self_apply: "get_self (self, tr) = (Inr self, (self, tr))"
  by (simp add: get_self_def)

lemma modify_apply: "modify f (self, tr) = (Inr (), (f self, tr))"
  by (simp add: modify_def)

lemma lift_apply: "lift r s = (r, s)"
  by (simp add: lift_def)

lemma query_apply:
  "query raises answer c (self, tr) =
     (case raises tr c of
        Some e \<Rightarrow> (Inl e, (self, tr @ [c]))
      | None \<Rightarrow> (Inr (answer tr c), (self, tr @ [c])))"
  by (simp add: query_def)

lemma call_apply:
  "call raises c (self, tr) =
     (case raises tr c of
        Some e \<Rightarrow> (Inl e, (self, tr @ [c]))
      | None \<Rightarrow> (Inr (), (self, tr @ [c])))"
  by (simp add: call_def query_def)

lemmas exec = ret_apply raise_apply bind_apply py_if_apply get_self_apply modify_apply
  lift_apply query_apply call_apply

section \<open>Rules for lists of calls\<close>

lemma steps_refl: "steps raises [] p p self"
  by (simp add: steps_def)

lemma steps_query:
  "steps raises [c] (ret v) (query raises (\<lambda>_ _. v) c) self"
  unfolding steps_def stopped_def
  by (auto simp: exec split: option.splits)

lemma steps_call: "steps raises [c] (ret ()) (call raises c) self"
  unfolding call_def by (rule steps_query)

lemma stopped_append1:
  "stopped raises cs tr self (Inl e :: error + 'a) s' \<Longrightarrow> stopped raises (cs @ ds) tr self (Inl e :: error + 'b) s'"
  unfolding stopped_def by auto

lemma stopped_Inl: "stopped raises cs tr self r s' \<Longrightarrow> \<exists>e. r = Inl e"
  unfolding stopped_def by auto

lemma stopped_append2:
  "stopped raises ds (tr @ cs) self r s' \<Longrightarrow> stopped raises (cs @ ds) tr self r s'"
  unfolding stopped_def
  apply clarify
  subgoal for ys zs e
    apply (rule exI[of _ "cs @ ys"], rule exI[of _ zs], rule exI[of _ e])
    by (simp add: butlast_append)
  done

lemma steps_bind:
  assumes p: "steps raises cs (ret x) p self" and f: "steps raises ds k (f x) self"
  shows "steps raises (cs @ ds) k (bind p f) self"
  unfolding steps_def
proof (intro allI impI)
  fix tr r s'
  assume run: "bind p f (self, tr) = (r, s')"
  obtain r1 s1 where p1: "p (self, tr) = (r1, s1)" by (metis surj_pair)
  from p p1 have "stopped raises cs tr self r1 s1 \<or> ret x (self, tr @ cs) = (r1, s1)"
    unfolding steps_def by blast
  then show "stopped raises (cs @ ds) tr self r s' \<or> k (self, tr @ cs @ ds) = (r, s')"
  proof
    assume st: "stopped raises cs tr self r1 s1"
    then obtain e where "r1 = Inl e" unfolding stopped_def by blast
    with run p1 have "r = Inl e" "s' = s1" by (simp_all add: bind_apply)
    with st \<open>r1 = Inl e\<close> show ?thesis unfolding stopped_def by auto
  next
    assume "ret x (self, tr @ cs) = (r1, s1)"
    then have "r1 = Inr x" "s1 = (self, tr @ cs)" by (simp_all add: ret_apply)
    with run p1 have "f x (self, tr @ cs) = (r, s')" by (simp add: bind_apply)
    with f have "stopped raises ds (tr @ cs) self r s' \<or> k (self, (tr @ cs) @ ds) = (r, s')"
      unfolding steps_def by blast
    then show ?thesis using stopped_append2 by fastforce
  qed
qed

lemma steps_bind_raise:
  assumes p: "steps raises cs (raise e) p self"
  shows "steps raises cs (raise e) (bind p f) self"
  unfolding steps_def
proof (intro allI impI)
  fix tr r s'
  assume run: "bind p f (self, tr) = (r, s')"
  obtain r1 s1 where p1: "p (self, tr) = (r1, s1)" by (metis surj_pair)
  from p p1 have "stopped raises cs tr self r1 s1 \<or> raise e (self, tr @ cs) = (r1, s1)"
    unfolding steps_def by blast
  then show "stopped raises cs tr self r s' \<or> raise e (self, tr @ cs) = (r, s')"
  proof
    assume st: "stopped raises cs tr self r1 s1"
    then obtain e' where "r1 = Inl e'" unfolding stopped_def by blast
    with run p1 have "r = Inl e'" "s' = s1" by (simp_all add: bind_apply)
    with st \<open>r1 = Inl e'\<close> show ?thesis unfolding stopped_def by auto
  next
    assume "raise e (self, tr @ cs) = (r1, s1)"
    then have "r1 = Inl e" "s1 = (self, tr @ cs)" by (simp_all add: raise_apply)
    with run p1 show ?thesis by (simp add: bind_apply raise_apply)
  qed
qed

lemma steps_get_self:
  "steps raises cs k (f self) self \<Longrightarrow> steps raises cs k (bind get_self f) self"
  by (simp add: steps_def bind_apply get_self_apply)

lemma steps_block_Nil: "steps raises [] (ret ()) (block []) self"
  by (simp add: steps_refl)

lemma steps_block_Cons:
  "steps raises cs (ret ()) p self \<Longrightarrow> steps raises ds k (block ps) self
   \<Longrightarrow> steps raises (cs @ ds) k (block (p # ps)) self"
  by (simp add: steps_bind)

lemma steps_block_raise:
  "steps raises cs (raise e) p self \<Longrightarrow> steps raises cs (raise e) (block (p # ps)) self"
  by (simp add: steps_bind_raise)

lemma block_single: "block [p] = p"
  by (rule ext) (simp add: exec split: prod.splits sum.splits)

lemma steps_eq: "steps raises cs k p self \<Longrightarrow> cs = cs' \<Longrightarrow> steps raises cs' k p self"
  by simp

lemma steps_block_last: "steps raises [] p (block [p]) self"
  by (simp only: block_single steps_refl)

lemma steps_py_if_False: "\<not> b \<Longrightarrow> steps raises [] (ret ()) (py_if b p) self"
  by (simp add: py_if_def steps_refl)

lemma steps_py_if_raise: "b \<Longrightarrow> steps raises [] (raise e) (py_if b (raise e)) self"
  by (simp add: py_if_def steps_refl)

lemmas steps_rules = steps_block_Cons steps_block_Nil steps_call steps_query steps_bind

lemma emits_ret: "emits P (ret x)"
  by (simp add: emits_def exec)

lemma emits_raise: "emits P (raise e)"
  by (simp add: emits_def exec)

lemma emits_get_self: "emits P get_self"
  by (simp add: emits_def exec)

lemma emits_modify: "emits P (modify f)"
  by (simp add: emits_def exec)

lemma emits_query: "P c \<Longrightarrow> emits P (query raises answer c)"
  by (simp add: emits_def exec split: option.splits)

lemma emits_call: "P c \<Longrightarrow> emits P (call raises c)"
  by (simp add: call_def emits_query)

lemma emits_bind:
  assumes p: "emits P p" and f: "\<And>x. emits P (f x)"
  shows "emits P (bind p f)"
  unfolding emits_def
proof (intro allI)
  fix self tr
  obtain r self1 tr1 where p1: "p (self, tr) = (r, (self1, tr1))"
    by (metis surj_pair)
  from p obtain ys where ys: "tr1 = tr @ ys" "list_all P ys"
    unfolding emits_def by (metis p1 snd_conv)
  show "\<exists>zs. snd (snd (bind p f (self, tr))) = tr @ zs \<and> list_all P zs"
  proof (cases r)
    case (Inl e)
    with p1 ys show ?thesis by (simp add: bind_apply)
  next
    case (Inr x)
    from f [of x] obtain zs where "snd (snd (f x (self1, tr1))) = tr1 @ zs" "list_all P zs"
      unfolding emits_def by blast
    with Inr p1 ys show ?thesis by (simp add: bind_apply)
  qed
qed

lemma emits_py_if: "emits P p \<Longrightarrow> emits P (py_if b p)"
  by (simp add: py_if_def emits_ret)

lemma emits_block_Nil: "emits P (block [])"
  by (simp add: emits_ret)

lemma emits_block_Cons: "emits P p \<Longrightarrow> emits P (block ps) \<Longrightarrow> emits P (block (p # ps))"
  by (simp add: emits_bind)

lemmas emits_rules = emits_ret emits_raise emits_get_self emits_modify emits_query emits_call
  emits_bind emits_py_if emits_block_Nil emits_block_Cons

lemma preserves_ret: "preserves f (ret x)"
  by (simp add: preserves_def exec)

lemma preserves_raise: "preserves f (raise e)"
  by (simp add: preserves_def exec)

lemma preserves_lift: "preserves f (lift r)"
  by (simp add: preserves_def exec)

lemma preserves_get_self: "preserves f get_self"
  by (simp add: preserves_def get_self_def split: prod.splits)

lemma preserves_query: "preserves f (query raises answer c)"
  by (simp add: preserves_def query_def split: prod.splits option.splits)

lemma preserves_call: "preserves f (call raises c)"
  by (simp add: call_def preserves_query)

lemma preserves_modify: "(\<And>self. f (g self) = f self) \<Longrightarrow> preserves f (modify g)"
  by (simp add: preserves_def modify_def split: prod.splits)

lemma preserves_bind:
  assumes p: "preserves f p" and g: "\<And>x. preserves f (g x)"
  shows "preserves f (bind p g)"
  unfolding preserves_def
proof
  fix s
  obtain r s1 where p1: "p s = (r, s1)"
    by (metis surj_pair)
  from p p1 have s1: "f (fst s1) = f (fst s)"
    unfolding preserves_def by (metis snd_conv)
  show "f (fst (snd (bind p g s))) = f (fst s)"
  proof (cases r)
    case (Inl e)
    with p1 s1 show ?thesis by (simp add: bind_apply)
  next
    case (Inr x)
    from g [of x] have "f (fst (snd (g x s1))) = f (fst s1)"
      unfolding preserves_def by blast
    with Inr p1 s1 show ?thesis by (simp add: bind_apply)
  qed
qed

lemma preserves_py_if: "preserves f p \<Longrightarrow> preserves f (py_if b p)"
  by (simp add: py_if_def preserves_ret)

lemma preserves_block_Nil: "preserves f (block [])"
  by (simp add: preserves_ret)

lemma preserves_block_Cons:
  "preserves f p \<Longrightarrow> preserves f (block ps) \<Longrightarrow> preserves f (block (p # ps))"
  by (simp add: preserves_bind)

lemmas preserves_rules = preserves_ret preserves_raise preserves_lift preserves_get_self
  preserves_query preserves_call preserves_modify preserves_bind preserves_py_if
  preserves_block_Nil preserves_block_Cons

lemma steps_cases:
  assumes "steps raises cs k p self" and "p (self, tr) = (r, s')"
  obtains (stopped) ys zs e where "ys \<noteq> []" "cs = ys @ zs" "s' = (self, tr @ ys)" "r = Inl e"
      "raises (tr @ butlast ys) (last ys) = Some e"
    | (continued) "k (self, tr @ cs) = (r, s')"
  using assms unfolding steps_def stopped_def by blast

lemma steps_py_if_call:
  "steps raises (if b then [c] else []) (ret ()) (py_if b (call raises c)) self"
  by (simp add: py_if_def steps_call steps_refl)

lemma emits_lift: "emits P (lift r)"
  by (simp add: emits_def exec)

lemma emits_outcome:
  assumes "emits P p" and "p (self, tr) = (r, (self', tr'))"
  obtains zs where "tr' = tr @ zs" "list_all P zs"
  using assms unfolding emits_def by (metis snd_conv)

section \<open>What \<^verbatim>\<open>_run_v3\<close> does\<close>

lemma transform_type_of_unknown:
  "\<not> known_registration_type self \<Longrightarrow>
   steps (itk_raises w) []
     (raise (ValueError (''Registration type '' @ quoted (registration_type self) @ '' not known.'')))
     (transform_type_of w) self"
  unfolding transform_type_of_def known_registration_type_def
  by (rule steps_get_self) (simp add: steps_refl)

lemma transform_type_of_known:
  "known_registration_type self \<Longrightarrow>
   steps (itk_raises w) [Instantiate (transform_type_value self)] (ret (transform_type_value self))
     (transform_type_of w) self"
  unfolding transform_type_of_def known_registration_type_def transform_type_value_def instantiate_def
  by (rule steps_get_self) (auto intro: steps_query)

lemma interpolator_of_steps:
  "steps (itk_raises w) (interpolator_calls self) (ret (interpolator_value self))
     (interpolator_of w) self"
  unfolding interpolator_of_def interpolator_calls_def interpolator_value_def
    interpolator_type_value_def instantiate_def itk_do_def
  apply (rule steps_get_self)
  apply (cases "itk_oriented_gaussian_interpolate_image_filter self")
   apply (simp only: option.case)
   apply (rule steps_eq)
    apply (rule steps_bind)
     apply (rule steps_query)
    apply (rule steps_bind)
     apply (rule steps_call)
    apply (rule steps_refl)
   apply simp
  apply (simp only: option.case)
  apply (rule steps_refl)
  done

lemma metric_type_of_steps:
  "steps (itk_raises w) (metric_calls self) (ret (metric_value self)) (metric_type_of w) self"
proof -
  consider (c) "metric self = ''Correlation''"
    | (m) "metric self = ''MattesMutualInformation''"
    | (s) "metric self = ''MeanSquares''"
    | (n) "metric self \<noteq> ''Correlation''" "metric self \<noteq> ''MattesMutualInformation''"
          "metric self \<noteq> ''MeanSquares''"
    by blast
  then show ?thesis
  proof cases
    case c
    then show ?thesis
      unfolding metric_type_of_def metric_calls_def metric_value_def instantiate_def itk_do_def
      apply (intro steps_get_self)
      apply simp
      apply (rule steps_eq, rule steps_bind, rule steps_query, rule steps_refl)
      apply simp
      done
  next
    case m
    then show ?thesis
      unfolding metric_type_of_def metric_calls_def metric_value_def instantiate_def itk_do_def
      apply (intro steps_get_self)
      apply simp
      apply (rule steps_eq, rule steps_bind, rule steps_query, rule steps_bind, rule steps_call,
          rule steps_refl)
      apply simp
      done
  next
    case s
    then show ?thesis
      unfolding metric_type_of_def metric_calls_def metric_value_def instantiate_def itk_do_def
      apply (intro steps_get_self)
      apply simp
      apply (rule steps_eq, rule steps_bind, rule steps_query, rule steps_refl)
      apply simp
      done
  next
    case n
    then show ?thesis
      unfolding metric_type_of_def metric_calls_def metric_value_def
      apply (intro steps_get_self)
      apply (simp add: steps_refl)
      done
  qed
qed

lemma optimizer_type_of_other:
  "optimizer self \<noteq> ''RegularStepGradientDescent'' \<Longrightarrow>
   steps (itk_raises w) []
     (raise (ValueError
        (''For '' @ quoted ''ImageRegistrationMethod'' @ '' only RegularStepGradientDescent'')))
     (optimizer_type_of w) self"
  unfolding optimizer_type_of_def
  by (rule steps_get_self) (simp add: steps_refl)

lemma optimizer_type_of_known:
  "optimizer self = ''RegularStepGradientDescent'' \<Longrightarrow>
   steps (itk_raises w) [Instantiate RegularStepGradientDescentOptimizer]
     (ret RegularStepGradientDescentOptimizer) (optimizer_type_of w) self"
  unfolding optimizer_type_of_def instantiate_def
  by (rule steps_get_self) (simp add: steps_query)

lemma configure_registration_scales:
  "optimizer_scales self \<noteq> None \<Longrightarrow>
   steps (itk_raises w) (tl (registration_calls self))
     (raise (ValueError (''No scales allowed for '' @ quoted ''ImageRegistrationMethod'')))
     (configure_registration w (interpolator_value self) RegularStepGradientDescentOptimizer) self"
  unfolding configure_registration_def registration_calls_def instantiate_def itk_do_def
  apply (rule steps_get_self)
  apply (rule steps_eq)
   apply (rule steps_bind, rule steps_query)
   apply (rule steps_block_Cons, rule steps_call)+
   apply (rule steps_block_raise)
   apply (erule steps_py_if_raise)
  apply simp
  done

lemma configure_registration_steps:
  "optimizer_scales self = None \<Longrightarrow>
   steps (itk_raises w) (tl (registration_calls self) @ [Call ''registration.SetOptimizer'' []])
     (ret ())
     (configure_registration w (interpolator_value self) RegularStepGradientDescentOptimizer) self"
  unfolding configure_registration_def registration_calls_def instantiate_def itk_do_def
  apply (rule steps_get_self)
  apply (rule steps_eq)
   apply (rule steps_bind, rule steps_query)
   apply (rule steps_block_Cons, rule steps_call)+
   apply (rule steps_block_Cons, rule steps_py_if_False, simp)
   apply (rule steps_rules)+
  apply simp
  done

lemma set_moving_mask_steps:
  "steps (itk_raises w) (moving_mask_calls self) (ret ()) (set_moving_mask w) self"
  unfolding set_moving_mask_def moving_mask_calls_def instantiate_def itk_do_def
  apply (rule steps_get_self)
  apply (cases "moving_itk_mask self")
   apply (simp only: option.case)
   apply (rule steps_refl)
  apply (simp only: option.case)
  apply (rule steps_eq)
   apply (rule steps_rules)+
  apply simp
  done

lemma set_fixed_mask_steps:
  "steps (itk_raises w) (fixed_mask_calls self) (ret ()) (set_fixed_mask w) self"
  unfolding set_fixed_mask_def fixed_mask_calls_def instantiate_def itk_do_def
  apply (rule steps_get_self)
  apply (cases "fixed_itk_mask self")
   apply (simp only: option.case)
   apply (rule steps_refl)
  apply (simp only: option.case)
  apply (rule steps_eq)
   apply (rule steps_rules)+
  apply simp
  done

lemma initialize_transform_steps:
  "steps (itk_raises w) (initializer_calls self) (ret ()) (initialize_transform w) self"
  unfolding initialize_transform_def initializer_calls_def transform_which_works_def[symmetric]
    instantiate_def itk_do_def
  apply (rule steps_get_self)
  apply (cases "initializer_type self")
   apply (simp only: option.case)
   apply (rule steps_refl)
  subgoal for init
    apply (simp only: option.case)
    apply (cases "init = ''MOMENTS''")
     apply (simp del: block.simps)
     apply (rule steps_eq)
      apply (rule steps_rules)+
     apply simp
    apply (simp del: block.simps)
    apply (rule steps_eq)
     apply (rule steps_rules)+
    apply simp
    done
  done

lemma configure_metric_unbound:
  "steps (itk_raises w) []
     (raise (UnboundLocalError
        (''local variable '' @ quoted ''metric_type'' @ '' referenced before assignment'')))
     (configure_metric w None) self"
  unfolding configure_metric_def
  by (rule steps_block_raise) (simp add: steps_refl)

lemma configure_metric_steps:
  "metric_value self = Some T \<Longrightarrow>
   steps (itk_raises w) (metric_setup_calls self) (ret ()) (configure_metric w (Some T)) self"
  unfolding configure_metric_def metric_setup_calls_def itk_do_def
  apply (simp only: option.case)
  apply (rule steps_eq)
   apply (rule steps_block_Cons, rule steps_call)
   apply (rule steps_block_Cons, rule set_moving_mask_steps)
   apply (rule steps_block_Cons, rule set_fixed_mask_steps)
   apply (rule steps_rules)+
  apply simp
  done

lemma configure_transform_steps:
  "steps (itk_raises w) (transform_calls self) (ret ())
     (configure_transform w (transform_type_value self)) self"
  unfolding configure_transform_def transform_calls_def itk_do_def
  apply (rule steps_eq)
   apply (rule steps_block_Cons, rule steps_call)
   apply (rule steps_block_Cons, rule steps_call)
   apply (rule steps_block_Cons, rule initialize_transform_steps)
   apply (rule steps_rules)+
  apply simp
  done

lemma multiresolution_guard_raise:
  "use_multiresolution_framework self \<Longrightarrow>
   steps raises []
     (raise (ValueError
        (''Multiresolution-Framework cannot be used with ''
         @ ''ImageRegistrationMethod. ImageRegistrationMethodv4 required.'')))
     multiresolution_guard self"
  unfolding multiresolution_guard_def
  by (rule steps_get_self) (erule steps_py_if_raise)

lemma multiresolution_guard_pass:
  "\<not> use_multiresolution_framework self \<Longrightarrow> steps raises [] (ret ()) multiresolution_guard self"
  unfolding multiresolution_guard_def
  by (rule steps_get_self) (erule steps_py_if_False)

lemma configure_metric_unbound':
  "metric_value self = None \<Longrightarrow>
   steps (itk_raises w) []
     (raise (UnboundLocalError
        (''local variable '' @ quoted ''metric_type'' @ '' referenced before assignment'')))
     (configure_metric w (metric_value self)) self"
proof -
  assume unbound: "metric_value self = None"
  show ?thesis unfolding unbound by (rule configure_metric_unbound)
qed

lemma configure_metric_steps':
  "metric_value self = Some T \<Longrightarrow>
   steps (itk_raises w) (metric_setup_calls self) (ret ()) (configure_metric w (metric_value self)) self"
  using configure_metric_steps [of self T w] by simp

lemma run_v3_steps:
  "steps (itk_raises w) (setup_calls self)
     (case guard_error self of Some e \<Rightarrow> raise e | None \<Rightarrow> execute_registration w)
     (run_v3 w) self"
proof (cases "known_registration_type self")
  case False
  have "steps (itk_raises w) []
     (raise (ValueError (''Registration type '' @ quoted (registration_type self) @ '' not known.'')))
     (run_v3 w) self"
    unfolding run_v3_def
    by (rule steps_bind_raise, rule transform_type_of_unknown [OF False])
  with False show ?thesis
    by (simp add: setup_calls_def guard_error_def)
next
  case known: True
  show ?thesis
  proof (cases "optimizer self = ''RegularStepGradientDescent''")
    case False
    have "steps (itk_raises w)
       (Instantiate (transform_type_value self) # interpolator_calls self @ metric_calls self)
       (raise (ValueError
          (''For '' @ quoted ''ImageRegistrationMethod'' @ '' only RegularStepGradientDescent'')))
       (run_v3 w) self"
      unfolding run_v3_def
      apply (rule steps_eq)
       apply (rule steps_bind [OF transform_type_of_known [OF known]])
       apply (rule steps_bind [OF interpolator_of_steps])
       apply (rule steps_bind [OF metric_type_of_steps])
       apply (rule steps_bind_raise)
       apply (rule optimizer_type_of_other [OF False])
      apply simp
      done
    with known False show ?thesis
      by (simp add: setup_calls_def guard_error_def)
  next
    case opt: True
    show ?thesis
    proof (cases "optimizer_scales self = None")
      case False
      have "steps (itk_raises w)
         (Instantiate (transform_type_value self) # interpolator_calls self @ metric_calls self
          @ registration_calls self)
         (raise (ValueError (''No scales allowed for '' @ quoted ''ImageRegistrationMethod'')))
         (run_v3 w) self"
        unfolding run_v3_def
        apply (rule steps_eq)
         apply (rule steps_bind [OF transform_type_of_known [OF known]])
         apply (rule steps_bind [OF interpolator_of_steps])
         apply (rule steps_bind [OF metric_type_of_steps])
         apply (rule steps_bind [OF optimizer_type_of_known [OF opt]])
         apply (rule steps_block_raise)
         apply (rule configure_registration_scales [OF False])
        apply (simp add: registration_calls_def)
        done
      with known opt False show ?thesis
        by (simp add: setup_calls_def guard_error_def)
    next
      case scales: True
      show ?thesis
      proof (cases "metric_value self")
        case None
        have "steps (itk_raises w)
           (Instantiate (transform_type_value self) # interpolator_calls self @ metric_calls self
            @ registration_calls self @ [Call ''registration.SetOptimizer'' []])
           (raise (UnboundLocalError
              (''local variable '' @ quoted ''metric_type'' @ '' referenced before assignment'')))
           (run_v3 w) self"
          unfolding run_v3_def
          apply (rule steps_eq)
           apply (rule steps_bind [OF transform_type_of_known [OF known]])
           apply (rule steps_bind [OF interpolator_of_steps])
           apply (rule steps_bind [OF metric_type_of_steps])
           apply (rule steps_bind [OF optimizer_type_of_known [OF opt]])
           apply (rule steps_block_Cons [OF configure_registration_steps [OF scales]])
           apply (rule steps_block_raise)
           apply (rule configure_metric_unbound' [OF None])
          apply (simp add: registration_calls_def)
          done
        with known opt scales None show ?thesis
          by (simp add: setup_calls_def guard_error_def)
      next
        case metr: (Some T)
        show ?thesis
        proof (cases "use_multiresolution_framework self")
          case True
          have "steps (itk_raises w)
             (Instantiate (transform_type_value self) # interpolator_calls self @ metric_calls self
              @ registration_calls self @ [Call ''registration.SetOptimizer'' []]
              @ metric_setup_calls self @ transform_calls self)
             (raise (ValueError
                (''Multiresolution-Framework cannot be used with ''
                 @ ''ImageRegistrationMethod. ImageRegistrationMethodv4 required.'')))
             (run_v3 w) self"
            unfolding run_v3_def
            apply (rule steps_eq)
             apply (rule steps_bind [OF transform_type_of_known [OF known]])
             apply (rule steps_bind [OF interpolator_of_steps])
             apply (rule steps_bind [OF metric_type_of_steps])
             apply (rule steps_bind [OF optimizer_type_of_known [OF opt]])
             apply (rule steps_block_Cons [OF configure_registration_steps [OF scales]])
             apply (rule steps_block_Cons [OF configure_metric_steps' [OF metr]])
             apply (rule steps_block_Cons [OF configure_transform_steps])
             apply (rule steps_block_raise)
             apply (rule multiresolution_guard_raise [OF True])
            apply (simp add: registration_calls_def)
            done
          with known opt scales metr True show ?thesis
            by (simp add: setup_calls_def guard_error_def)
        next
          case False
          have "steps (itk_raises w)
             (Instantiate (transform_type_value self) # interpolator_calls self @ metric_calls self
              @ registration_calls self @ [Call ''registration.SetOptimizer'' []]
              @ metric_setup_calls self @ transform_calls self)
             (execute_registration w)
             (run_v3 w) self"
            unfolding run_v3_def
            apply (rule steps_eq)
             apply (rule steps_bind [OF transform_type_of_known [OF known]])
             apply (rule steps_bind [OF interpolator_of_steps])
             apply (rule steps_bind [OF metric_type_of_steps])
             apply (rule steps_bind [OF optimizer_type_of_known [OF opt]])
             apply (rule steps_block_Cons [OF configure_registration_steps [OF scales]])
             apply (rule steps_block_Cons [OF configure_metric_steps' [OF metr]])
             apply (rule steps_block_Cons [OF configure_transform_steps])
             apply (rule steps_block_Cons [OF multiresolution_guard_pass [OF False]])
             apply (rule steps_block_last)
            apply (simp add: registration_calls_def)
            done
          with known opt scales metr False show ?thesis
            by (simp add: setup_calls_def guard_error_def)
        qed
      qed
    qed
  qed
qed

lemma print_settings_emits: "emits reporting (print_settings w)"
  unfolding print_settings_def itk_do_def
  by (intro emits_rules) (simp_all add: reporting_def)

lemma print_summary_emits: "emits reporting (print_summary w)"
  unfolding print_summary_def itk_do_def itk_ask_def
  by (intro emits_rules) (simp_all add: reporting_def)

lemma execute_registration_outcome:
  assumes "execute_registration w (self, tr) = (r, (self', tr'))"
  shows "\<exists>zs. tr' = tr @ registration_Update # zs \<and> list_all reporting zs"
proof (cases "itk_raises w tr registration_Update")
  case (Some e)
  with assms have "tr' = tr @ registration_Update # []"
    by (auto simp: execute_registration_def itk_do_def exec)
  then show ?thesis by (intro exI [of _ "[]"]) simp
next
  case None
  let ?rest = "block
     [bind (itk_ask w (Call ''registration.GetTransform'' []))
        (\<lambda>T. modify (\<lambda>s. s\<lparr>registration_transform_itk := Some T\<rparr>)),
      print_settings w,
      bind get_self (\<lambda>self.
        bind (itk_ask w (Call ''sitkh.get_sitk_from_itk_transform''
                           [Field (Bound (registration_transform_itk self))]))
          (\<lambda>T. modify (\<lambda>s. s\<lparr>registration_transform_sitk := Bound (Some T)\<rparr>))),
      print_summary w]"
  have "emits reporting ?rest"
    unfolding itk_ask_def
    by (intro emits_rules print_settings_emits print_summary_emits) (simp_all add: reporting_def)
  then obtain zs where zs: "snd (snd (?rest (self, tr @ [registration_Update]))) = (tr @ [registration_Update]) @ zs"
    "list_all reporting zs"
    unfolding emits_def by blast
  from assms None have "?rest (self, tr @ [registration_Update]) = (r, (self', tr'))"
    by (simp add: execute_registration_def itk_do_def bind_apply call_apply)
  with zs show ?thesis by simp
qed

lemma run_v3_outcome:
  assumes "run_v3 w (self, tr) = (r, (self', tr'))"
  obtains (library) ys zs e where "ys \<noteq> []" "setup_calls self = ys @ zs" "tr' = tr @ ys"
      "self' = self" "r = Inl e" "itk_raises w (tr @ butlast ys) (last ys) = Some e"
    | (guard) e where "guard_error self = Some e" "tr' = tr @ setup_calls self" "self' = self"
      "r = Inl e"
    | (executed) zs where "guard_error self = None"
      "tr' = tr @ setup_calls self @ registration_Update # zs" "list_all reporting zs"
proof (rule steps_cases [OF run_v3_steps assms])
  fix ys zs e
  assume "ys \<noteq> []" "setup_calls self = ys @ zs" "(self', tr') = (self, tr @ ys)" "r = Inl e"
    "itk_raises w (tr @ butlast ys) (last ys) = Some e"
  then have "tr' = tr @ ys" "self' = self" by simp_all
  with \<open>ys \<noteq> []\<close> \<open>setup_calls self = ys @ zs\<close> \<open>r = Inl e\<close>
    \<open>itk_raises w (tr @ butlast ys) (last ys) = Some e\<close>
  show thesis by (intro library)
next
  assume k: "(case guard_error self of None \<Rightarrow> execute_registration w | Some e \<Rightarrow> raise e)
    (self, tr @ setup_calls self) = (r, (self', tr'))"
  show thesis
  proof (cases "guard_error self")
    case None
    with k have "execute_registration w (self, tr @ setup_calls self) = (r, (self', tr'))"
      by simp
    from execute_registration_outcome [OF this] obtain zs
      where zs: "tr' = (tr @ setup_calls self) @ registration_Update # zs" "list_all reporting zs"
      by blast
    from zs(1) have tr': "tr' = tr @ setup_calls self @ registration_Update # zs"
      by (simp only: append_assoc)
    from None tr' zs(2) show thesis by (rule executed)
  next
    case (Some e)
    with k have "r = Inl e" "self' = self" "tr' = tr @ setup_calls self"
      by (auto simp: raise_apply)
    with Some show thesis by (intro guard)
  qed
qed

lemma run_unfold:
  "run w (self, tr) =
     (case type_error self of
        Some e \<Rightarrow> (Inl e, (self, tr))
      | None \<Rightarrow>
         (case itk_raises w tr (Call ''ph.start_timing'' []) of
            Some e \<Rightarrow> (Inl e, (self, tr @ [Call ''ph.start_timing'' []]))
          | None \<Rightarrow>
             (case run_v3 w (self, tr @ [Call ''ph.start_timing'' []]) of
                (Inl e, s') \<Rightarrow> (Inl e, s')
              | (Inr _, (self', tr')) \<Rightarrow>
                 (case itk_raises w tr' (Call ''ph.stop_timing'' []) of
                    Some e \<Rightarrow> (Inl e, (self', tr' @ [Call ''ph.stop_timing'' []]))
                  | None \<Rightarrow>
                     (Inr (), (self'\<lparr>computational_time :=
                                       itk_answer w tr' (Call ''ph.stop_timing'' [])\<rparr>,
                               tr' @ [Call ''ph.stop_timing'' []]))))))"
  by (simp add: run_def type_error_def itk_ask_def exec
      split: option.splits sum.splits prod.splits)


lemma run_outcome:
  assumes "run w (self, tr) = (r, (self', tr'))"
  obtains (rejected) e where "type_error self = Some e" "r = Inl e" "self' = self" "tr' = tr"
    | (timing) e where "type_error self = None"
        "itk_raises w tr (Call ''ph.start_timing'' []) = Some e"
        "r = Inl e" "self' = self" "tr' = tr @ [Call ''ph.start_timing'' []]"
    | (library) ys zs e where "type_error self = None" "ys \<noteq> []" "setup_calls self = ys @ zs"
        "tr' = tr @ Call ''ph.start_timing'' [] # ys" "self' = self" "r = Inl e"
        "itk_raises w (tr @ Call ''ph.start_timing'' [] # butlast ys) (last ys) = Some e"
    | (guard) e where "type_error self = None" "guard_error self = Some e"
        "tr' = tr @ Call ''ph.start_timing'' [] # setup_calls self" "self' = self" "r = Inl e"
    | (executed) zs where "type_error self = None" "guard_error self = None"
        "tr' = tr @ Call ''ph.start_timing'' [] # setup_calls self @ registration_Update # zs"
        "list_all reporting zs"
proof (cases "type_error self")
  case (Some e)
  with assms have "r = Inl e" "self' = self" "tr' = tr"
    by (auto simp: run_unfold)
  with Some show thesis by (intro rejected)
next
  case ok: None
  show thesis
  proof (cases "itk_raises w tr (Call ''ph.start_timing'' [])")
    case (Some e)
    with ok assms have "r = Inl e" "self' = self" "tr' = tr @ [Call ''ph.start_timing'' []]"
      by (auto simp: run_unfold)
    with ok Some show thesis by (intro timing)
  next
    case start: None
    let ?tr = "tr @ [Call ''ph.start_timing'' []]"
    obtain r3 self3 tr3 where v3: "run_v3 w (self, ?tr) = (r3, (self3, tr3))"
      by (metis surj_pair)
    from assms ok start v3
    have fin: "(case r3 of
        Inl e \<Rightarrow> (Inl e, (self3, tr3))
      | Inr _ \<Rightarrow>
         (case itk_raises w tr3 (Call ''ph.stop_timing'' []) of
            Some e \<Rightarrow> (Inl e, (self3, tr3 @ [Call ''ph.stop_timing'' []]))
          | None \<Rightarrow>
             (Inr (), (self3\<lparr>computational_time := itk_answer w tr3 (Call ''ph.stop_timing'' [])\<rparr>,
                       tr3 @ [Call ''ph.stop_timing'' []])))) = (r, (self', tr'))"
      by (cases r3) (auto simp: run_unfold)
    from v3 show thesis
    proof (cases rule: run_v3_outcome)
      case (library ys zs e)
      with fin have "r = Inl e" "self' = self" "tr' = tr @ Call ''ph.start_timing'' [] # ys"
        by auto
      moreover from library have
        "itk_raises w (tr @ Call ''ph.start_timing'' [] # butlast ys) (last ys) = Some e"
        by simp
      ultimately show thesis using ok library by (intro that(3)) auto
    next
      case (guard e)
      with fin have "r = Inl e" "self' = self"
        "tr' = tr @ Call ''ph.start_timing'' [] # setup_calls self"
        by auto
      with ok guard show thesis by (intro that(4)) auto
    next
      case (executed zs)
      have "\<exists>zs'. tr' = tr @ Call ''ph.start_timing'' [] # setup_calls self
          @ registration_Update # zs' \<and> list_all reporting zs'"
      proof (cases r3)
        case (Inl e)
        with fin executed show ?thesis by auto
      next
        case (Inr u)
        have stop: "reporting (Call ''ph.stop_timing'' [])"
          by (simp add: reporting_def)
        from Inr fin have "tr' = tr3 @ [Call ''ph.stop_timing'' []]"
          by (auto split: option.splits)
        with executed stop show ?thesis
          by (intro exI [of _ "zs @ [Call ''ph.stop_timing'' []]"]) simp
      qed
      then obtain zs' where "tr' = tr @ Call ''ph.start_timing'' [] # setup_calls self
          @ registration_Update # zs'" "list_all reporting zs'"
        by blast
      with ok executed(1) show thesis by (intro that(5)) auto
    qed
  qed
qed

lemma interpolator_calls_ok: "list_all (setup_ok self) (interpolator_calls self)"
  by (simp add: interpolator_calls_def setup_ok_def carries_schedule_def split: option.splits)

lemma metric_calls_ok: "list_all (setup_ok self) (metric_calls self)"
  by (simp add: metric_calls_def setup_ok_def carries_schedule_def is_schedule_def
      split: option.splits)

lemma registration_calls_ok: "list_all (setup_ok self) (registration_calls self)"
  by (simp add: registration_calls_def setup_ok_def carries_schedule_def is_schedule_def)

lemma moving_mask_calls_ok: "list_all (setup_ok self) (moving_mask_calls self)"
  by (simp add: moving_mask_calls_def setup_ok_def carries_schedule_def is_schedule_def
      split: option.splits)

lemma fixed_mask_calls_ok: "list_all (setup_ok self) (fixed_mask_calls self)"
  by (simp add: fixed_mask_calls_def setup_ok_def carries_schedule_def is_schedule_def
      split: option.splits)

lemma initializer_calls_ok: "list_all (setup_ok self) (initializer_calls self)"
  by (simp add: initializer_calls_def setup_ok_def carries_schedule_def is_schedule_def
      split: option.splits)

lemma metric_setup_calls_ok: "list_all (setup_ok self) (metric_setup_calls self)"
  using moving_mask_calls_ok [of self] fixed_mask_calls_ok [of self]
  by (simp add: metric_setup_calls_def split: option.splits)
    (simp add: setup_ok_def carries_schedule_def)

lemma transform_calls_ok: "list_all (setup_ok self) (transform_calls self)"
  using initializer_calls_ok [of self]
  by (simp add: transform_calls_def) (simp add: setup_ok_def carries_schedule_def)

lemma setup_calls_ok: "list_all (setup_ok self) (setup_calls self)"
  using interpolator_calls_ok [of self] metric_calls_ok [of self] registration_calls_ok [of self]
    metric_setup_calls_ok [of self] transform_calls_ok [of self]
  by (simp add: setup_calls_def) (simp add: setup_ok_def carries_schedule_def)

lemma example_itk_constructed:
  "fst (WrapItkRegistration_init quiet_itk (Instance (Image itk_D 3) 1) (Instance (Image itk_D 3) 2)
     3 itk_D None None ''Rigid'' ''Correlation'' ''Linear'' None ''RegularStepGradientDescent''
     False [2, 1] [1, 0] True None None ((), [])) = Inr example_itk"
  by (simp add: WrapItkRegistration_init_def example_itk_def quiet_itk_def instantiate_def
      itk_ask_def exec)

lemma setup_ok_facts:
  assumes "list_all (setup_ok self) ys"
  shows "registration_Update \<notin> set ys" "\<not> list_ex carries_schedule ys"
    "metric_SetFixedImageMask \<in> set ys \<Longrightarrow> fixed_itk_mask self \<noteq> None"
    "metric_SetMovingImageMask \<in> set ys \<Longrightarrow> moving_itk_mask self \<noteq> None"
    "mask_caster_SetInput msk \<in> set ys \<Longrightarrow>
       fixed_itk_mask self = Some msk \<or> moving_itk_mask self = Some msk"
  using assms unfolding list_all_iff list_ex_iff setup_ok_def by blast+

lemma reporting_facts:
  assumes "list_all reporting zs"
  shows "registration_Update \<notin> set zs" "metric_SetFixedImageMask \<notin> set zs"
    "metric_SetMovingImageMask \<notin> set zs" "mask_caster_SetInput msk \<notin> set zs"
  using assms unfolding list_all_iff reporting_def by auto

lemma setup_prefix_ok:
  "setup_calls self = ys @ zs \<Longrightarrow> list_all (setup_ok self) ys"
  using setup_calls_ok [of self] by simp

lemma start_timing_ok: "setup_ok self (Call ''ph.start_timing'' [])"
  by (simp add: setup_ok_def carries_schedule_def)

lemma type_error_ValueError: "type_error self = Some e \<Longrightarrow> \<exists>msg. e = ValueError msg"
  by (auto simp: type_error_def split: if_splits)

lemma guard_error_multiresolution:
  "use_multiresolution_framework self \<Longrightarrow> guard_error self \<noteq> None"
  by (simp add: guard_error_def)

lemma guard_error_multiresolution_only:
  assumes "use_multiresolution_framework self"
    and "guard_error (self\<lparr>use_multiresolution_framework := False\<rparr>) = None"
  shows "guard_error self = Some (ValueError
          (''Multiresolution-Framework cannot be used with ''
           @ ''ImageRegistrationMethod. ImageRegistrationMethodv4 required.''))"
  using assms
  by (simp add: guard_error_def known_registration_type_def metric_value_def split: if_splits)

lemma guard_error_optimizer:
  assumes "guard_error self = Some e"
    and "optimizer self \<noteq> ''RegularStepGradientDescent'' \<or> optimizer_scales self \<noteq> None"
  shows "\<exists>msg. e = ValueError msg"
  using assms by (auto simp: guard_error_def split: if_splits)

lemma guard_error_None:
  assumes "guard_error self = None"
  shows "known_registration_type self" "optimizer self = ''RegularStepGradientDescent''"
    "optimizer_scales self = None" "metric_value self \<noteq> None"
    "\<not> use_multiresolution_framework self"
  using assms by (auto simp: guard_error_def split: if_splits)

lemma setup_calls_executed:
  assumes "guard_error self = None"
  shows "setup_calls self =
     Instantiate (transform_type_value self) # interpolator_calls self @ metric_calls self
     @ registration_calls self @ Call ''registration.SetOptimizer'' []
     # metric_setup_calls self @ transform_calls self"
  using guard_error_None [OF assms] by (auto simp: setup_calls_def)

lemma setup_calls_known:
  "known_registration_type self \<Longrightarrow>
   \<exists>rest. setup_calls self = Instantiate (transform_type_value self) # rest"
  by (simp add: setup_calls_def)

lemma New_transform_in_setup:
  "guard_error self = None \<Longrightarrow> New (transform_type_value self) \<in> set (setup_calls self)"
  by (simp add: setup_calls_executed transform_calls_def)

lemma optimizer_calls_in_setup:
  assumes "guard_error self = None"
  shows "set [New RegularStepGradientDescentOptimizer,
              Call ''optimizer.SetGradientMagnitudeTolerance'' [Number (1 / 10 ^ 6)],
              Call ''optimizer.SetMinimumStepLength'' [Number (1 / 10 ^ 6)],
              Call ''optimizer.SetNumberOfIterations'' [Count 200],
              Call ''optimizer.SetRelaxationFactor'' [Number (1 / 2)],
              Call ''registration.SetOptimizer'' []] \<subseteq> set (setup_calls self)"
  by (simp add: setup_calls_executed [OF assms] registration_calls_def)

lemma fixed_mask_in_setup:
  assumes "guard_error self = None" and "fixed_itk_mask self = Some msk"
  shows "metric_SetFixedImageMask \<in> set (setup_calls self)"
    "mask_caster_SetInput msk \<in> set (setup_calls self)"
proof -
  from guard_error_None(4) [OF assms(1)] obtain T where "metric_value self = Some T"
    by blast
  with assms(2) show "metric_SetFixedImageMask \<in> set (setup_calls self)"
    "mask_caster_SetInput msk \<in> set (setup_calls self)"
    by (simp_all add: setup_calls_executed [OF assms(1)] metric_setup_calls_def
        fixed_mask_calls_def)
qed

lemma moving_mask_in_setup:
  assumes "guard_error self = None" and "moving_itk_mask self = Some msk"
  shows "metric_SetMovingImageMask \<in> set (setup_calls self)"
    "mask_caster_SetInput msk \<in> set (setup_calls self)"
proof -
  from guard_error_None(4) [OF assms(1)] obtain T where "metric_value self = Some T"
    by blast
  with assms(2) show "metric_SetMovingImageMask \<in> set (setup_calls self)"
    "mask_caster_SetInput msk \<in> set (setup_calls self)"
    by (simp_all add: setup_calls_executed [OF assms(1)] metric_setup_calls_def
        moving_mask_calls_def)
qed

lemma run_guard_quiet:
  assumes "type_error self = None" and "guard_error self = Some e"
    and "\<forall>h c. itk_raises w h c = None"
  shows "fst (run w (self, tr)) = Inl e"
proof -
  obtain r self' tr' where run: "run w (self, tr) = (r, (self', tr'))"
    by (metis surj_pair)
  from run have "r = Inl e"
  proof (cases rule: run_outcome)
    case (guard e')
    with assms(2) show ?thesis by simp
  qed (use assms in auto)
  with run show ?thesis by simp
qed

lemma example_itk_runs: "fst (run quiet_itk (example_itk, [])) = Inr ()"
  by (simp add: run_unfold type_error_def example_itk_def quiet_itk_def
      run_v3_def transform_type_of_def interpolator_of_def metric_type_of_def
      optimizer_type_of_def configure_registration_def configure_metric_def
      configure_transform_def set_moving_mask_def set_fixed_mask_def initialize_transform_def
      multiresolution_guard_def execute_registration_def print_settings_def print_summary_def
      instantiate_def itk_do_def itk_ask_def exec)

lemma run_v3_unknown_type:
  assumes "\<not> known_registration_type self"
  shows "run_v3 w (self, tr) =
     (Inl (ValueError (''Registration type '' @ quoted (registration_type self) @ '' not known.'')),
      (self, tr))"
proof -
  obtain r self' tr' where run: "run_v3 w (self, tr) = (r, (self', tr'))"
    by (metis surj_pair)
  from assms have calls: "setup_calls self = []"
    and err: "guard_error self = Some (ValueError
        (''Registration type '' @ quoted (registration_type self) @ '' not known.''))"
    by (simp_all add: setup_calls_def guard_error_def)
  from run show ?thesis
  proof (cases rule: run_v3_outcome)
    case (library ys zs e)
    with calls show ?thesis by simp
  next
    case (guard e)
    with calls err run show ?thesis by simp
  next
    case (executed zs)
    with err show ?thesis by simp
  qed
qed

lemma run_v3_selects:
  assumes "known_registration_type self" and "run_v3 w (self, tr) = (r, (self', tr'))"
  shows "\<exists>zs. tr' = tr @ Instantiate (transform_type_value self) # zs
     \<and> (registration_Update \<in> set zs \<longrightarrow> New (transform_type_value self) \<in> set zs)"
proof -
  from setup_calls_known [OF assms(1)] obtain rest
    where rest: "setup_calls self = Instantiate (transform_type_value self) # rest"
    by blast
  from setup_calls_ok [of self] rest have rest_ok: "list_all (setup_ok self) rest"
    by simp
  from assms(2) show ?thesis
  proof (cases rule: run_v3_outcome)
    case (library ys zs e)
    with rest obtain ys' where ys': "ys = Instantiate (transform_type_value self) # ys'"
      "rest = ys' @ zs"
      by (cases ys) auto
    with rest_ok have "list_all (setup_ok self) ys'" by simp
    from setup_ok_facts(1) [OF this] library(3) ys'(1) show ?thesis by simp
  next
    case (guard e)
    with rest setup_ok_facts(1) [OF rest_ok] show ?thesis by simp
  next
    case (executed zs)
    from New_transform_in_setup [OF executed(1)] rest
    have "New (transform_type_value self) \<in> set rest" by simp
    with executed(2) rest show ?thesis by simp
  qed
qed

lemma masks_itk:
  assumes "run w (self, tr) = (r, (self', tr'))"
  shows "\<exists>ys. tr' = tr @ ys
     \<and> (metric_SetFixedImageMask \<in> set ys \<longrightarrow> fixed_itk_mask self \<noteq> None)
     \<and> (metric_SetMovingImageMask \<in> set ys \<longrightarrow> moving_itk_mask self \<noteq> None)
     \<and> (\<forall>msk. mask_caster_SetInput msk \<in> set ys \<longrightarrow>
           fixed_itk_mask self = Some msk \<or> moving_itk_mask self = Some msk)
     \<and> (registration_Update \<in> set ys \<longrightarrow>
          (\<forall>msk. fixed_itk_mask self = Some msk \<longrightarrow>
             mask_caster_SetInput msk \<in> set ys \<and> metric_SetFixedImageMask \<in> set ys)
          \<and> (\<forall>msk. moving_itk_mask self = Some msk \<longrightarrow>
             mask_caster_SetInput msk \<in> set ys \<and> metric_SetMovingImageMask \<in> set ys))"
proof -
  have only_if: "(metric_SetFixedImageMask \<in> set ys \<longrightarrow> fixed_itk_mask self \<noteq> None)
     \<and> (metric_SetMovingImageMask \<in> set ys \<longrightarrow> moving_itk_mask self \<noteq> None)
     \<and> (\<forall>msk. mask_caster_SetInput msk \<in> set ys \<longrightarrow>
           fixed_itk_mask self = Some msk \<or> moving_itk_mask self = Some msk)
     \<and> registration_Update \<notin> set ys"
    if "list_all (setup_ok self) ys" for ys
    using setup_ok_facts [OF that] by simp
  from assms show ?thesis
  proof (cases rule: run_outcome)
    case (rejected e)
    then show ?thesis by (intro exI [of _ "[]"]) simp
  next
    case (timing e)
    then show ?thesis by (intro exI [of _ "[Call ''ph.start_timing'' []]"]) simp
  next
    case (library ys zs e)
    from setup_prefix_ok [OF library(3)] start_timing_ok [of self]
    have "list_all (setup_ok self) (Call ''ph.start_timing'' [] # ys)"
      by simp
    from only_if [OF this] library(4) show ?thesis
      by (intro exI [of _ "Call ''ph.start_timing'' [] # ys"]) simp
  next
    case (guard e)
    from setup_calls_ok [of self] start_timing_ok [of self]
    have "list_all (setup_ok self) (Call ''ph.start_timing'' [] # setup_calls self)"
      by simp
    from only_if [OF this] guard(3) show ?thesis
      by (intro exI [of _ "Call ''ph.start_timing'' [] # setup_calls self"]) simp
  next
    case (executed zs)
    define before where "before = Call ''ph.start_timing'' [] # setup_calls self"
    define ys where "ys = before @ registration_Update # zs"
    from setup_calls_ok [of self] start_timing_ok [of self]
    have "list_all (setup_ok self) before"
      by (simp add: before_def)
    note b = only_if [OF this]
    note z = reporting_facts [OF executed(4)]
    have set_ys: "set ys = set before \<union> {registration_Update} \<union> set zs"
      by (auto simp: ys_def)
    have sub: "set (setup_calls self) \<subseteq> set ys"
      by (auto simp: ys_def before_def)
    have 1: "metric_SetFixedImageMask \<in> set ys \<longrightarrow> fixed_itk_mask self \<noteq> None"
      using b z(2) by (simp add: set_ys)
    have 2: "metric_SetMovingImageMask \<in> set ys \<longrightarrow> moving_itk_mask self \<noteq> None"
      using b z(3) by (simp add: set_ys)
    have 3: "\<forall>msk. mask_caster_SetInput msk \<in> set ys \<longrightarrow>
        fixed_itk_mask self = Some msk \<or> moving_itk_mask self = Some msk"
      using b z(4) by (simp add: set_ys)
    have 4: "\<forall>msk. fixed_itk_mask self = Some msk \<longrightarrow>
        mask_caster_SetInput msk \<in> set ys \<and> metric_SetFixedImageMask \<in> set ys"
      using fixed_mask_in_setup [OF executed(2)] sub by (meson subsetD)
    have 5: "\<forall>msk. moving_itk_mask self = Some msk \<longrightarrow>
        mask_caster_SetInput msk \<in> set ys \<and> metric_SetMovingImageMask \<in> set ys"
      using moving_mask_in_setup [OF executed(2)] sub by (meson subsetD)
    have "tr' = tr @ ys"
      using executed(3) by (simp add: ys_def before_def)
    moreover from 4 5 have "registration_Update \<in> set ys \<longrightarrow>
          (\<forall>msk. fixed_itk_mask self = Some msk \<longrightarrow>
             mask_caster_SetInput msk \<in> set ys \<and> metric_SetFixedImageMask \<in> set ys)
          \<and> (\<forall>msk. moving_itk_mask self = Some msk \<longrightarrow>
             mask_caster_SetInput msk \<in> set ys \<and> metric_SetMovingImageMask \<in> set ys)"
      by simp
    ultimately show ?thesis using 1 2 3
      by (intro exI [of _ ys] conjI) assumption+
  qed
qed

section \<open>The arithmetic of the change of coordinates\<close>

subsection \<open>float64\<close>

lemma float64_arith:
  "Finite x + Finite y = Finite (x + y)" "Finite x * Finite y = Finite (x * y)"
  "- Finite x = Finite (- x)" "(0 :: float64) = Finite 0" "(1 :: float64) = Finite 1"
  by (simp_all add: plus_float64_def times_float64_def uminus_float64_def zero_float64_def
      one_float64_def)

lemma float64_numeral: "(numeral n :: float64) = Finite (numeral n)"
proof (induction n)
  case One
  show ?case by (simp add: float64_arith)
next
  case (Bit0 n)
  have "(numeral (num.Bit0 n) :: float64) = numeral n + numeral n"
    by (rule numeral_Bit0)
  also have "\<dots> = Finite (numeral n + numeral n)"
    by (simp only: Bit0.IH float64_arith)
  finally show ?case by (simp only: numeral_Bit0 [symmetric])
next
  case (Bit1 n)
  have "(numeral (num.Bit1 n) :: float64) = numeral n + numeral n + 1"
    by (rule numeral_Bit1)
  also have "\<dots> = Finite (numeral n + numeral n + 1)"
    by (simp only: Bit1.IH float64_arith)
  finally show ?case by (simp only: numeral_Bit1 [symmetric])
qed

lemma Finite_sum: "(\<Sum>k\<in>S. Finite (f k)) = Finite (\<Sum>k\<in>S. f k)"
  by (induction S rule: infinite_finite_induct) (simp_all add: float64_arith)

lemma is_finite_value_of: "is_finite a \<Longrightarrow> Finite (value_of a) = a"
  by (cases a) simp_all

lemma finite_list: "list_all is_finite xs \<Longrightarrow> map Finite (map value_of xs) = xs"
  by (induction xs) (simp_all add: is_finite_value_of)

lemma finite_matrix:
  "list_all (list_all is_finite) A \<Longrightarrow> map (map Finite) (map (map value_of) A) = A"
  by (induction A) (simp_all add: finite_list [simplified])

subsection \<open>Shapes and entries\<close>

lemma sum_list_map2_mult:
  fixes xs ys :: "'a::{comm_monoid_add,times} list"
  assumes "length xs = length ys"
  shows "sum_list (map2 (*) xs ys) = (\<Sum>k<length ys. xs ! k * ys ! k)"
proof -
  have "sum_list (map2 (*) xs ys) = (\<Sum>k = 0..<length (map2 (*) xs ys). map2 (*) xs ys ! k)"
    by (rule sum_list_sum_nth)
  also have "\<dots> = (\<Sum>k = 0..<length ys. xs ! k * ys ! k)"
    using assms by (intro sum.cong) simp_all
  finally show ?thesis by (simp add: lessThan_atLeast0)
qed

lemma ncols_nth: "m \<noteq> [] \<Longrightarrow> ncols m = length (m ! 0)"
  by (cases m) (simp_all add: ncols_def)

lemma ncols_map: "ncols (map (map f) m) = ncols m"
  by (cases m) (simp_all add: ncols_def)

lemma ncols_rows:
  assumes "\<forall>row\<in>set m. length row = c" and "m \<noteq> []"
  shows "ncols m = c"
  using assms by (cases m) (simp_all add: ncols_def)

lemma reflection_shape:
  fixes R :: "'a::{zero,one,uminus} list list" and d :: nat
  defines "R \<equiv> reflection d"
  shows "length R = d" "i < d \<Longrightarrow> length (R ! i) = d"
    "0 < d \<Longrightarrow> ncols R = d" "\<forall>row\<in>set R. length row = d"
proof -
  show len: "length R = d" and row: "i < d \<Longrightarrow> length (R ! i) = d"
    by (simp_all add: R_def reflection_def)
  show rows: "\<forall>row\<in>set R. length row = d"
    by (auto simp: R_def reflection_def)
  assume "0 < d"
  with len have "R \<noteq> []" by auto
  with rows show "ncols R = d" by (rule ncols_rows)
qed

lemma reflection_nth:
  "i < d \<Longrightarrow> j < d \<Longrightarrow>
   reflection d ! i ! j = (if i = j then (if i < 2 then - 1 else 1) else 0)"
  by (simp add: reflection_def)

lemma reflection_Finite: "(reflection d :: matrix) = map (map Finite) (reflection d)"
  by (simp add: reflection_def float64_arith)

lemma mat_mult_shape:
  "length (mat_mult a b) = length a" "i < length a \<Longrightarrow> length (mat_mult a b ! i) = ncols b"
  "\<forall>row\<in>set (mat_mult a b). length row = ncols b"
  by (auto simp: mat_mult_def)

lemma mat_mult_nth:
  "i < length a \<Longrightarrow> j < ncols b \<Longrightarrow>
   mat_mult a b ! i ! j = (\<Sum>k<length b. a ! i ! k * b ! k ! j)"
  by (simp add: mat_mult_def)

lemma mat_mult_Finite:
  assumes "\<forall>row\<in>set a. length row = length b" and "\<forall>row\<in>set b. length row = ncols b"
  shows "mat_mult (map (map Finite) a) (map (map Finite) b) = map (map Finite) (mat_mult a b)"
proof -
  have "(\<Sum>k<length b. map Finite row ! k * map (map Finite) b ! k ! j)
      = Finite (\<Sum>k<length b. row ! k * b ! k ! j)"
    if "row \<in> set a" and "j < ncols b" for row j
  proof -
    have "map Finite row ! k * map (map Finite) b ! k ! j = Finite (row ! k * b ! k ! j)"
      if "k < length b" for k
    proof -
      from \<open>row \<in> set a\<close> assms(1) that have "k < length row" by simp
      moreover from that assms(2) \<open>j < ncols b\<close> have "j < length (b ! k)" by simp
      ultimately show ?thesis using that by (simp add: float64_arith)
    qed
    then have "(\<Sum>k<length b. map Finite row ! k * map (map Finite) b ! k ! j)
        = (\<Sum>k<length b. Finite (row ! k * b ! k ! j))"
      by (intro sum.cong) simp_all
    then show ?thesis by (simp only: Finite_sum)
  qed
  then show ?thesis
    by (simp add: mat_mult_def ncols_map)
qed

lemma mat_vec_Finite:
  assumes "\<forall>row\<in>set a. length row = length v"
  shows "mat_vec (map (map Finite) a) (map Finite v) = map Finite (mat_vec a v)"
proof -
  have "(\<Sum>k<length v. map Finite row ! k * map Finite v ! k)
      = Finite (\<Sum>k<length v. row ! k * v ! k)"
    if "row \<in> set a" for row
  proof -
    have "map Finite row ! k * map Finite v ! k = Finite (row ! k * v ! k)"
      if "k < length v" for k
      using that \<open>row \<in> set a\<close> assms by (simp add: float64_arith)
    then have "(\<Sum>k<length v. map Finite row ! k * map Finite v ! k)
        = (\<Sum>k<length v. Finite (row ! k * v ! k))"
      by (intro sum.cong) simp_all
    then show ?thesis by (simp only: Finite_sum)
  qed
  then show ?thesis
    by (simp add: mat_vec_def)
qed

subsection \<open>numpy's operations on arrays of the right shape\<close>

lemma eye_to_reflection:
  assumes "2 \<le> d"
  shows "np_setitem (np_eye d) 0 0 (- 1) = Inr ((np_eye d)[0 := (np_eye d ! 0)[0 := - 1]])"
    and "np_setitem ((np_eye d)[0 := (np_eye d ! 0)[0 := - 1]]) 1 1 (- 1) = Inr (reflection d)"
proof -
  have len: "length (np_eye d) = d" and row: "\<And>i. i < d \<Longrightarrow> length (np_eye d ! i) = d"
    and entry: "\<And>i j. i < d \<Longrightarrow> j < d \<Longrightarrow> np_eye d ! i ! j = (if i = j then 1 else 0)"
    by (simp_all add: np_eye_def)
  from assms len have ne: "np_eye d \<noteq> []" by auto
  from assms row [of 0] have nc: "ncols (np_eye d) = d"
    by (simp add: ncols_nth [OF ne])
  from assms len nc show "np_setitem (np_eye d) 0 0 (- 1) = Inr ((np_eye d)[0 := (np_eye d ! 0)[0 := - 1]])"
    by (simp add: np_setitem_def)
  define R1 where "R1 = (np_eye d)[0 := (np_eye d ! 0)[0 := - 1]]"
  have len1: "length R1 = d" by (simp add: R1_def len)
  have row1: "length (R1 ! i) = d" if "i < d" for i
    using that by (simp add: R1_def len row nth_list_update)
  have entry1: "R1 ! i ! j = (if i = j then (if i = 0 then - 1 else 1) else 0)"
    if "i < d" "j < d" for i j
    using that by (simp add: R1_def len row entry nth_list_update)
  from assms len1 have ne1: "R1 \<noteq> []" by auto
  from assms row1 [of 0] have nc1: "ncols R1 = d"
    by (simp add: ncols_nth [OF ne1])
  have "R1[1 := (R1 ! 1)[1 := - 1]] = reflection d"
  proof (rule nth_equalityI)
    show "length (R1[1 := (R1 ! 1)[1 := - 1]]) = length (reflection d :: matrix)"
      by (simp add: len1 reflection_shape)
  next
    fix i assume "i < length (R1[1 := (R1 ! 1)[1 := - 1]])"
    then have i: "i < d" by (simp add: len1)
    have rowi: "length (R1[1 := (R1 ! 1)[1 := - 1]] ! i) = d"
      using i assms by (simp add: len1 row1 nth_list_update)
    show "R1[1 := (R1 ! 1)[1 := - 1]] ! i = reflection d ! i"
    proof (rule nth_equalityI)
      show "length (R1[1 := (R1 ! 1)[1 := - 1]] ! i) = length (reflection d ! i :: float64 list)"
        using i rowi by (simp add: reflection_shape)
    next
      fix j assume "j < length (R1[1 := (R1 ! 1)[1 := - 1]] ! i)"
      with rowi have j: "j < d" by simp
      from i j assms show "R1[1 := (R1 ! 1)[1 := - 1]] ! i ! j = reflection d ! i ! j"
        by (auto simp: len1 row1 entry1 nth_list_update reflection_nth)
    qed
  qed
  with assms len1 nc1 show "np_setitem ((np_eye d)[0 := (np_eye d ! 0)[0 := - 1]]) 1 1 (- 1)
      = Inr (reflection d)"
    by (simp add: np_setitem_def R1_def [symmetric])
qed

lemma np_dot_mat_mult:
  assumes "ncols a = length b" and "\<forall>row\<in>set a. length row = length b"
  shows "np_dot a b = Inr (mat_mult a b)"
proof -
  have "sum_list (map2 (*) row (map (\<lambda>r. r ! j) b)) = (\<Sum>k<length b. row ! k * b ! k ! j)"
    if "row \<in> set a" for row j
  proof -
    from that assms(2) have "length row = length (map (\<lambda>r. r ! j) b)" by simp
    from sum_list_map2_mult [OF this] show ?thesis by simp
  qed
  with assms(1) show ?thesis
    by (simp add: np_dot_def mat_mult_def)
qed

lemma np_dot_vec_mat_vec:
  assumes "ncols a = length t" and "\<forall>row\<in>set a. length row = length t"
  shows "np_dot_vec a t = Inr (mat_vec a t)"
proof -
  have "sum_list (map2 (*) row t) = (\<Sum>k<length t. row ! k * t ! k)" if "row \<in> set a" for row
    using that assms(2) sum_list_map2_mult [of row t] by simp
  with assms(1) show ?thesis
    by (simp add: np_dot_vec_def mat_vec_def)
qed

subsection \<open>Products with the reflection, for real numbers\<close>

lemma mat_mult_reflection_left:
  fixes A :: "real list list"
  assumes "length A = d" and "i < d" and "j < ncols A"
  shows "mat_mult (reflection d) A ! i ! j = (if i < 2 then - 1 else 1) * A ! i ! j"
proof -
  have "mat_mult (reflection d) A ! i ! j = (\<Sum>k<d. reflection d ! i ! k * A ! k ! j)"
    using assms by (simp add: mat_mult_nth reflection_shape)
  also have "\<dots> = (\<Sum>k<d. if k = i then (if i < 2 then - 1 else 1) * A ! k ! j else 0)"
    using assms(2) by (intro sum.cong) (auto simp: reflection_nth)
  also have "\<dots> = (if i < 2 then - 1 else 1) * A ! i ! j"
    using assms(2) by (simp add: sum.delta)
  finally show ?thesis .
qed

lemma mat_mult_reflection_right:
  fixes X :: "real list list"
  assumes "i < length X" and "j < d"
  shows "mat_mult X (reflection d) ! i ! j = X ! i ! j * (if j < 2 then - 1 else 1)"
proof -
  from assms(2) have "0 < d" by simp
  have "mat_mult X (reflection d) ! i ! j = (\<Sum>k<d. X ! i ! k * reflection d ! k ! j)"
    using assms \<open>0 < d\<close> by (simp add: mat_mult_nth reflection_shape)
  also have "\<dots> = (\<Sum>k<d. if k = j then X ! i ! k * (if j < 2 then - 1 else 1) else 0)"
    using assms(2) by (intro sum.cong) (auto simp: reflection_nth)
  also have "\<dots> = X ! i ! j * (if j < 2 then - 1 else 1)"
    using assms(2) by (simp add: sum.delta)
  finally show ?thesis .
qed

lemma mat_vec_reflection:
  fixes t :: "real list"
  assumes "length t = d" and "i < d"
  shows "mat_vec (reflection d) t ! i = (if i < 2 then - 1 else 1) * t ! i"
proof -
  have "mat_vec (reflection d) t ! i = (\<Sum>k<d. reflection d ! i ! k * t ! k)"
    using assms by (simp add: mat_vec_def reflection_shape)
  also have "\<dots> = (\<Sum>k<d. if k = i then (if i < 2 then - 1 else 1) * t ! k else 0)"
    using assms(2) by (intro sum.cong) (auto simp: reflection_nth)
  also have "\<dots> = (if i < 2 then - 1 else 1) * t ! i"
    using assms(2) by (simp add: sum.delta)
  finally show ?thesis .
qed

lemma real_sign_pattern:
  fixes A :: "real list list" and t :: "real list"
  assumes pos: "0 < d" and A: "length A = d" "\<forall>row\<in>set A. length row = d"
    and t: "length t = d"
  shows "mat_mult (mat_mult (reflection d) A) (reflection d) =
           map (\<lambda>i. map (\<lambda>j. if (i < 2) \<noteq> (j < 2) then - A ! i ! j else A ! i ! j) [0..<d]) [0..<d]"
    and "mat_vec (reflection d) t = map (\<lambda>i. if i < 2 then - t ! i else t ! i) [0..<d]"
proof -
  note R = reflection_shape [of d]
  from pos A(1) have "A \<noteq> []" by auto
  with A(2) have nc: "ncols A = d" by (rule ncols_rows)
  let ?RA = "mat_mult (reflection d) A"
  have RAlen: "length ?RA = d" by (simp add: mat_mult_shape R)
  show "mat_mult ?RA (reflection d) =
      map (\<lambda>i. map (\<lambda>j. if (i < 2) \<noteq> (j < 2) then - A ! i ! j else A ! i ! j) [0..<d]) [0..<d]"
  proof (rule nth_equalityI)
    show "length (mat_mult ?RA (reflection d)) = length
        (map (\<lambda>i. map (\<lambda>j. if (i < 2) \<noteq> (j < 2) then - A ! i ! j else A ! i ! j) [0..<d]) [0..<d])"
      by (simp add: mat_mult_shape R)
  next
    fix i assume "i < length (mat_mult ?RA (reflection d))"
    then have i: "i < d" by (simp add: mat_mult_shape R)
    show "mat_mult ?RA (reflection d) ! i =
        map (\<lambda>i. map (\<lambda>j. if (i < 2) \<noteq> (j < 2) then - A ! i ! j else A ! i ! j) [0..<d]) [0..<d] ! i"
    proof (rule nth_equalityI)
      show "length (mat_mult ?RA (reflection d) ! i) = length
          (map (\<lambda>i. map (\<lambda>j. if (i < 2) \<noteq> (j < 2) then - A ! i ! j else A ! i ! j) [0..<d]) [0..<d] ! i)"
        using i pos by (simp add: mat_mult_shape R RAlen)
    next
      fix j assume "j < length (mat_mult ?RA (reflection d) ! i)"
      with i pos have j: "j < d" by (simp add: mat_mult_shape R RAlen)
      have "mat_mult ?RA (reflection d) ! i ! j = ?RA ! i ! j * (if j < 2 then - 1 else 1)"
        using i j by (simp add: mat_mult_reflection_right RAlen)
      also have "?RA ! i ! j = (if i < 2 then - 1 else 1) * A ! i ! j"
        using i j A(1) nc by (simp add: mat_mult_reflection_left)
      finally show "mat_mult ?RA (reflection d) ! i ! j =
          map (\<lambda>i. map (\<lambda>j. if (i < 2) \<noteq> (j < 2) then - A ! i ! j else A ! i ! j) [0..<d]) [0..<d] ! i ! j"
        using i j by simp
    qed
  qed
  show "mat_vec (reflection d) t = map (\<lambda>i. if i < 2 then - t ! i else t ! i) [0..<d]"
  proof (rule nth_equalityI)
    show "length (mat_vec (reflection d) t) =
        length (map (\<lambda>i. if i < 2 then - t ! i else t ! i) [0..<d])"
      by (simp add: mat_vec_def R)
  next
    fix i assume "i < length (mat_vec (reflection d) t)"
    then have i: "i < d" by (simp add: mat_vec_def R)
    with mat_vec_reflection [OF t i]
    show "mat_vec (reflection d) t ! i = map (\<lambda>i. if i < 2 then - t ! i else t ! i) [0..<d] ! i"
      by simp
  qed
qed

subsection \<open>The block and the last column of the file\<close>

lemma slice_block_shape:
  assumes "d \<le> length M" and "\<forall>row\<in>set M. length row = c" and "d \<le> c"
  defines "A \<equiv> map (take d) (take d M)"
  shows "length A = d"
    and "\<forall>row\<in>set A. length row = d"
    and "i < d \<Longrightarrow> j < d \<Longrightarrow> A ! i ! j = M ! i ! j"
    and "0 < d \<Longrightarrow> ncols A = d"
proof -
  show len: "length A = d"
    using assms(1) by (simp add: A_def)
  show rows: "\<forall>row\<in>set A. length row = d"
    using assms(1-3) by (auto simp: A_def dest: in_set_takeD)
  show "i < d \<Longrightarrow> j < d \<Longrightarrow> A ! i ! j = M ! i ! j"
    using assms(1) by (simp add: A_def)
  assume "0 < d"
  with len have "A \<noteq> []" by auto
  with rows show "ncols A = d" by (rule ncols_rows)
qed

lemma slice_last_column:
  assumes "d \<le> length M" and "\<forall>row\<in>set M. length row = c" and "d \<le> c" and "0 < d"
  shows "np_slice_last_column (Array2 M) d = Inr (map last (take d M))"
proof -
  from assms have "M \<noteq> []" by auto
  with assms(2) have "ncols M = c" by (rule ncols_rows)
  with assms show ?thesis
    by (simp add: np_slice_last_column_def)
qed

lemma convert_shapes:
  assumes d: "2 \<le> d" and shape: "d \<le> length M" "\<forall>row\<in>set M. length row = c" "d \<le> c"
  defines "A \<equiv> map (take d) (take d M)" and "t \<equiv> map last (take d M)"
  shows "np_dot (reflection d) A = Inr (mat_mult (reflection d) A)"
    and "np_dot (mat_mult (reflection d) A) (reflection d)
           = Inr (mat_mult (mat_mult (reflection d) A) (reflection d))"
    and "np_dot_vec (reflection d) t = Inr (mat_vec (reflection d) t)"
proof -
  from d have pos: "0 < d" by simp
  note A = slice_block_shape [OF shape, folded A_def]
  note R = reflection_shape [of d, where 'a = float64]
  have tlen: "length t = d" using shape(1) by (simp add: t_def)
  show "np_dot (reflection d) A = Inr (mat_mult (reflection d) A)"
    using A(1) R(3) [OF pos] R(4) by (intro np_dot_mat_mult) simp_all
  let ?RA = "mat_mult (reflection d) A"
  have RAlen: "length ?RA = d" by (simp add: mat_mult_shape R)
  from pos RAlen have RAne: "?RA \<noteq> []" by auto
  have RArows: "\<forall>row\<in>set ?RA. length row = d"
    using mat_mult_shape(3) [of "reflection d" A] A(4) [OF pos] by simp
  from RArows RAne have RAnc: "ncols ?RA = d" by (rule ncols_rows)
  show "np_dot ?RA (reflection d) = Inr (mat_mult ?RA (reflection d))"
    using RAnc RArows R(1) by (intro np_dot_mat_mult) simp_all
  show "np_dot_vec (reflection d) t = Inr (mat_vec (reflection d) t)"
    using R(3) [OF pos] R(4) tlen by (intro np_dot_vec_mat_vec) simp_all
qed

lemma float_sign_pattern:
  fixes M :: matrix
  assumes d: "2 \<le> d" and shape: "d \<le> length M" "\<forall>row\<in>set M. length row = c" "d \<le> c"
    and finA: "list_all (list_all is_finite) (map (take d) (take d M))"
    and fint: "list_all is_finite (map last (take d M))"
  defines "A \<equiv> map (take d) (take d M)" and "t \<equiv> map last (take d M)"
  shows "mat_mult (mat_mult (reflection d) A) (reflection d) =
           map (\<lambda>i. map (\<lambda>j. if (i < 2) \<noteq> (j < 2) then - M ! i ! j else M ! i ! j) [0..<d]) [0..<d]"
    and "mat_vec (reflection d) t = map (\<lambda>i. if i < 2 then - last (M ! i) else last (M ! i)) [0..<d]"
proof -
  from d have pos: "0 < d" by simp
  note A = slice_block_shape [OF shape, folded A_def]
  note R = reflection_shape [of d, where 'a = real]
  define Ar where "Ar = map (map value_of) A"
  define tr where "tr = map value_of t"
  have tlen: "length t = d" using shape(1) by (simp add: t_def)
  have tnth: "t ! i = last (M ! i)" if "i < d" for i
    using that shape(1) by (simp add: t_def)
  from finA have Afin: "A = map (map Finite) Ar"
    unfolding Ar_def A_def by (rule finite_matrix [symmetric])
  from fint have tfin: "t = map Finite tr"
    unfolding tr_def t_def by (rule finite_list [symmetric])
  have Ar: "length Ar = d" "\<forall>row\<in>set Ar. length row = d"
    using A(1,2) by (auto simp: Ar_def)
  from pos Ar(1) have "Ar \<noteq> []" by auto
  with Ar(2) have Arnc: "ncols Ar = d" by (rule ncols_rows)
  have trlen: "length tr = d" using tlen by (simp add: tr_def)
  have Arnth: "Finite (Ar ! i ! j) = M ! i ! j" if "i < d" "j < d" for i j
  proof -
    from that Ar have "A ! i ! j = Finite (Ar ! i ! j)"
      by (simp add: Afin)
    with that A(3) show ?thesis by simp
  qed
  have trnth: "Finite (tr ! i) = last (M ! i)" if "i < d" for i
  proof -
    from that trlen have "t ! i = Finite (tr ! i)" by (simp add: tfin)
    with that tnth show ?thesis by simp
  qed
  have RAr: "mat_mult (reflection d) A = map (map Finite) (mat_mult (reflection d) Ar)"
    unfolding Afin reflection_Finite
    using R(4) Ar by (intro mat_mult_Finite) (simp_all add: Arnc)
  have "\<forall>row\<in>set (mat_mult (reflection d) Ar). length row = d"
    using mat_mult_shape(3) [of "reflection d" Ar] Arnc by simp
  then have "mat_mult (mat_mult (reflection d) A) (reflection d)
      = map (map Finite) (mat_mult (mat_mult (reflection d) Ar) (reflection d))"
    unfolding RAr unfolding reflection_Finite
    using R(1,4) R(3) [OF pos] by (intro mat_mult_Finite) simp_all
  also have "\<dots> = map (map Finite)
      (map (\<lambda>i. map (\<lambda>j. if (i < 2) \<noteq> (j < 2) then - Ar ! i ! j else Ar ! i ! j) [0..<d]) [0..<d])"
    by (simp only: real_sign_pattern(1) [OF pos Ar trlen])
  also have "\<dots> =
      map (\<lambda>i. map (\<lambda>j. if (i < 2) \<noteq> (j < 2) then - M ! i ! j else M ! i ! j) [0..<d]) [0..<d]"
    using Arnth by (auto simp: float64_arith [symmetric] simp del: float64_arith)
  finally show "mat_mult (mat_mult (reflection d) A) (reflection d) =
      map (\<lambda>i. map (\<lambda>j. if (i < 2) \<noteq> (j < 2) then - M ! i ! j else M ! i ! j) [0..<d]) [0..<d]" .
  have "mat_vec (reflection d) t = map Finite (mat_vec (reflection d) tr)"
    unfolding tfin reflection_Finite
    using R(4) trlen by (intro mat_vec_Finite) simp
  also have "\<dots> = map Finite (map (\<lambda>i. if i < 2 then - tr ! i else tr ! i) [0..<d])"
    by (simp only: real_sign_pattern(2) [OF pos Ar trlen])
  also have "\<dots> = map (\<lambda>i. if i < 2 then - last (M ! i) else last (M ! i)) [0..<d]"
    using trnth by (auto simp: float64_arith [symmetric] simp del: float64_arith)
  finally show "mat_vec (reflection d) t =
      map (\<lambda>i. if i < 2 then - last (M ! i) else last (M ! i)) [0..<d]" .
qed

subsection \<open>The arithmetic of the conversion\<close>

lemma converted_shape:
  assumes d: "2 \<le> d" and shape: "d \<le> length M" "\<forall>row\<in>set M. length row = c" "d \<le> c"
  shows "converted d (Array2 M) =
     Inr (mat_mult (mat_mult (reflection d) (map (take d) (take d M))) (reflection d),
          mat_vec (reflection d) (map last (take d M)))"
proof -
  from d have pos: "0 < d" by simp
  note er = eye_to_reflection [OF d, unfolded One_nat_def]
  note sl = slice_last_column [OF shape pos]
  note cs = convert_shapes [OF d shape]
  show ?thesis
    by (simp add: converted_def np_slice_block_def sl er cs)
qed

lemma np_setitem_length: "np_setitem R i j v = Inr R' \<Longrightarrow> i < length R \<and> length R' = length R"
  by (auto simp: np_setitem_def split: if_splits)

lemma converted_Inr:
  assumes "converted d a = Inr (RAR, Rt)"
  shows "\<exists>M. a = Array2 M \<and> 2 \<le> d
     \<and> RAR = mat_mult (mat_mult (reflection d) (map (take d) (take d M))) (reflection d)
     \<and> Rt = mat_vec (reflection d) (map last (take d M))"
proof -
  from assms obtain A t R0 R RA where
    A: "np_slice_block a d = Inr A" and t: "np_slice_last_column a d = Inr t"
    and R0: "np_setitem (np_eye d) 0 0 (- 1) = Inr R0" and R: "np_setitem R0 1 1 (- 1) = Inr R"
    and RA: "np_dot R A = Inr RA" and RAR: "np_dot RA R = Inr RAR"
    and Rt: "np_dot_vec R t = Inr Rt"
    by (auto simp: converted_def split: sum.splits)
  from A obtain M where M: "a = Array2 M" "A = map (take d) (take d M)"
    by (auto simp: np_slice_block_def split: ndarray.splits)
  from t M(1) have tM: "t = map last (take d M)"
    by (auto simp: np_slice_last_column_def split: if_splits)
  from np_setitem_length [OF R0] np_setitem_length [OF R] have d: "2 \<le> d"
    by (simp add: np_eye_def)
  then have pos: "0 < d" by simp
  from R0 R eye_to_reflection [OF d] have Rr: "R = reflection d" by simp
  note Rs = reflection_shape [of d, where 'a = float64]
  from RA have lenA: "length A = d"
    by (auto simp: np_dot_def Rr Rs(3) [OF pos] split: if_splits)
  with Rs(4) have "np_dot (reflection d) A = Inr (mat_mult (reflection d) A)"
    by (intro np_dot_mat_mult) (simp_all add: Rs(3) [OF pos])
  with RA have RAm: "RA = mat_mult (reflection d) A" by (simp add: Rr)
  have RAlen: "length RA = d" by (simp add: RAm mat_mult_shape Rs)
  with pos have "RA \<noteq> []" by auto
  with mat_mult_shape(3) [of "reflection d" A] have "ncols RA = ncols A"
    unfolding RAm by (rule ncols_rows)
  moreover from RAR have "ncols RA = d"
    by (auto simp: np_dot_def Rr Rs(1) split: if_splits)
  ultimately have "\<forall>row\<in>set RA. length row = length (reflection d :: matrix)"
    using mat_mult_shape(3) [of "reflection d" A] by (simp add: RAm Rs(1))
  with \<open>ncols RA = d\<close> have "np_dot RA (reflection d) = Inr (mat_mult RA (reflection d))"
    by (intro np_dot_mat_mult) (simp_all add: Rs(1))
  with RAR have RARm: "RAR = mat_mult RA (reflection d)" by (simp add: Rr)
  from Rt have "length t = d"
    by (auto simp: np_dot_vec_def Rr Rs(3) [OF pos] split: if_splits)
  with Rs(4) have "np_dot_vec (reflection d) t = Inr (mat_vec (reflection d) t)"
    by (intro np_dot_vec_mat_vec) (simp_all add: Rs(3) [OF pos])
  with Rt have Rtm: "Rt = mat_vec (reflection d) t" by (simp add: Rr)
  from M(1) d RARm RAm M(2) Rtm tM show ?thesis by simp
qed
section \<open>What the NiftyReg wrappers do\<close>

lemma NiftyReg_run_preserves: "preserves f (NiftyReg_run w)"
  unfolding NiftyReg_run_def nr_do_def
  by (intro preserves_rules)

lemma convert_to_sitk_transform_preserves: "preserves f (convert_to_sitk_transform w)"
  unfolding convert_to_sitk_transform_def Let_def
  by (intro preserves_rules) (auto intro!: preserves_rules split: option.splits)

lemma RegAladin_run_preserves_options: "preserves options (RegAladin_run w debug)"
  unfolding RegAladin_run_def nr_do_def
  by (intro preserves_rules NiftyReg_run_preserves convert_to_sitk_transform_preserves) simp_all

lemma RegF3D_run_preserves_options: "preserves options (RegF3D_run w debug)"
  unfolding RegF3D_run_def nr_do_def
  by (intro preserves_rules NiftyReg_run_preserves) simp_all

lemma NiftyReg_run_steps:
  "steps (nr_raises w) (niftyreg_calls self) (ret ()) (NiftyReg_run w) self"
  unfolding NiftyReg_run_def niftyreg_calls_def nr_do_def
  apply (rule steps_get_self)
  apply (rule steps_eq)
   apply (rule steps_block_Cons, rule steps_call)+
   apply (rule steps_block_Cons, rule steps_py_if_call)+
   apply (rule steps_block_Nil)
  apply simp
  done

lemma RegAladin_run_steps:
  "steps (nr_raises w) (RegAladin_calls debug self)
     (block
       [bind (query (nr_raises w) (nr_image w) (ReadImage (warped_moving_str self)))
          (\<lambda>img. modify (\<lambda>s. s\<lparr>aladin_warped_moving_sitk := Bound img\<rparr>)),
        bind (convert_to_sitk_transform w)
          (\<lambda>T. modify (\<lambda>s. s\<lparr>aladin_registration_transform_sitk := Bound T\<rparr>))])
     (RegAladin_run w debug) self"
  unfolding RegAladin_run_def RegAladin_calls_def nreg_calls_def nr_do_def
  apply (rule steps_eq)
   apply (rule steps_bind [OF NiftyReg_run_steps [unfolded nr_do_def]])
   apply (rule steps_get_self)
   apply (rule steps_block_Cons, rule steps_call)+
   apply (rule steps_block_Cons, rule steps_py_if_call)+
   apply (rule steps_block_Cons, rule steps_call)
   apply (rule steps_refl)
  apply simp
  done

lemma RegF3D_run_steps:
  "steps (nr_raises w) (RegF3D_calls debug self)
     (block
       [bind (query (nr_raises w) (nr_image w) (ReadImage (warped_moving_str self)))
          (\<lambda>img. modify (\<lambda>s. s\<lparr>f3d_warped_moving_sitk := Bound img\<rparr>)),
        bind (query (nr_raises w) (nr_image w)
                (ReadImage (registration_control_point_grid_str self)))
          (\<lambda>img. modify (\<lambda>s. s\<lparr>f3d_registration_transform_sitk := Bound img\<rparr>))])
     (RegF3D_run w debug) self"
  unfolding RegF3D_run_def RegF3D_calls_def nreg_calls_def nr_do_def
  apply (rule steps_eq)
   apply (rule steps_bind [OF NiftyReg_run_steps [unfolded nr_do_def]])
   apply (rule steps_get_self)
   apply (rule steps_block_Cons, rule steps_call)+
   apply (rule steps_block_Cons, rule steps_py_if_call)+
   apply (rule steps_block_Cons, rule steps_call)
   apply (rule steps_refl)
  apply simp
  done

lemma example_aladin_fields:
  "fixed_sitk example_aladin = Some (SitkImage 3 8 1)"
  "registration_transform_str example_aladin = ''/tmp/RegAladin/registration_transform.txt''"
  by (simp_all add: example_aladin_def RegAladin_init_def NiftyReg_init_def
      WrapperRegistration_init_def SimpleItkRegistrationBase_init_def Let_def os_path_join_def
      NiftyReg.extend_def RegAladin.fields_def WrapperRegistration.extend_def NiftyReg.fields_def
      SimpleItkRegistrationBase.extend_def WrapperRegistration.fields_def)


lemma convert_to_sitk_transform_emits: "emits reading (convert_to_sitk_transform w)"
  unfolding convert_to_sitk_transform_def Let_def lift_def [symmetric]
  by (intro emits_rules emits_lift)
    (auto intro!: emits_rules simp: reading_def split: option.splits)


lemma RegAladin_run_outcome:
  assumes "RegAladin_run w debug (self, tr) = (r, (self', tr'))"
  obtains (library) ys zs e where "ys \<noteq> []" "RegAladin_calls debug self = ys @ zs"
      "tr' = tr @ ys" "self' = self" "r = Inl e"
      "nr_raises w (tr @ butlast ys) (last ys) = Some e"
    | (invoked) zs where "tr' = tr @ RegAladin_calls debug self @ zs" "list_all reading zs"
proof (rule steps_cases [OF RegAladin_run_steps assms])
  fix ys zs e
  assume "ys \<noteq> []" "RegAladin_calls debug self = ys @ zs" "(self', tr') = (self, tr @ ys)"
    "r = Inl e" "nr_raises w (tr @ butlast ys) (last ys) = Some e"
  then show thesis by (intro library [of ys zs e]) simp_all
next
  let ?tail = "block
       [bind (query (nr_raises w) (nr_image w) (ReadImage (warped_moving_str self)))
          (\<lambda>img. modify (\<lambda>s. s\<lparr>aladin_warped_moving_sitk := Bound img\<rparr>)),
        bind (convert_to_sitk_transform w)
          (\<lambda>T. modify (\<lambda>s. s\<lparr>aladin_registration_transform_sitk := Bound T\<rparr>))]"
  assume tail: "?tail (self, tr @ RegAladin_calls debug self) = (r, (self', tr'))"
  have "emits reading ?tail"
    by (intro emits_rules convert_to_sitk_transform_emits) (simp add: reading_def)
  from emits_outcome [OF this tail] obtain zs
    where "tr' = (tr @ RegAladin_calls debug self) @ zs" "list_all reading zs"
    by blast
  then show thesis by (intro invoked [of zs]) simp_all
qed

lemma RegF3D_run_outcome:
  assumes "RegF3D_run w debug (self, tr) = (r, (self', tr'))"
  obtains (library) ys zs e where "ys \<noteq> []" "RegF3D_calls debug self = ys @ zs"
      "tr' = tr @ ys" "self' = self" "r = Inl e"
      "nr_raises w (tr @ butlast ys) (last ys) = Some e"
    | (invoked) zs where "tr' = tr @ RegF3D_calls debug self @ zs" "list_all reading zs"
proof (rule steps_cases [OF RegF3D_run_steps assms])
  fix ys zs e
  assume "ys \<noteq> []" "RegF3D_calls debug self = ys @ zs" "(self', tr') = (self, tr @ ys)"
    "r = Inl e" "nr_raises w (tr @ butlast ys) (last ys) = Some e"
  then show thesis by (intro library [of ys zs e]) simp_all
next
  let ?tail = "block
       [bind (query (nr_raises w) (nr_image w) (ReadImage (warped_moving_str self)))
          (\<lambda>img. modify (\<lambda>s. s\<lparr>f3d_warped_moving_sitk := Bound img\<rparr>)),
        bind (query (nr_raises w) (nr_image w)
                (ReadImage (registration_control_point_grid_str self)))
          (\<lambda>img. modify (\<lambda>s. s\<lparr>f3d_registration_transform_sitk := Bound img\<rparr>))]"
  assume tail: "?tail (self, tr @ RegF3D_calls debug self) = (r, (self', tr'))"
  have "emits reading ?tail"
    by (intro emits_rules) (simp_all add: reading_def)
  from emits_outcome [OF this tail] obtain zs
    where "tr' = (tr @ RegF3D_calls debug self) @ zs" "list_all reading zs"
    by blast
  then show thesis by (intro invoked [of zs]) simp_all
qed

text \<open>The generic look of a run of either wrapper, as far as the calls go.\<close>

lemma prefix_of_three:
  assumes "ys \<noteq> []" and "a # b # c # rest = ys @ zs"
  shows "take 3 ys = take (length ys) [a, b, c]"
proof (cases ys)
  case Nil
  with assms(1) show ?thesis by simp
next
  case 1: (Cons y1 ys1)
  show ?thesis
  proof (cases ys1)
    case Nil
    with 1 assms(2) show ?thesis by simp
  next
    case 2: (Cons y2 ys2)
    show ?thesis
    proof (cases ys2)
      case Nil
      with 1 2 assms(2) show ?thesis by simp
    next
      case (Cons y3 ys3)
      with 1 2 assms(2) show ?thesis by simp
    qed
  qed
qed

lemma prefix_reaching:
  assumes "a # b # c # rest = ys @ zs" and "x \<in> set ys" and "x \<noteq> a" "x \<noteq> b" "x \<noteq> c"
  shows "\<exists>others. ys = a # b # c # others"
proof (cases ys)
  case Nil
  with assms(2) show ?thesis by simp
next
  case 1: (Cons y1 ys1)
  show ?thesis
  proof (cases ys1)
    case Nil
    with 1 assms show ?thesis by auto
  next
    case 2: (Cons y2 ys2)
    show ?thesis
    proof (cases ys2)
      case Nil
      with 1 2 assms show ?thesis by auto
    next
      case (Cons y3 ys3)
      with 1 2 assms(1) show ?thesis by simp
    qed
  qed
qed


lemma files_first:
  assumes "temporary_files D sub self" and "ys \<noteq> []"
    and "niftyreg_calls self @ others = ys @ zs"
  shows "take 3 ys = take (length ys)
      [create_directory (os_path_join D sub) True,
       WriteImage (fixed_sitk self) (os_path_join (os_path_join D sub) ''fixed.nii.gz''),
       WriteImage (moving_sitk self) (os_path_join (os_path_join D sub) ''moving.nii.gz'')]"
    and "nreg_run \<in> set ys \<Longrightarrow> \<exists>rest. ys =
       create_directory (os_path_join D sub) True
       # WriteImage (fixed_sitk self) (os_path_join (os_path_join D sub) ''fixed.nii.gz'')
       # WriteImage (moving_sitk self) (os_path_join (os_path_join D sub) ''moving.nii.gz'')
       # rest"
proof -
  from assms(1,3) obtain rest where calls:
    "create_directory (os_path_join D sub) True
     # WriteImage (fixed_sitk self) (os_path_join (os_path_join D sub) ''fixed.nii.gz'')
     # WriteImage (moving_sitk self) (os_path_join (os_path_join D sub) ''moving.nii.gz'')
     # rest = ys @ zs"
    by (auto simp: niftyreg_calls_def temporary_files_def)
  from prefix_of_three [OF assms(2) calls] show "take 3 ys = take (length ys)
      [create_directory (os_path_join D sub) True,
       WriteImage (fixed_sitk self) (os_path_join (os_path_join D sub) ''fixed.nii.gz''),
       WriteImage (moving_sitk self) (os_path_join (os_path_join D sub) ''moving.nii.gz'')]" .
  assume "nreg_run \<in> set ys"
  from prefix_reaching [OF calls this] show "\<exists>rest. ys =
       create_directory (os_path_join D sub) True
       # WriteImage (fixed_sitk self) (os_path_join (os_path_join D sub) ''fixed.nii.gz'')
       # WriteImage (moving_sitk self) (os_path_join (os_path_join D sub) ''moving.nii.gz'')
       # rest"
    by simp
qed

lemma niftyreg_calls_nonempty: "niftyreg_calls self \<noteq> []"
  by (simp add: niftyreg_calls_def)

lemma constructors_temporary_files:
  "temporary_files D sub (NiftyReg_init D f m fm mm opts cores sub)"
  "aladin_files D sub (RegAladin_init D f m fm mm opts sub cores)"
  "f3d_files D sub (RegF3D_init D f m fm mm opts sub cores)"
  by (simp_all add: temporary_files_def aladin_files_def f3d_files_def RegAladin_init_def
      RegF3D_init_def NiftyReg_init_def Let_def NiftyReg.extend_def RegAladin.fields_def
      RegF3D.fields_def WrapperRegistration.extend_def NiftyReg.fields_def)

lemma convert_unfold:
  "convert_to_sitk_transform w (s, h) =
     (case fixed_sitk s of
        None \<Rightarrow> (Inl (AttributeError ''NoneType object has no attribute GetDimension''), (s, h))
      | Some img \<Rightarrow>
         (case nr_raises w h (loadtxt (registration_transform_str s)) of
            Some e \<Rightarrow> (Inl e, (s, h @ [loadtxt (registration_transform_str s)]))
          | None \<Rightarrow>
             (case converted (GetDimension img)
                     (nr_matrix w h (loadtxt (registration_transform_str s))) of
                Inl e \<Rightarrow> (Inl e, (s, h @ [loadtxt (registration_transform_str s)]))
              | Inr (A, t) \<Rightarrow>
                 ((case nr_raises w (h @ [loadtxt (registration_transform_str s)])
                          (sitk_AffineTransform (concat A) t) of
                     None \<Rightarrow> Inr (AffineTransform (concat A) t)
                   | Some e \<Rightarrow> Inl e),
                  (s, h @ [loadtxt (registration_transform_str s),
                           sitk_AffineTransform (concat A) t])))))"
  by (simp add: convert_to_sitk_transform_def converted_def exec
      split: option.splits sum.splits)

lemma convert_success:
  assumes "convert_to_sitk_transform w (s, h) = (Inr T, (s', h'))"
  shows "s' = s"
    and "h' = h @ [loadtxt (registration_transform_str s),
                   sitk_AffineTransform (matrix_of T) (translation_of T)]"
    and "\<exists>img M. fixed_sitk s = Some img
          \<and> nr_matrix w h (loadtxt (registration_transform_str s)) = Array2 M
          \<and> 2 \<le> GetDimension img
          \<and> T = AffineTransform
              (concat (mat_mult (mat_mult (reflection (GetDimension img))
                 (map (take (GetDimension img)) (take (GetDimension img) M)))
                 (reflection (GetDimension img))))
              (mat_vec (reflection (GetDimension img)) (map last (take (GetDimension img) M)))"
proof -
  from assms obtain img A t where img: "fixed_sitk s = Some img"
    and conv: "converted (GetDimension img)
        (nr_matrix w h (loadtxt (registration_transform_str s))) = Inr (A, t)"
    and T: "T = AffineTransform (concat A) t"
    and s: "s' = s"
    and h: "h' = h @ [loadtxt (registration_transform_str s), sitk_AffineTransform (concat A) t]"
    by (auto simp: convert_unfold split: option.splits sum.splits)
  from s show "s' = s" .
  from h T show "h' = h @ [loadtxt (registration_transform_str s),
                   sitk_AffineTransform (matrix_of T) (translation_of T)]"
    by simp
  from converted_Inr [OF conv] img T
  show "\<exists>img M. fixed_sitk s = Some img
          \<and> nr_matrix w h (loadtxt (registration_transform_str s)) = Array2 M
          \<and> 2 \<le> GetDimension img
          \<and> T = AffineTransform
              (concat (mat_mult (mat_mult (reflection (GetDimension img))
                 (map (take (GetDimension img)) (take (GetDimension img) M)))
                 (reflection (GetDimension img))))
              (mat_vec (reflection (GetDimension img)) (map last (take (GetDimension img) M)))"
    by auto
qed

lemma RegAladin_calls_last:
  "\<exists>before. RegAladin_calls debug self = before @ [nreg_run]
     \<and> nreg_inputs (res_file (warped_moving_str self)) \<in> set before
     \<and> nreg_inputs (aff_file (registration_transform_str self)) \<in> set before"
  by (rule exI [of _ "butlast (RegAladin_calls debug self)"])
    (simp add: RegAladin_calls_def nreg_calls_def butlast_append)

lemma RegF3D_calls_last:
  "\<exists>before. RegF3D_calls debug self = before @ [nreg_run]
     \<and> nreg_inputs (res_file (warped_moving_str self)) \<in> set before
     \<and> nreg_inputs (cpp_file (registration_control_point_grid_str self)) \<in> set before"
  by (rule exI [of _ "butlast (RegF3D_calls debug self)"])
    (simp add: RegF3D_calls_def nreg_calls_def butlast_append)

lemma RegAladin_run_success:
  assumes "RegAladin_run w debug (self, tr) = (Inr (), (self', tr'))"
  shows "\<exists>before T. tr' = tr @ before @
        [nreg_run, ReadImage (warped_moving_str self),
         loadtxt (registration_transform_str self),
         sitk_AffineTransform (matrix_of T) (translation_of T)]
     \<and> nreg_inputs (res_file (warped_moving_str self)) \<in> set before
     \<and> nreg_inputs (aff_file (registration_transform_str self)) \<in> set before
     \<and> aladin_warped_moving_sitk self' =
          Bound (nr_image w (tr @ before @ [nreg_run]) (ReadImage (warped_moving_str self)))
     \<and> aladin_registration_transform_sitk self' = Bound T
     \<and> (\<exists>img M. fixed_sitk self = Some img
          \<and> nr_matrix w (tr @ before @ [nreg_run, ReadImage (warped_moving_str self)])
                (loadtxt (registration_transform_str self)) = Array2 M
          \<and> 2 \<le> GetDimension img
          \<and> T = AffineTransform
              (concat (mat_mult (mat_mult (reflection (GetDimension img))
                 (map (take (GetDimension img)) (take (GetDimension img) M)))
                 (reflection (GetDimension img))))
              (mat_vec (reflection (GetDimension img)) (map last (take (GetDimension img) M))))"
proof (rule steps_cases [OF RegAladin_run_steps assms])
  fix ys zs e
  assume "Inr () = (Inl e :: error + unit)"
  then show ?thesis by simp
next
  from RegAladin_calls_last [of debug self] obtain before
    where before: "RegAladin_calls debug self = before @ [nreg_run]"
      "nreg_inputs (res_file (warped_moving_str self)) \<in> set before"
      "nreg_inputs (aff_file (registration_transform_str self)) \<in> set before"
    by blast
  define h where "h = tr @ before @ [nreg_run]"
  define img where "img = nr_image w h (ReadImage (warped_moving_str self))"
  define s1 where "s1 = self\<lparr>aladin_warped_moving_sitk := Bound img\<rparr>"
  assume "block
       [bind (query (nr_raises w) (nr_image w) (ReadImage (warped_moving_str self)))
          (\<lambda>img. modify (\<lambda>s. s\<lparr>aladin_warped_moving_sitk := Bound img\<rparr>)),
        bind (convert_to_sitk_transform w)
          (\<lambda>T. modify (\<lambda>s. s\<lparr>aladin_registration_transform_sitk := Bound T\<rparr>))]
     (self, tr @ RegAladin_calls debug self) = (Inr (), (self', tr'))"
  then have tail: "bind (convert_to_sitk_transform w)
          (\<lambda>T. modify (\<lambda>s. s\<lparr>aladin_registration_transform_sitk := Bound T\<rparr>))
          (s1, h @ [ReadImage (warped_moving_str self)]) = (Inr (), (self', tr'))"
    unfolding before(1) h_def img_def s1_def
    by (auto simp: exec split: option.splits sum.splits prod.splits)
  obtain rc s2 h2 where conv:
    "convert_to_sitk_transform w (s1, h @ [ReadImage (warped_moving_str self)]) = (rc, (s2, h2))"
    by (metis surj_pair)
  with tail obtain T where T: "rc = Inr T" "self' = s2\<lparr>aladin_registration_transform_sitk := Bound T\<rparr>"
    "tr' = h2"
    by (cases rc) (auto simp: exec)
  note cs = convert_success [OF conv [unfolded T(1)]]
  from cs(1,2)
  have "s2 = s1" "h2 = (h @ [ReadImage (warped_moving_str self)])
      @ [loadtxt (registration_transform_str s1),
         sitk_AffineTransform (matrix_of T) (translation_of T)]"
    by simp_all
  with T have 1: "tr' = tr @ before @
        [nreg_run, ReadImage (warped_moving_str self),
         loadtxt (registration_transform_str self),
         sitk_AffineTransform (matrix_of T) (translation_of T)]"
    and 2: "aladin_warped_moving_sitk self' =
          Bound (nr_image w (tr @ before @ [nreg_run]) (ReadImage (warped_moving_str self)))"
    and 3: "aladin_registration_transform_sitk self' = Bound T"
    by (simp_all add: h_def s1_def img_def)
  from cs(3) have 4: "\<exists>img M. fixed_sitk self = Some img
          \<and> nr_matrix w (tr @ before @ [nreg_run, ReadImage (warped_moving_str self)])
                (loadtxt (registration_transform_str self)) = Array2 M
          \<and> 2 \<le> GetDimension img
          \<and> T = AffineTransform
              (concat (mat_mult (mat_mult (reflection (GetDimension img))
                 (map (take (GetDimension img)) (take (GetDimension img) M)))
                 (reflection (GetDimension img))))
              (mat_vec (reflection (GetDimension img)) (map last (take (GetDimension img) M)))"
    by (simp add: h_def s1_def)
  from 1 before(2,3) 2 3 4 show ?thesis
    by - (rule exI [of _ before], rule exI [of _ T], (rule conjI, assumption)+, assumption)
qed

lemma RegF3D_run_success:
  assumes "RegF3D_run w debug (self, tr) = (Inr (), (self', tr'))"
  shows "\<exists>before. tr' = tr @ before @
        [nreg_run, ReadImage (warped_moving_str self),
         ReadImage (registration_control_point_grid_str self)]
     \<and> nreg_inputs (res_file (warped_moving_str self)) \<in> set before
     \<and> nreg_inputs (cpp_file (registration_control_point_grid_str self)) \<in> set before
     \<and> f3d_warped_moving_sitk self' =
          Bound (nr_image w (tr @ before @ [nreg_run]) (ReadImage (warped_moving_str self)))
     \<and> f3d_registration_transform_sitk self' =
          Bound (nr_image w (tr @ before @ [nreg_run, ReadImage (warped_moving_str self)])
                   (ReadImage (registration_control_point_grid_str self)))"
proof (rule steps_cases [OF RegF3D_run_steps assms])
  fix ys zs e
  assume "Inr () = (Inl e :: error + unit)"
  then show ?thesis by simp
next
  from RegF3D_calls_last [of debug self] obtain before
    where before: "RegF3D_calls debug self = before @ [nreg_run]"
      "nreg_inputs (res_file (warped_moving_str self)) \<in> set before"
      "nreg_inputs (cpp_file (registration_control_point_grid_str self)) \<in> set before"
    by blast
  assume "block
       [bind (query (nr_raises w) (nr_image w) (ReadImage (warped_moving_str self)))
          (\<lambda>img. modify (\<lambda>s. s\<lparr>f3d_warped_moving_sitk := Bound img\<rparr>)),
        bind (query (nr_raises w) (nr_image w)
                (ReadImage (registration_control_point_grid_str self)))
          (\<lambda>img. modify (\<lambda>s. s\<lparr>f3d_registration_transform_sitk := Bound img\<rparr>))]
     (self, tr @ RegF3D_calls debug self) = (Inr (), (self', tr'))"
  then have "tr' = tr @ before @
        [nreg_run, ReadImage (warped_moving_str self),
         ReadImage (registration_control_point_grid_str self)]"
    and "f3d_warped_moving_sitk self' =
          Bound (nr_image w (tr @ before @ [nreg_run]) (ReadImage (warped_moving_str self)))"
    and "f3d_registration_transform_sitk self' =
          Bound (nr_image w (tr @ before @ [nreg_run, ReadImage (warped_moving_str self)])
                   (ReadImage (registration_control_point_grid_str self)))"
    unfolding before(1)
    by (auto simp: exec split: option.splits)
  with before(2,3) show ?thesis
    by (intro exI [of _ before] conjI) assumption+
qed

subsection \<open>The masks in a run of the command-line tool\<close>

lemma temporary_files_distinct:
  assumes "temporary_files D sub self"
  shows "fixed_str self \<noteq> fixed_mask_str self" "fixed_str self \<noteq> moving_mask_str self"
    "moving_str self \<noteq> fixed_mask_str self" "moving_str self \<noteq> moving_mask_str self"
    "fixed_mask_str self \<noteq> moving_mask_str self"
  using assms by (simp_all add: temporary_files_def os_path_join_def)

lemma reading_mask_ok: "reading c \<Longrightarrow> mask_ok self c"
  by (cases c) (simp_all add: reading_def mask_ok_def)

lemma niftyreg_calls_mask_ok:
  assumes "temporary_files D sub self"
  shows "list_all (mask_ok self) (niftyreg_calls self)"
  using temporary_files_distinct [OF assms]
  by (simp add: niftyreg_calls_def mask_ok_def)

lemma RegAladin_calls_mask_ok:
  assumes "temporary_files D sub self"
  shows "list_all (mask_ok self) (RegAladin_calls debug self)"
proof -
  have "list_all (mask_ok self)
      (nreg_calls RegAladin_interface (aff_file (registration_transform_str self)) debug self)"
    by (simp add: nreg_calls_def mask_ok_def)
  with niftyreg_calls_mask_ok [OF assms] show ?thesis
    by (simp add: RegAladin_calls_def)
qed

lemma RegF3D_calls_mask_ok:
  assumes "temporary_files D sub self"
  shows "list_all (mask_ok self) (RegF3D_calls debug self)"
proof -
  have "list_all (mask_ok self)
      (nreg_calls RegF3D_interface (cpp_file (registration_control_point_grid_str self)) debug self)"
    by (simp add: nreg_calls_def mask_ok_def)
  with niftyreg_calls_mask_ok [OF assms] show ?thesis
    by (simp add: RegF3D_calls_def)
qed

lemma masks_in_niftyreg_calls:
  "fixed_sitk_mask self = Some msk \<Longrightarrow>
     WriteImage (Some msk) (fixed_mask_str self) \<in> set (niftyreg_calls self)"
  "moving_sitk_mask self = Some msk \<Longrightarrow>
     WriteImage (Some msk) (moving_mask_str self) \<in> set (niftyreg_calls self)"
  by (simp_all add: niftyreg_calls_def)

lemma nreg_calls_last:
  "\<exists>before. nreg_calls interface output debug self = before @ [nreg_run]
     \<and> nreg_run \<notin> set before
     \<and> (fixed_sitk_mask self \<noteq> None \<longrightarrow>
          nreg_inputs (rmask_file (fixed_mask_str self)) \<in> set before)
     \<and> (moving_sitk_mask self \<noteq> None \<longrightarrow>
          nreg_inputs (fmask_file (moving_mask_str self)) \<in> set before)"
  by (rule exI [of _ "butlast (nreg_calls interface output debug self)"])
    (simp add: nreg_calls_def butlast_append)

lemma masks_before_nreg_run:
  assumes "calls = niftyreg_calls self @ nreg_calls interface output debug self"
  shows "\<exists>before. calls = before @ [nreg_run] \<and> nreg_run \<notin> set before
     \<and> (\<forall>msk. fixed_sitk_mask self = Some msk \<longrightarrow>
          WriteImage (Some msk) (fixed_mask_str self) \<in> set before
          \<and> nreg_inputs (rmask_file (fixed_mask_str self)) \<in> set before)
     \<and> (\<forall>msk. moving_sitk_mask self = Some msk \<longrightarrow>
          WriteImage (Some msk) (moving_mask_str self) \<in> set before
          \<and> nreg_inputs (fmask_file (moving_mask_str self)) \<in> set before)"
proof -
  from nreg_calls_last obtain b
    where b: "nreg_calls interface output debug self = b @ [nreg_run]" "nreg_run \<notin> set b"
      "fixed_sitk_mask self \<noteq> None \<longrightarrow>
          nreg_inputs (rmask_file (fixed_mask_str self)) \<in> set b"
      "moving_sitk_mask self \<noteq> None \<longrightarrow>
          nreg_inputs (fmask_file (moving_mask_str self)) \<in> set b"
    by blast
  have no_run: "nreg_run \<notin> set (niftyreg_calls self)"
    by (simp add: niftyreg_calls_def)
  define before where "before = niftyreg_calls self @ b"
  have 1: "calls = before @ [nreg_run]"
    by (simp add: assms b(1) before_def)
  have 2: "nreg_run \<notin> set before"
    using no_run b(2) by (simp add: before_def)
  have 3: "\<forall>msk. fixed_sitk_mask self = Some msk \<longrightarrow>
          WriteImage (Some msk) (fixed_mask_str self) \<in> set before
          \<and> nreg_inputs (rmask_file (fixed_mask_str self)) \<in> set before"
    using masks_in_niftyreg_calls(1) [of self] b(3) by (simp add: before_def)
  have 4: "\<forall>msk. moving_sitk_mask self = Some msk \<longrightarrow>
          WriteImage (Some msk) (moving_mask_str self) \<in> set before
          \<and> nreg_inputs (fmask_file (moving_mask_str self)) \<in> set before"
    using masks_in_niftyreg_calls(2) [of self] b(4) by (simp add: before_def)
  from 1 2 3 4 show ?thesis
    by (intro exI [of _ before] conjI) assumption+
qed

lemma reaches_last:
  assumes "ys @ zs = before @ [x]" and "x \<in> set ys" and "x \<notin> set before"
  shows "ys = before @ [x]"
proof (cases zs rule: rev_cases)
  case Nil
  with assms(1) show ?thesis by simp
next
  case (snoc zs' z)
  with assms(1) have "ys @ zs' = before" by simp
  with assms(2,3) show ?thesis by auto
qed

lemma masks_of_run:
  assumes files: "temporary_files D sub self"
    and calls: "calls = niftyreg_calls self @ nreg_calls interface output debug self"
    and ok: "list_all (mask_ok self) calls"
    and outcome: "(ys \<noteq> [] \<and> (\<exists>zs. calls = ys @ zs)
                    \<and> (\<exists>e. raises (tr @ butlast ys) (last ys) = Some e))
                  \<or> (\<exists>zs. ys = calls @ zs \<and> list_all reading zs)"
  shows "list_all (mask_ok self) ys"
    and "nreg_run \<in> set ys \<Longrightarrow> \<exists>before rest. ys = before @ nreg_run # rest
       \<and> nreg_run \<notin> set before
       \<and> (\<forall>msk. fixed_sitk_mask self = Some msk \<longrightarrow>
            WriteImage (Some msk) (fixed_mask_str self) \<in> set before
            \<and> nreg_inputs (rmask_file (fixed_mask_str self)) \<in> set before)
       \<and> (\<forall>msk. moving_sitk_mask self = Some msk \<longrightarrow>
            WriteImage (Some msk) (moving_mask_str self) \<in> set before
            \<and> nreg_inputs (fmask_file (moving_mask_str self)) \<in> set before)"
    and "\<forall>h c. raises h c = None \<Longrightarrow> nreg_run \<in> set ys"
proof -
  from masks_before_nreg_run [OF calls] obtain before
    where before: "calls = before @ [nreg_run]" "nreg_run \<notin> set before"
      "\<forall>msk. fixed_sitk_mask self = Some msk \<longrightarrow>
          WriteImage (Some msk) (fixed_mask_str self) \<in> set before
          \<and> nreg_inputs (rmask_file (fixed_mask_str self)) \<in> set before"
      "\<forall>msk. moving_sitk_mask self = Some msk \<longrightarrow>
          WriteImage (Some msk) (moving_mask_str self) \<in> set before
          \<and> nreg_inputs (fmask_file (moving_mask_str self)) \<in> set before"
    by blast
  from outcome ok show "list_all (mask_ok self) ys"
  proof (elim disjE conjE exE)
    fix zs assume "calls = ys @ zs"
    with ok show ?thesis by simp
  next
    fix zs assume "ys = calls @ zs" "list_all reading zs"
    with ok show ?thesis by (auto simp: list_all_iff reading_mask_ok)
  qed
  show "nreg_run \<in> set ys" if "\<forall>h c. raises h c = None"
    using outcome that before(1) by auto
  assume reached: "nreg_run \<in> set ys"
  from outcome have "\<exists>rest. ys = before @ nreg_run # rest"
  proof (elim disjE conjE exE)
    fix zs assume "calls = ys @ zs"
    with before(1) have "ys @ zs = before @ [nreg_run]" by simp
    from reaches_last [OF this reached before(2)] show ?thesis by simp
  next
    fix zs assume "ys = calls @ zs"
    with before(1) show ?thesis by simp
  qed
  then obtain rest where "ys = before @ nreg_run # rest" ..
  with before(2,3,4) show "\<exists>before rest. ys = before @ nreg_run # rest
       \<and> nreg_run \<notin> set before
       \<and> (\<forall>msk. fixed_sitk_mask self = Some msk \<longrightarrow>
            WriteImage (Some msk) (fixed_mask_str self) \<in> set before
            \<and> nreg_inputs (rmask_file (fixed_mask_str self)) \<in> set before)
       \<and> (\<forall>msk. moving_sitk_mask self = Some msk \<longrightarrow>
            WriteImage (Some msk) (moving_mask_str self) \<in> set before
            \<and> nreg_inputs (fmask_file (moving_mask_str self)) \<in> set before)"
    by (intro exI [of _ before] exI [of _ rest] conjI) assumption+
qed

subsection \<open>Runs in which no call raises\<close>

lemma RegAladin_run_invokes:
  assumes "\<forall>h c. nr_raises w h c = None"
  shows "nreg_run \<in> set (snd (snd (RegAladin_run w debug (self, tr))))"
proof -
  obtain r self' tr' where run: "RegAladin_run w debug (self, tr) = (r, (self', tr'))"
    by (metis surj_pair)
  from run have "nreg_run \<in> set tr'"
  proof (cases rule: RegAladin_run_outcome)
    case (library ys zs e)
    with assms show ?thesis by simp
  next
    case (invoked zs)
    then show ?thesis by (simp add: RegAladin_calls_def nreg_calls_def)
  qed
  with run show ?thesis by simp
qed

lemma RegF3D_run_invokes:
  assumes "\<forall>h c. nr_raises w h c = None"
  shows "nreg_run \<in> set (snd (snd (RegF3D_run w debug (self, tr))))"
proof -
  obtain r self' tr' where run: "RegF3D_run w debug (self, tr) = (r, (self', tr'))"
    by (metis surj_pair)
  from run have "nreg_run \<in> set tr'"
  proof (cases rule: RegF3D_run_outcome)
    case (library ys zs e)
    with assms show ?thesis by simp
  next
    case (invoked zs)
    then show ?thesis by (simp add: RegF3D_calls_def nreg_calls_def)
  qed
  with run show ?thesis by simp
qed

lemma RegF3D_run_quiet:
  assumes "\<forall>h c. nr_raises w h c = None"
  shows "fst (RegF3D_run w debug (self, tr)) = Inr ()"
proof -
  obtain r self' tr' where run: "RegF3D_run w debug (self, tr) = (r, (self', tr'))"
    by (metis surj_pair)
  have "r = Inr ()"
  proof (rule steps_cases [OF RegF3D_run_steps run])
    fix ys :: "nr_call list" and e
    assume "nr_raises w (tr @ butlast ys) (last ys) = Some e"
    with assms show ?thesis by simp
  next
    assume "block
       [bind (query (nr_raises w) (nr_image w) (ReadImage (warped_moving_str self)))
          (\<lambda>img. modify (\<lambda>s. s\<lparr>f3d_warped_moving_sitk := Bound img\<rparr>)),
        bind (query (nr_raises w) (nr_image w)
                (ReadImage (registration_control_point_grid_str self)))
          (\<lambda>img. modify (\<lambda>s. s\<lparr>f3d_registration_transform_sitk := Bound img\<rparr>))]
     (self, tr @ RegF3D_calls debug self) = (r, (self', tr'))"
    with assms show ?thesis by (auto simp: exec)
  qed
  with run show ?thesis by simp
qed

lemma RegAladin_run_quiet:
  assumes "\<forall>h c. nr_raises w h c = None"
    and "\<And>h img. fst (convert_to_sitk_transform w
            (self\<lparr>aladin_warped_moving_sitk := Bound img\<rparr>, h)) = Inr T"
  shows "fst (RegAladin_run w debug (self, tr)) = Inr ()"
proof -
  obtain r self' tr' where run: "RegAladin_run w debug (self, tr) = (r, (self', tr'))"
    by (metis surj_pair)
  have "r = Inr ()"
  proof (rule steps_cases [OF RegAladin_run_steps run])
    fix ys :: "nr_call list" and e
    assume "nr_raises w (tr @ butlast ys) (last ys) = Some e"
    with assms(1) show ?thesis by simp
  next
    define h where "h = tr @ RegAladin_calls debug self @ [ReadImage (warped_moving_str self)]"
    define img where
      "img = nr_image w (tr @ RegAladin_calls debug self) (ReadImage (warped_moving_str self))"
    obtain rc s2 h2 where conv: "convert_to_sitk_transform w
        (self\<lparr>aladin_warped_moving_sitk := Bound img\<rparr>, h) = (rc, (s2, h2))"
      by (metis surj_pair)
    with assms(2) [of img h] have rc: "rc = Inr T" by simp
    assume "block
       [bind (query (nr_raises w) (nr_image w) (ReadImage (warped_moving_str self)))
          (\<lambda>img. modify (\<lambda>s. s\<lparr>aladin_warped_moving_sitk := Bound img\<rparr>)),
        bind (convert_to_sitk_transform w)
          (\<lambda>T. modify (\<lambda>s. s\<lparr>aladin_registration_transform_sitk := Bound T\<rparr>))]
     (self, tr @ RegAladin_calls debug self) = (r, (self', tr'))"
    with assms(1) conv rc show ?thesis
      by (auto simp: exec h_def img_def)
  qed
  with run show ?thesis by simp
qed

lemma run_quiet_executes:
  assumes "type_error self = None" and "guard_error self = None"
    and "\<forall>h c. itk_raises w h c = None"
    and run: "run w (self, tr) = (r, (self', tr'))"
  shows "\<exists>zs. tr' = tr @ Call ''ph.start_timing'' [] # setup_calls self @ registration_Update # zs"
  using run
proof (cases rule: run_outcome)
  case (executed zs)
  then show ?thesis by blast
qed (use assms in auto)

subsection \<open>The two example wrappers\<close>

lemma quiet_nr_raises: "\<forall>h c. nr_raises quiet_nr h c = None"
  by (simp add: quiet_nr_def)

lemma example_files:
  "aladin_files ''/tmp'' ''RegAladin'' example_aladin"
  "f3d_files ''/tmp'' ''RegF3D'' example_f3d"
  unfolding example_aladin_def example_f3d_def
  by (rule constructors_temporary_files)+

lemma example_images:
  "fixed_sitk example_aladin = Some (SitkImage 3 8 1)"
  "moving_sitk example_aladin = Some (SitkImage 3 8 2)"
  "fixed_sitk_mask example_aladin = Some (SitkImage 3 1 3)"
  "moving_sitk_mask example_aladin = None"
  "fixed_sitk example_f3d = Some (SitkImage 3 8 1)"
  "moving_sitk example_f3d = Some (SitkImage 3 8 2)"
  "fixed_sitk_mask example_f3d = Some (SitkImage 3 1 3)"
  "moving_sitk_mask example_f3d = None"
  by (simp_all add: example_aladin_def example_f3d_def RegAladin_init_def RegF3D_init_def
      NiftyReg_init_def WrapperRegistration_init_def SimpleItkRegistrationBase_init_def Let_def
      NiftyReg.extend_def RegAladin.fields_def RegF3D.fields_def WrapperRegistration.extend_def
      NiftyReg.fields_def SimpleItkRegistrationBase.extend_def WrapperRegistration.fields_def)

lemma example_paths:
  "os_path_join ''/tmp'' ''RegAladin'' = ''/tmp/RegAladin''"
  "os_path_join ''/tmp'' ''RegF3D'' = ''/tmp/RegF3D''"
  "os_path_join ''/tmp/RegAladin'' ''fixed.nii.gz'' = ''/tmp/RegAladin/fixed.nii.gz''"
  "os_path_join ''/tmp/RegAladin'' ''moving.nii.gz'' = ''/tmp/RegAladin/moving.nii.gz''"
  "os_path_join ''/tmp/RegAladin'' ''warped_moving.nii.gz'' = ''/tmp/RegAladin/warped_moving.nii.gz''"
  "os_path_join ''/tmp/RegAladin'' ''fixed_mask.nii.gz'' = ''/tmp/RegAladin/fixed_mask.nii.gz''"
  "os_path_join ''/tmp/RegAladin'' ''registration_transform.txt''
     = ''/tmp/RegAladin/registration_transform.txt''"
  "os_path_join ''/tmp/RegF3D'' ''fixed.nii.gz'' = ''/tmp/RegF3D/fixed.nii.gz''"
  "os_path_join ''/tmp/RegF3D'' ''moving.nii.gz'' = ''/tmp/RegF3D/moving.nii.gz''"
  "os_path_join ''/tmp/RegF3D'' ''warped_moving.nii.gz'' = ''/tmp/RegF3D/warped_moving.nii.gz''"
  "os_path_join ''/tmp/RegF3D'' ''fixed_mask.nii.gz'' = ''/tmp/RegF3D/fixed_mask.nii.gz''"
  "os_path_join ''/tmp/RegF3D'' ''registration_cpp.nii.gz'' = ''/tmp/RegF3D/registration_cpp.nii.gz''"
  by (simp_all add: os_path_join_def)

subsection \<open>What a run does with the masks\<close>

lemma interpolator_calls_mask_ok: "list_all (itk_mask_ok self) (interpolator_calls self)"
  by (simp add: interpolator_calls_def itk_mask_ok_def interpolator_type_value_def
      split: option.splits)

lemma metric_calls_mask_ok: "list_all (itk_mask_ok self) (metric_calls self)"
  by (auto simp: metric_calls_def itk_mask_ok_def metric_value_def split: option.splits)

lemma registration_calls_mask_ok: "list_all (itk_mask_ok self) (registration_calls self)"
  by (simp add: registration_calls_def itk_mask_ok_def)

lemma moving_mask_calls_mask_ok: "list_all (itk_mask_ok self) (moving_mask_calls self)"
  by (simp add: moving_mask_calls_def itk_mask_ok_def split: option.splits)

lemma fixed_mask_calls_mask_ok: "list_all (itk_mask_ok self) (fixed_mask_calls self)"
  by (simp add: fixed_mask_calls_def itk_mask_ok_def split: option.splits)

lemma initializer_calls_mask_ok: "list_all (itk_mask_ok self) (initializer_calls self)"
  by (simp add: initializer_calls_def itk_mask_ok_def transform_which_works_def
      split: option.splits)

lemma metric_setup_calls_mask_ok: "list_all (itk_mask_ok self) (metric_setup_calls self)"
proof (cases "metric_value self")
  case None
  then show ?thesis by (simp add: metric_setup_calls_def)
next
  case (Some T)
  then have T: "\<forall>n. T \<noteq> ImageMaskSpatialObject n"
    by (auto simp: metric_value_def split: if_splits)
  have "itk_mask_ok self (New T)" "itk_mask_ok self (Call ''registration.SetMetric'' [])"
    using T by (simp_all add: itk_mask_ok_def)
  with Some moving_mask_calls_mask_ok [of self] fixed_mask_calls_mask_ok [of self]
  show ?thesis by (simp add: metric_setup_calls_def)
qed

lemma transform_calls_mask_ok: "list_all (itk_mask_ok self) (transform_calls self)"
proof -
  have "itk_mask_ok self (New (transform_type_value self))"
    by (simp add: itk_mask_ok_def transform_type_value_def)
  moreover have "itk_mask_ok self (Call ''registration.SetTransform'' [])"
    "itk_mask_ok self (Call ''initial_transform.GetParameters'' [])"
    "itk_mask_ok self (Call ''registration.SetInitialTransformParameters'' [])"
    by (simp_all add: itk_mask_ok_def)
  ultimately show ?thesis
    using initializer_calls_mask_ok [of self] by (simp add: transform_calls_def)
qed

lemma setup_calls_mask_ok: "list_all (itk_mask_ok self) (setup_calls self)"
proof -
  have "itk_mask_ok self (Instantiate (transform_type_value self))"
    by (simp add: itk_mask_ok_def transform_type_value_def)
  moreover have "itk_mask_ok self (Call ''registration.SetOptimizer'' [])"
    by (simp add: itk_mask_ok_def)
  ultimately show ?thesis
    using interpolator_calls_mask_ok [of self] metric_calls_mask_ok [of self]
      registration_calls_mask_ok [of self] metric_setup_calls_mask_ok [of self]
      transform_calls_mask_ok [of self]
    by (simp add: setup_calls_def)
qed

lemma other_calls_mask_ok:
  "itk_mask_ok self (Call ''ph.start_timing'' [])" "itk_mask_ok self registration_Update"
  "reporting c \<Longrightarrow> itk_mask_ok self c"
proof -
  show "itk_mask_ok self (Call ''ph.start_timing'' [])" "itk_mask_ok self registration_Update"
    by (simp_all add: itk_mask_ok_def)
  assume "reporting c"
  then show "itk_mask_ok self c"
    by (cases c) (auto simp: reporting_def itk_mask_ok_def)
qed

lemma setup_calls_split:
  assumes "guard_error self = None"
  shows "\<exists>T a b. setup_calls self =
     (a @ [New T]) @ moving_mask_calls self @ fixed_mask_calls self
     @ Call ''registration.SetMetric'' [] # b"
proof -
  from guard_error_None(4) [OF assms] obtain T where T: "metric_value self = Some T"
    by blast
  define a where "a = Instantiate (transform_type_value self) # interpolator_calls self
     @ metric_calls self @ registration_calls self @ [Call ''registration.SetOptimizer'' []]"
  from T have "setup_calls self =
     (a @ [New T]) @ moving_mask_calls self @ fixed_mask_calls self
     @ Call ''registration.SetMetric'' [] # transform_calls self"
    by (simp add: setup_calls_executed [OF assms] metric_setup_calls_def a_def)
  then show ?thesis by blast
qed

lemma mask_calls_no_update:
  "registration_Update \<notin> set (moving_mask_calls self)"
  "registration_Update \<notin> set (fixed_mask_calls self)"
  by (simp_all add: moving_mask_calls_def fixed_mask_calls_def split: option.splits)

lemma masks_before_update:
  assumes guard: "guard_error self = None"
    and ys: "ys = Call ''ph.start_timing'' [] # setup_calls self @ registration_Update # zs"
  shows "before_update (moving_mask_calls self) ys" "before_update (fixed_mask_calls self) ys"
proof -
  from setup_calls_split [OF guard] obtain T a b where split: "setup_calls self =
     (a @ [New T]) @ moving_mask_calls self @ fixed_mask_calls self
     @ Call ''registration.SetMetric'' [] # b"
    by blast
  have no: "registration_Update \<notin> set (setup_calls self)"
    by (rule setup_ok_facts(1) [OF setup_calls_ok])
  then have no_a: "registration_Update \<notin> set (a @ [New T])"
    and no_m: "registration_Update \<notin> set (moving_mask_calls self)"
    and no_f: "registration_Update \<notin> set (fixed_mask_calls self)"
    unfolding split by simp_all
  define pre1 where "pre1 = Call ''ph.start_timing'' [] # a @ [New T]"
  define post1 where "post1 = fixed_mask_calls self @ Call ''registration.SetMetric'' [] # b
     @ registration_Update # zs"
  have "ys = pre1 @ moving_mask_calls self @ post1"
    by (simp add: ys split pre1_def post1_def)
  moreover from no_a have "registration_Update \<notin> set pre1"
    by (simp add: pre1_def)
  moreover have "registration_Update \<in> set post1"
    by (simp add: post1_def)
  ultimately show "before_update (moving_mask_calls self) ys"
    unfolding before_update_def using no_m by blast
  define pre2 where "pre2 = Call ''ph.start_timing'' [] # a @ [New T] @ moving_mask_calls self"
  define post2 where "post2 = Call ''registration.SetMetric'' [] # b @ registration_Update # zs"
  have "ys = pre2 @ fixed_mask_calls self @ post2"
    by (simp add: ys split pre2_def post2_def)
  moreover from no_a no_m have "registration_Update \<notin> set pre2"
    by (simp add: pre2_def)
  moreover have "registration_Update \<in> set post2"
    by (simp add: post2_def)
  ultimately show "before_update (fixed_mask_calls self) ys"
    unfolding before_update_def using no_f by blast
qed

lemma run_masks:
  assumes "run w (self, tr) = (r, (self', tr'))"
  shows "\<exists>ys. tr' = tr @ ys \<and> list_all (itk_mask_ok self) ys
     \<and> (registration_Update \<in> set ys \<longrightarrow>
          (\<forall>msk. moving_itk_mask self = Some msk \<longrightarrow> before_update
             [mask_caster_SetInput msk,
              Call ''self._mask_caster.Update'' [],
              Call ''self._mask_caster.GetOutput'' [],
              Call ''moving_itk_mask.DisconnectPipeline'' [],
              Instantiate (ImageMaskSpatialObject (dimension self)),
              New (ImageMaskSpatialObject (dimension self)),
              Call ''moving_mask_object.SetImage'' [],
              metric_SetMovingImageMask] ys)
          \<and> (\<forall>msk. fixed_itk_mask self = Some msk \<longrightarrow> before_update
             [mask_caster_SetInput msk,
              Call ''self._mask_caster.Update'' [],
              Call ''self._mask_caster.GetOutput'' [],
              Call ''fixed_itk_mask.DisconnectPipeline'' [],
              Instantiate (ImageMaskSpatialObject (dimension self)),
              New (ImageMaskSpatialObject (dimension self)),
              Call ''fixed_mask_object.SetImage'' [],
              metric_SetFixedImageMask] ys))
     \<and> (type_error self = None \<and> guard_error self = None
          \<and> (\<forall>h c. itk_raises w h c = None) \<longrightarrow> registration_Update \<in> set ys)"
proof -
  let ?attached = "\<lambda>ys. (\<forall>msk. moving_itk_mask self = Some msk \<longrightarrow> before_update
             [mask_caster_SetInput msk,
              Call ''self._mask_caster.Update'' [],
              Call ''self._mask_caster.GetOutput'' [],
              Call ''moving_itk_mask.DisconnectPipeline'' [],
              Instantiate (ImageMaskSpatialObject (dimension self)),
              New (ImageMaskSpatialObject (dimension self)),
              Call ''moving_mask_object.SetImage'' [],
              metric_SetMovingImageMask] ys)
          \<and> (\<forall>msk. fixed_itk_mask self = Some msk \<longrightarrow> before_update
             [mask_caster_SetInput msk,
              Call ''self._mask_caster.Update'' [],
              Call ''self._mask_caster.GetOutput'' [],
              Call ''fixed_itk_mask.DisconnectPipeline'' [],
              Instantiate (ImageMaskSpatialObject (dimension self)),
              New (ImageMaskSpatialObject (dimension self)),
              Call ''fixed_mask_object.SetImage'' [],
              metric_SetFixedImageMask] ys)"
  let ?quiet = "type_error self = None \<and> guard_error self = None
          \<and> (\<forall>h c. itk_raises w h c = None)"
  have early: "\<exists>ys. tr' = tr @ ys \<and> list_all (itk_mask_ok self) ys
      \<and> (registration_Update \<in> set ys \<longrightarrow> ?attached ys)
      \<and> (?quiet \<longrightarrow> registration_Update \<in> set ys)"
    if "tr' = tr @ ys" "list_all (itk_mask_ok self) ys" "registration_Update \<notin> set ys"
      "\<not> ?quiet" for ys
  proof -
    from that(3) have "registration_Update \<in> set ys \<longrightarrow> ?attached ys" by (rule contrapos_np) simp
    moreover from that(4) have "?quiet \<longrightarrow> registration_Update \<in> set ys" by (rule contrapos_np) simp
    ultimately show ?thesis
      using that(1,2) by - (rule exI [of _ ys], (rule conjI, assumption)+, assumption)
  qed
  from assms show ?thesis
  proof (cases rule: run_outcome)
    case (rejected e)
    then show ?thesis by (intro early [of "[]"]) simp_all
  next
    case (timing e)
    then show ?thesis
      by (intro early [of "[Call ''ph.start_timing'' []]"]) (auto simp: other_calls_mask_ok)
  next
    case (library ys zs e)
    from setup_prefix_ok [OF library(3)] have "registration_Update \<notin> set ys"
      by (rule setup_ok_facts(1))
    moreover from setup_calls_mask_ok [of self] have "list_all (itk_mask_ok self) ys"
      unfolding library(3) by simp
    ultimately show ?thesis
      using library(4,7)
      by (intro early [of "Call ''ph.start_timing'' [] # ys"]) (auto simp: other_calls_mask_ok)
  next
    case (guard e)
    have "registration_Update \<notin> set (setup_calls self)"
      by (rule setup_ok_facts(1) [OF setup_calls_ok])
    then show ?thesis
      using guard setup_calls_mask_ok [of self]
      by (intro early [of "Call ''ph.start_timing'' [] # setup_calls self"])
        (simp_all add: other_calls_mask_ok)
  next
    case (executed zs)
    define ys where "ys = Call ''ph.start_timing'' [] # setup_calls self @ registration_Update # zs"
    note mb = masks_before_update [OF executed(2) ys_def]
    have 1: "tr' = tr @ ys" by (simp add: executed(3) ys_def)
    have "list_all (itk_mask_ok self) zs"
      using executed(4) by (simp add: list_all_iff other_calls_mask_ok)
    then have 2: "list_all (itk_mask_ok self) ys"
      using setup_calls_mask_ok [of self] by (simp add: ys_def other_calls_mask_ok)
    have "?attached ys"
    proof (intro conjI allI impI)
      fix msk assume "moving_itk_mask self = Some msk"
      with mb(1) show "before_update
             [mask_caster_SetInput msk,
              Call ''self._mask_caster.Update'' [],
              Call ''self._mask_caster.GetOutput'' [],
              Call ''moving_itk_mask.DisconnectPipeline'' [],
              Instantiate (ImageMaskSpatialObject (dimension self)),
              New (ImageMaskSpatialObject (dimension self)),
              Call ''moving_mask_object.SetImage'' [],
              metric_SetMovingImageMask] ys"
        by (simp add: moving_mask_calls_def)
    next
      fix msk assume "fixed_itk_mask self = Some msk"
      with mb(2) show "before_update
             [mask_caster_SetInput msk,
              Call ''self._mask_caster.Update'' [],
              Call ''self._mask_caster.GetOutput'' [],
              Call ''fixed_itk_mask.DisconnectPipeline'' [],
              Instantiate (ImageMaskSpatialObject (dimension self)),
              New (ImageMaskSpatialObject (dimension self)),
              Call ''fixed_mask_object.SetImage'' [],
              metric_SetFixedImageMask] ys"
        by (simp add: fixed_mask_calls_def)
    qed
    then have 3: "registration_Update \<in> set ys \<longrightarrow> ?attached ys" by (rule impI)
    have "registration_Update \<in> set ys" by (simp add: ys_def)
    then have 4: "?quiet \<longrightarrow> registration_Update \<in> set ys" by (rule impI)
    from 1 2 3 4 show ?thesis
      by - (rule exI [of _ ys], (rule conjI, assumption)+, assumption)
  qed
qed

lemma nifty_run_masks:
  fixes self :: "'a NiftyReg_scheme"
  assumes files: "temporary_files D sub self"
    and calls: "calls = niftyreg_calls self @ nreg_calls interface output debug self"
    and ok: "list_all (mask_ok self) calls"
    and ys: "tr' = tr @ ys"
    and outcome: "(ys \<noteq> [] \<and> (\<exists>zs. calls = ys @ zs)
                    \<and> (\<exists>e. raises (tr @ butlast ys) (last ys) = Some e))
                  \<or> (\<exists>zs. ys = calls @ zs \<and> list_all reading zs)"
  shows "\<exists>ys. tr' = tr @ ys \<and> list_all (mask_ok self) ys
     \<and> (nreg_run \<in> set ys \<longrightarrow> (\<exists>before rest. ys = before @ nreg_run # rest
         \<and> nreg_run \<notin> set before
         \<and> (\<forall>msk. fixed_sitk_mask self = Some msk \<longrightarrow>
              WriteImage (Some msk) (fixed_mask_str self) \<in> set before
              \<and> nreg_inputs (rmask_file (fixed_mask_str self)) \<in> set before)
         \<and> (\<forall>msk. moving_sitk_mask self = Some msk \<longrightarrow>
              WriteImage (Some msk) (moving_mask_str self) \<in> set before
              \<and> nreg_inputs (fmask_file (moving_mask_str self)) \<in> set before)))
     \<and> ((\<forall>h c. raises h c = None) \<longrightarrow> nreg_run \<in> set ys)"
proof -
  note m = masks_of_run [where raises = raises and tr = tr, OF files calls ok outcome]
  have 2: "nreg_run \<in> set ys \<longrightarrow> (\<exists>before rest. ys = before @ nreg_run # rest
         \<and> nreg_run \<notin> set before
         \<and> (\<forall>msk. fixed_sitk_mask self = Some msk \<longrightarrow>
              WriteImage (Some msk) (fixed_mask_str self) \<in> set before
              \<and> nreg_inputs (rmask_file (fixed_mask_str self)) \<in> set before)
         \<and> (\<forall>msk. moving_sitk_mask self = Some msk \<longrightarrow>
              WriteImage (Some msk) (moving_mask_str self) \<in> set before
              \<and> nreg_inputs (fmask_file (moving_mask_str self)) \<in> set before))"
    by (rule impI) (rule m(2))
  have 3: "(\<forall>h c. raises h c = None) \<longrightarrow> nreg_run \<in> set ys"
    by (rule impI) (rule m(3))
  from ys m(1) 2 3 show ?thesis
    by (intro exI [of _ ys] conjI) assumption+
qed

lemma RegAladin_run_masks:
  assumes files: "temporary_files D sub self"
    and run: "RegAladin_run w debug (self, tr) = (r, (self', tr'))"
  shows "\<exists>ys. tr' = tr @ ys \<and> list_all (mask_ok self) ys
     \<and> (nreg_run \<in> set ys \<longrightarrow> (\<exists>before rest. ys = before @ nreg_run # rest
         \<and> nreg_run \<notin> set before
         \<and> (\<forall>msk. fixed_sitk_mask self = Some msk \<longrightarrow>
              WriteImage (Some msk) (fixed_mask_str self) \<in> set before
              \<and> nreg_inputs (rmask_file (fixed_mask_str self)) \<in> set before)
         \<and> (\<forall>msk. moving_sitk_mask self = Some msk \<longrightarrow>
              WriteImage (Some msk) (moving_mask_str self) \<in> set before
              \<and> nreg_inputs (fmask_file (moving_mask_str self)) \<in> set before)))
     \<and> ((\<forall>h c. nr_raises w h c = None) \<longrightarrow> nreg_run \<in> set ys)"
  using run
proof (cases rule: RegAladin_run_outcome)
  case (library ys zs e)
  then have "(ys \<noteq> [] \<and> (\<exists>zs. RegAladin_calls debug self = ys @ zs)
                    \<and> (\<exists>e. nr_raises w (tr @ butlast ys) (last ys) = Some e))
                  \<or> (\<exists>zs. ys = RegAladin_calls debug self @ zs \<and> list_all reading zs)"
    by blast
  from nifty_run_masks [where raises = "nr_raises w" and tr = tr, OF files
      RegAladin_calls_def [of debug self] RegAladin_calls_mask_ok [OF files, of debug] library(3) this]
  show ?thesis .
next
  case (invoked zs)
  define ys where "ys = RegAladin_calls debug self @ zs"
  with invoked have ys: "tr' = tr @ ys" by simp
  from invoked(2) have "(ys \<noteq> [] \<and> (\<exists>zs. RegAladin_calls debug self = ys @ zs)
                    \<and> (\<exists>e. nr_raises w (tr @ butlast ys) (last ys) = Some e))
                  \<or> (\<exists>zs. ys = RegAladin_calls debug self @ zs \<and> list_all reading zs)"
    unfolding ys_def by blast
  from nifty_run_masks [where raises = "nr_raises w" and tr = tr, OF files
      RegAladin_calls_def [of debug self] RegAladin_calls_mask_ok [OF files, of debug] ys this]
  show ?thesis .
qed

lemma RegF3D_run_masks:
  assumes files: "temporary_files D sub self"
    and run: "RegF3D_run w debug (self, tr) = (r, (self', tr'))"
  shows "\<exists>ys. tr' = tr @ ys \<and> list_all (mask_ok self) ys
     \<and> (nreg_run \<in> set ys \<longrightarrow> (\<exists>before rest. ys = before @ nreg_run # rest
         \<and> nreg_run \<notin> set before
         \<and> (\<forall>msk. fixed_sitk_mask self = Some msk \<longrightarrow>
              WriteImage (Some msk) (fixed_mask_str self) \<in> set before
              \<and> nreg_inputs (rmask_file (fixed_mask_str self)) \<in> set before)
         \<and> (\<forall>msk. moving_sitk_mask self = Some msk \<longrightarrow>
              WriteImage (Some msk) (moving_mask_str self) \<in> set before
              \<and> nreg_inputs (fmask_file (moving_mask_str self)) \<in> set before)))
     \<and> ((\<forall>h c. nr_raises w h c = None) \<longrightarrow> nreg_run \<in> set ys)"
  using run
proof (cases rule: RegF3D_run_outcome)
  case (library ys zs e)
  then have "(ys \<noteq> [] \<and> (\<exists>zs. RegF3D_calls debug self = ys @ zs)
                    \<and> (\<exists>e. nr_raises w (tr @ butlast ys) (last ys) = Some e))
                  \<or> (\<exists>zs. ys = RegF3D_calls debug self @ zs \<and> list_all reading zs)"
    by blast
  from nifty_run_masks [where raises = "nr_raises w" and tr = tr, OF files
      RegF3D_calls_def [of debug self] RegF3D_calls_mask_ok [OF files, of debug] library(3) this]
  show ?thesis .
next
  case (invoked zs)
  define ys where "ys = RegF3D_calls debug self @ zs"
  with invoked have ys: "tr' = tr @ ys" by simp
  from invoked(2) have "(ys \<noteq> [] \<and> (\<exists>zs. RegF3D_calls debug self = ys @ zs)
                    \<and> (\<exists>e. nr_raises w (tr @ butlast ys) (last ys) = Some e))
                  \<or> (\<exists>zs. ys = RegF3D_calls debug self @ zs \<and> list_all reading zs)"
    unfolding ys_def by blast
  from nifty_run_masks [where raises = "nr_raises w" and tr = tr, OF files
      RegF3D_calls_def [of debug self] RegF3D_calls_mask_ok [OF files, of debug] ys this]
  show ?thesis .
qed

subsection \<open>What a successful run stores\<close>

lemma RegAladin_results:
  assumes files: "aladin_files D sub self"
    and run: "RegAladin_run w debug (self, tr) = (Inr (), (self', tr'))"
  shows "\<exists>before img T fixed M. tr' = tr @ before @
        [nreg_run,
         ReadImage (os_path_join (os_path_join D sub) ''warped_moving.nii.gz''),
         loadtxt (os_path_join (os_path_join D sub) ''registration_transform.txt''),
         sitk_AffineTransform (matrix_of T) (translation_of T)]
     \<and> nreg_inputs (res_file (os_path_join (os_path_join D sub) ''warped_moving.nii.gz''))
          \<in> set before
     \<and> nreg_inputs (aff_file (os_path_join (os_path_join D sub) ''registration_transform.txt''))
          \<in> set before
     \<and> img = nr_image w (tr @ before @ [nreg_run])
          (ReadImage (os_path_join (os_path_join D sub) ''warped_moving.nii.gz''))
     \<and> aladin_warped_moving_sitk self' = Bound img
     \<and> aladin_registration_transform_sitk self' = Bound T
     \<and> RegAladin_get_warped_moving_sitk (self', tr') = (Inr img, (self', tr'))
     \<and> fixed_sitk self = Some fixed
     \<and> nr_matrix w (tr @ before @
            [nreg_run, ReadImage (os_path_join (os_path_join D sub) ''warped_moving.nii.gz'')])
          (loadtxt (os_path_join (os_path_join D sub) ''registration_transform.txt'')) = Array2 M
     \<and> 2 \<le> GetDimension fixed
     \<and> T = AffineTransform
          (concat (mat_mult (mat_mult (reflection (GetDimension fixed))
             (map (take (GetDimension fixed)) (take (GetDimension fixed) M)))
             (reflection (GetDimension fixed))))
          (mat_vec (reflection (GetDimension fixed)) (map last (take (GetDimension fixed) M)))"
proof -
  from files have W: "os_path_join (os_path_join D sub) ''warped_moving.nii.gz''
      = warped_moving_str self"
    and P: "os_path_join (os_path_join D sub) ''registration_transform.txt''
      = registration_transform_str self"
    by (simp_all add: aladin_files_def temporary_files_def)
  from RegAladin_run_success [OF run] obtain before T fixed M where
    1: "tr' = tr @ before @
        [nreg_run, ReadImage (warped_moving_str self),
         loadtxt (registration_transform_str self),
         sitk_AffineTransform (matrix_of T) (translation_of T)]"
    and 2: "nreg_inputs (res_file (warped_moving_str self)) \<in> set before"
    and 3: "nreg_inputs (aff_file (registration_transform_str self)) \<in> set before"
    and 4: "aladin_warped_moving_sitk self' =
          Bound (nr_image w (tr @ before @ [nreg_run]) (ReadImage (warped_moving_str self)))"
    and 5: "aladin_registration_transform_sitk self' = Bound T"
    and 8: "fixed_sitk self = Some fixed"
    and 9: "nr_matrix w (tr @ before @ [nreg_run, ReadImage (warped_moving_str self)])
          (loadtxt (registration_transform_str self)) = Array2 M"
    and 10: "2 \<le> GetDimension fixed"
    and 11: "T = AffineTransform
          (concat (mat_mult (mat_mult (reflection (GetDimension fixed))
             (map (take (GetDimension fixed)) (take (GetDimension fixed) M)))
             (reflection (GetDimension fixed))))
          (mat_vec (reflection (GetDimension fixed)) (map last (take (GetDimension fixed) M)))"
    by (elim exE conjE)
  define img where
    "img = nr_image w (tr @ before @ [nreg_run]) (ReadImage (warped_moving_str self))"
  from 4 have 6: "aladin_warped_moving_sitk self' = Bound img"
    by (simp add: img_def)
  then have 7: "RegAladin_get_warped_moving_sitk (self', tr') = (Inr img, (self', tr'))"
    by (simp add: RegAladin_get_warped_moving_sitk_def exec)
  from 1 2 3 img_def 6 5 7 8 9 10 11 show ?thesis
    unfolding W P
    by - (rule exI [of _ before], rule exI [of _ img], rule exI [of _ T], rule exI [of _ fixed],
        rule exI [of _ M], (rule conjI, assumption)+, assumption)
qed

lemma RegF3D_results:
  assumes files: "f3d_files D sub self"
    and run: "RegF3D_run w debug (self, tr) = (Inr (), (self', tr'))"
  shows "\<exists>before img grid. tr' = tr @ before @
        [nreg_run,
         ReadImage (os_path_join (os_path_join D sub) ''warped_moving.nii.gz''),
         ReadImage (os_path_join (os_path_join D sub) ''registration_cpp.nii.gz'')]
     \<and> nreg_inputs (res_file (os_path_join (os_path_join D sub) ''warped_moving.nii.gz''))
          \<in> set before
     \<and> nreg_inputs (cpp_file (os_path_join (os_path_join D sub) ''registration_cpp.nii.gz''))
          \<in> set before
     \<and> img = nr_image w (tr @ before @ [nreg_run])
          (ReadImage (os_path_join (os_path_join D sub) ''warped_moving.nii.gz''))
     \<and> grid = nr_image w (tr @ before @
            [nreg_run, ReadImage (os_path_join (os_path_join D sub) ''warped_moving.nii.gz'')])
          (ReadImage (os_path_join (os_path_join D sub) ''registration_cpp.nii.gz''))
     \<and> f3d_warped_moving_sitk self' = Bound img
     \<and> f3d_registration_transform_sitk self' = Bound grid
     \<and> RegF3D_get_warped_moving_sitk (self', tr') = (Inr img, (self', tr'))"
proof -
  from files have W: "os_path_join (os_path_join D sub) ''warped_moving.nii.gz''
      = warped_moving_str self"
    and P: "os_path_join (os_path_join D sub) ''registration_cpp.nii.gz''
      = registration_control_point_grid_str self"
    by (simp_all add: f3d_files_def temporary_files_def)
  from RegF3D_run_success [OF run] obtain before where
    1: "tr' = tr @ before @
        [nreg_run, ReadImage (warped_moving_str self),
         ReadImage (registration_control_point_grid_str self)]"
    and 2: "nreg_inputs (res_file (warped_moving_str self)) \<in> set before"
    and 3: "nreg_inputs (cpp_file (registration_control_point_grid_str self)) \<in> set before"
    and 4: "f3d_warped_moving_sitk self' =
          Bound (nr_image w (tr @ before @ [nreg_run]) (ReadImage (warped_moving_str self)))"
    and 5: "f3d_registration_transform_sitk self' =
          Bound (nr_image w (tr @ before @ [nreg_run, ReadImage (warped_moving_str self)])
                   (ReadImage (registration_control_point_grid_str self)))"
    by (elim exE conjE)
  define img where
    "img = nr_image w (tr @ before @ [nreg_run]) (ReadImage (warped_moving_str self))"
  define grid where
    "grid = nr_image w (tr @ before @ [nreg_run, ReadImage (warped_moving_str self)])
                   (ReadImage (registration_control_point_grid_str self))"
  from 4 have 6: "f3d_warped_moving_sitk self' = Bound img"
    by (simp add: img_def)
  from 5 have 8: "f3d_registration_transform_sitk self' = Bound grid"
    by (simp add: grid_def)
  from 6 have 7: "RegF3D_get_warped_moving_sitk (self', tr') = (Inr img, (self', tr'))"
    by (simp add: RegF3D_get_warped_moving_sitk_def exec)
  from 1 2 3 img_def grid_def 6 8 7 show ?thesis
    unfolding W P
    by (intro exI [of _ before] exI [of _ img] exI [of _ grid] conjI) assumption+
qed

lemma convert_result:
  fixes M :: matrix and d :: nat
  assumes "fixed_sitk self = Some img" and "GetDimension img = d" and "2 \<le> d"
    and "nr_raises w tr (loadtxt (registration_transform_str self)) = None"
    and "nr_matrix w tr (loadtxt (registration_transform_str self)) = Array2 M"
    and "d \<le> length M" and "\<forall>row\<in>set M. length row = c" and "d \<le> c"
  defines "A \<equiv> map (take d) (take d M)" and "t \<equiv> map last (take d M)"
  defines "T \<equiv> AffineTransform (concat (mat_mult (mat_mult (reflection d) A) (reflection d)))
                 (mat_vec (reflection d) t)"
  shows "convert_to_sitk_transform w (self, tr) =
      ((case nr_raises w (tr @ [loadtxt (registration_transform_str self)])
               (sitk_AffineTransform (matrix_of T) (translation_of T)) of
          None \<Rightarrow> Inr T
        | Some e \<Rightarrow> Inl e),
       (self, tr @ [loadtxt (registration_transform_str self),
                    sitk_AffineTransform (matrix_of T) (translation_of T)]))
    \<and> (list_all (list_all is_finite) A \<and> list_all is_finite t \<longrightarrow>
        matrix_of T =
          concat (map (\<lambda>i. map (\<lambda>j. if (i < 2) \<noteq> (j < 2) then - M ! i ! j else M ! i ! j) [0..<d])
                    [0..<d])
        \<and> translation_of T = map (\<lambda>i. if i < 2 then - last (M ! i) else last (M ! i)) [0..<d])"
proof -
  note cv = converted_shape [OF \<open>2 \<le> d\<close> \<open>d \<le> length M\<close> \<open>\<forall>row\<in>set M. length row = c\<close> \<open>d \<le> c\<close>,
      folded A_def t_def]
  have 1: "convert_to_sitk_transform w (self, tr) =
      ((case nr_raises w (tr @ [loadtxt (registration_transform_str self)])
               (sitk_AffineTransform (matrix_of T) (translation_of T)) of
          None \<Rightarrow> Inr T
        | Some e \<Rightarrow> Inl e),
       (self, tr @ [loadtxt (registration_transform_str self),
                    sitk_AffineTransform (matrix_of T) (translation_of T)]))"
    using assms(1,2,4,5) by (simp add: convert_unfold cv T_def split: option.splits)
  have 2: "matrix_of T =
          concat (map (\<lambda>i. map (\<lambda>j. if (i < 2) \<noteq> (j < 2) then - M ! i ! j else M ! i ! j) [0..<d])
                    [0..<d])
        \<and> translation_of T = map (\<lambda>i. if i < 2 then - last (M ! i) else last (M ! i)) [0..<d]"
    if "list_all (list_all is_finite) A \<and> list_all is_finite t"
  proof -
    from that have finA: "list_all (list_all is_finite) (map (take d) (take d M))"
      and fint: "list_all is_finite (map last (take d M))"
      by (simp_all add: A_def t_def)
    note sp = float_sign_pattern [OF \<open>2 \<le> d\<close> \<open>d \<le> length M\<close> \<open>\<forall>row\<in>set M. length row = c\<close>
        \<open>d \<le> c\<close> finA fint, folded A_def t_def]
    show ?thesis
      by (simp only: T_def sitk_transform.sel sp simp_thms)
  qed
  show ?thesis by (rule conjI [OF 1]) (rule impI, erule 2)
qed

lemma example_shape:
  "(3::nat) \<le> length [[1, 2, 3, 4], [5, 6, 7, 8], [9, 10, 11, 12], [0, 0, 0, 1 :: float64]]"
  "\<forall>row\<in>set [[1, 2, 3, 4], [5, 6, 7, 8], [9, 10, 11, 12], [0, 0, 0, 1 :: float64]].
     length row = 4"
  by simp_all

lemma example_convert:
  "fst (convert_to_sitk_transform quiet_nr
          (example_aladin\<lparr>aladin_warped_moving_sitk := Bound img\<rparr>, h)) =
     Inr (AffineTransform [1, 2, - 3, 5, 6, - 7, - 9, - 10, 11] [- 4, - 8, 12])"
proof -
  have up: "[0..<3] = [0, 1, 2]" by (simp add: upt_rec)
  have "fst (convert_to_sitk_transform quiet_nr
          (example_aladin\<lparr>aladin_warped_moving_sitk := Bound img\<rparr>, h)) =
      Inr (AffineTransform
         (concat (map (\<lambda>i. map (\<lambda>j.
            if (i < 2) \<noteq> (j < 2)
            then - [[1, 2, 3, 4], [5, 6, 7, 8], [9, 10, 11, 12], [0, 0, 0, 1]] ! i ! j
            else [[1, 2, 3, 4], [5, 6, 7, 8], [9, 10, 11, 12], [0, 0, 0, 1]] ! i ! j) [0..<3])
              [0..<3]))
         (map (\<lambda>i. if i < 2
            then - last ([[1, 2, 3, 4], [5, 6, 7, 8], [9, 10, 11, 12], [0, 0, 0, 1]] ! i)
            else last ([[1, 2, 3, 4], [5, 6, 7, 8], [9, 10, 11, 12], [0, 0, 0, 1]] ! i))
            [0..<3]))"
    using convert_result [of "example_aladin\<lparr>aladin_warped_moving_sitk := Bound img\<rparr>"
        "SitkImage 3 8 1" 3 quiet_nr h
        "[[1, 2, 3, 4], [5, 6, 7, 8], [9, 10, 11, 12], [0, 0, 0, 1]]" 4] example_shape
    by (simp add: example_aladin_fields quiet_nr_def example_matrix_def float64_numeral
        float64_arith)
  then show ?thesis
    by (simp add: up)
qed

lemma example_transform:
  "AffineTransform
     (concat (mat_mult (mat_mult (reflection 3)
        (map (take 3) (take 3 [[1, 2, 3, 4], [5, 6, 7, 8], [9, 10, 11, 12], [0, 0, 0, 1]])))
        (reflection 3)))
     (mat_vec (reflection 3)
        (map last (take 3 [[1, 2, 3, 4], [5, 6, 7, 8], [9, 10, 11, 12], [0, 0, 0, 1 :: float64]])))
   = AffineTransform [1, 2, - 3, 5, 6, - 7, - 9, - 10, 11] [- 4, - 8, 12]"
proof -
  have up: "[0..<3] = [0, 1, 2]" by (simp add: upt_rec)
  have fin: "list_all (list_all is_finite)
      (map (take 3) (take 3 [[1, 2, 3, 4], [5, 6, 7, 8], [9, 10, 11, 12], [0, 0, 0, 1 :: float64]]))"
    "list_all is_finite
      (map last (take 3 [[1, 2, 3, 4], [5, 6, 7, 8], [9, 10, 11, 12], [0, 0, 0, 1 :: float64]]))"
    by (simp_all add: float64_numeral float64_arith)
  have d: "(2::nat) \<le> 3" "(3::nat) \<le> 4" by simp_all
  note sp = float_sign_pattern [OF d(1) example_shape d(2) fin]
  show ?thesis
    by (simp only: sp) (simp add: up)
qed
section \<open>The options string\<close>

text \<open>
  C10. The options string set by the constructor or by the last \<^verbatim>\<open>set_options\<close> is the
  one \<^verbatim>\<open>get_options\<close> returns: right after construction with \<open>opts\<close>, after
  \<^verbatim>\<open>set_options(opts)\<close> on any object, and after a second \<^verbatim>\<open>set_options\<close> the later
  string wins. Nothing else changes it: \<^verbatim>\<open>set_options\<close> with the string already stored
  changes nothing at all, the constructors of the subclasses pass the string through, and
  \<^verbatim>\<open>_run\<close> of \<^verbatim>\<open>RegAladin\<close> and of \<^verbatim>\<open>RegF3D\<close>, which read the string, leave it as it
  was whatever the libraries do and whether or not the run fails.
\<close>

theorem options_round_trip:
  "get_options (WrapperRegistration_init f m fm mm opts) = opts
   \<and> get_options (set_options opts self) = opts
   \<and> get_options (set_options opts2 (set_options opts1 self)) = opts2
   \<and> set_options (get_options self) self = self
   \<and> get_options (RegAladin_init D f m fm mm opts sub cores) = opts
   \<and> get_options (RegF3D_init D f m fm mm opts sub cores) = opts
   \<and> get_options (fst (snd (RegAladin_run w debug (aladin, tr)))) = get_options aladin
   \<and> get_options (fst (snd (RegF3D_run w debug (f3d, tr)))) = get_options f3d"
proof -
  have "options (fst (snd (RegAladin_run w debug (aladin, tr)))) = options aladin"
    using RegAladin_run_preserves_options [of w debug] unfolding preserves_def by simp
  moreover have "options (fst (snd (RegF3D_run w debug (f3d, tr)))) = options f3d"
    using RegF3D_run_preserves_options [of w debug] unfolding preserves_def by simp
  ultimately show ?thesis
    by (simp add: get_options_def set_options_def WrapperRegistration_init_def
        SimpleItkRegistrationBase.extend_def WrapperRegistration.fields_def
        SimpleItkRegistrationBase_init_def RegAladin_init_def RegF3D_init_def NiftyReg_init_def
        WrapperRegistration.extend_def NiftyReg.extend_def NiftyReg.fields_def
        RegAladin.fields_def RegF3D.fields_def Let_def)
qed

section \<open>The transformed fixed image\<close>

text \<open>
  C9. In \<^verbatim>\<open>RegF3D\<close>, \<^verbatim>\<open>_get_transformed_fixed_sitk\<close> and
  \<^verbatim>\<open>_get_transformed_fixed_sitk_mask\<close> raise
  \<^verbatim>\<open>UnboundLocalError("Not implemented for RegF3D")\<close> in every state and leave the state
  as it is. In \<^verbatim>\<open>RegAladin\<close> the same two methods hand the fixed image (the fixed mask)
  and the registration transform to \<^verbatim>\<open>sitkh.get_transformed_sitk_image\<close> and return
  its result: when the inherited getter yields the transform \<open>T\<close> and the helper does
  not raise, the result is the helper's image.
\<close>

theorem transformed_fixed_only_RegAladin:
  "RegF3D_get_transformed_fixed_sitk s = (Inl (UnboundLocalError ''Not implemented for RegF3D''), s)
   \<and> RegF3D_get_transformed_fixed_sitk_mask s = (Inl (UnboundLocalError ''Not implemented for RegF3D''), s)
   \<and> (getter (self, tr) = (Inr T, (self, tr))
        \<and> nr_raises w tr (get_transformed_sitk_image (fixed_sitk self) T) = None
      \<longrightarrow> RegAladin_get_transformed_fixed_sitk w getter (self, tr) =
            (Inr (nr_image w tr (get_transformed_sitk_image (fixed_sitk self) T)),
             (self, tr @ [get_transformed_sitk_image (fixed_sitk self) T])))
   \<and> (getter (self, tr) = (Inr T, (self, tr))
        \<and> nr_raises w tr (get_transformed_sitk_image (fixed_sitk_mask self) T) = None
      \<longrightarrow> RegAladin_get_transformed_fixed_sitk_mask w getter (self, tr) =
            (Inr (nr_image w tr (get_transformed_sitk_image (fixed_sitk_mask self) T)),
             (self, tr @ [get_transformed_sitk_image (fixed_sitk_mask self) T])))"
  by (simp add: RegF3D_get_transformed_fixed_sitk_def RegF3D_get_transformed_fixed_sitk_mask_def
      RegAladin_get_transformed_fixed_sitk_def RegAladin_get_transformed_fixed_sitk_mask_def exec)


text \<open>
  The theorem at the two example wrappers, with a getter that returns the identity
  transform, on a file system where nothing raises and every image is \<open>SitkImage 3 8 7\<close>.
\<close>

theorem transformed_fixed_only_RegAladin_witness:
  "RegF3D_get_transformed_fixed_sitk (example_f3d, [])
     = (Inl (UnboundLocalError ''Not implemented for RegF3D''), (example_f3d, []))
   \<and> RegF3D_get_transformed_fixed_sitk_mask (example_f3d, [])
     = (Inl (UnboundLocalError ''Not implemented for RegF3D''), (example_f3d, []))
   \<and> RegAladin_get_transformed_fixed_sitk quiet_nr
       (ret (AffineTransform [1, 0, 0, 0, 1, 0, 0, 0, 1] [0, 0, 0])) (example_aladin, [])
     = (Inr (SitkImage 3 8 7),
        (example_aladin,
         [get_transformed_sitk_image (Some (SitkImage 3 8 1))
            (AffineTransform [1, 0, 0, 0, 1, 0, 0, 0, 1] [0, 0, 0])]))
   \<and> RegAladin_get_transformed_fixed_sitk_mask quiet_nr
       (ret (AffineTransform [1, 0, 0, 0, 1, 0, 0, 0, 1] [0, 0, 0])) (example_aladin, [])
     = (Inr (SitkImage 3 8 7),
        (example_aladin,
         [get_transformed_sitk_image (Some (SitkImage 3 1 3))
            (AffineTransform [1, 0, 0, 0, 1, 0, 0, 0, 1] [0, 0, 0])]))"
  using transformed_fixed_only_RegAladin [where s = "(example_f3d, [])"
      and getter = "ret (AffineTransform [1, 0, 0, 0, 1, 0, 0, 0, 1] [0, 0, 0])"
      and self = example_aladin and tr = "[]" and w = quiet_nr
      and T = "AffineTransform [1, 0, 0, 0, 1, 0, 0, 0, 1] [0, 0, 0]"]
  by (simp add: exec quiet_nr_def example_images)
section \<open>The multi-resolution flag\<close>

text \<open>
  C2 (the claim fails; this is what holds instead). \<^verbatim>\<open>_run_v3\<close> ends its set-up with
  \<^verbatim>\<open>if self._use_multiresolution_framework: raise ValueError(...)\<close>, so a run with the flag
  set never completes. For every object with \<^verbatim>\<open>use_multiresolution_framework=True\<close>,
  every library and every outcome of \<^verbatim>\<open>run\<close>: the outcome is an exception, the object
  is unchanged (so \<^verbatim>\<open>_registration_transform_itk\<close> stays as it was),
  \<^verbatim>\<open>registration.Update()\<close> is not among the calls made, and no call made carries the
  shrink factors or the smoothing sigmas. When the parameters are valid otherwise (the
  four type checks of \<^verbatim>\<open>run\<close> pass and the same object with the flag off passes every
  check of \<^verbatim>\<open>_run_v3\<close>) and no library call raises, the exception is the
  \<^verbatim>\<open>ValueError\<close> "Multiresolution-Framework cannot be used with ImageRegistrationMethod.
  ImageRegistrationMethodv4 required."
\<close>

theorem multiresolution_rejected:
  assumes "use_multiresolution_framework self"
    and "run w (self, tr) = (r, (self', tr'))"
  shows "(\<exists>e. r = Inl e) \<and> self' = self
    \<and> (\<exists>ys. tr' = tr @ ys \<and> registration_Update \<notin> set ys \<and> \<not> list_ex carries_schedule ys)
    \<and> (type_error self = None
        \<and> guard_error (self\<lparr>use_multiresolution_framework := False\<rparr>) = None
        \<and> (\<forall>h c. itk_raises w h c = None)
       \<longrightarrow> r = Inl (ValueError
             (''Multiresolution-Framework cannot be used with ''
              @ ''ImageRegistrationMethod. ImageRegistrationMethodv4 required.'')))"
  using assms(2)
proof (cases rule: run_outcome)
  case (rejected e)
  then show ?thesis by simp
next
  case (timing e)
  then show ?thesis by (auto simp: carries_schedule_def)
next
  case (library ys zs e)
  from setup_prefix_ok [OF library(3)] start_timing_ok [of self]
  have "list_all (setup_ok self) (Call ''ph.start_timing'' [] # ys)"
    by simp
  from setup_ok_facts(1,2) [OF this] library show ?thesis
    by (intro conjI exI [of _ "Call ''ph.start_timing'' [] # ys"]) auto
next
  case (guard e)
  from setup_calls_ok [of self] start_timing_ok [of self]
  have "list_all (setup_ok self) (Call ''ph.start_timing'' [] # setup_calls self)"
    by simp
  from setup_ok_facts(1,2) [OF this] guard
    guard_error_multiresolution_only [OF assms(1)]
  show ?thesis
    by (intro conjI exI [of _ "Call ''ph.start_timing'' [] # setup_calls self"]) auto
next
  case (executed zs)
  with guard_error_multiresolution [OF assms(1)] show ?thesis by simp
qed

text \<open>
  The theorem at \<open>multires_itk\<close>, the constructor's default object with the flag set, in the
  library that never raises.
\<close>

theorem multiresolution_rejected_witness:
  "use_multiresolution_framework multires_itk
   \<and> (\<exists>e. fst (run quiet_itk (multires_itk, [])) = Inl e)
   \<and> fst (snd (run quiet_itk (multires_itk, []))) = multires_itk
   \<and> registration_Update \<notin> set (snd (snd (run quiet_itk (multires_itk, []))))"
  using multiresolution_rejected [of multires_itk quiet_itk "[]"
      "fst (run quiet_itk (multires_itk, []))" "fst (snd (run quiet_itk (multires_itk, [])))"
      "snd (snd (run quiet_itk (multires_itk, [])))"]
  by (simp add: multires_itk_def)

text \<open>
  The claim as stated fails there: the parameters are valid, the flag is set, and \<^verbatim>\<open>run\<close>
  raises.
\<close>

theorem multiresolution_counterexample:
  "use_multiresolution_framework multires_itk
   \<and> fst (run quiet_itk (multires_itk, [])) =
       Inl (ValueError ''Multiresolution-Framework cannot be used with ImageRegistrationMethod. ImageRegistrationMethodv4 required.'')"
proof -
  have "type_error multires_itk = None"
    by (simp add: type_error_def multires_itk_def example_itk_def)
  moreover have "guard_error multires_itk = Some (ValueError
      ''Multiresolution-Framework cannot be used with ImageRegistrationMethod. ImageRegistrationMethodv4 required.'')"
    by (simp add: guard_error_def known_registration_type_def metric_value_def multires_itk_def
        example_itk_def)
  moreover have "\<forall>h c. itk_raises quiet_itk h c = None"
    by (simp add: quiet_itk_def)
  ultimately show ?thesis
    by (simp add: run_guard_quiet) (simp add: multires_itk_def)
qed

section \<open>The registration type\<close>

text \<open>
  C3 (the claim fails as stated for \<^verbatim>\<open>run\<close>, whose type checks come first; this is
  what holds). For a registration type that is none of \<^verbatim>\<open>'Rigid'\<close>, \<^verbatim>\<open>'Similarity'\<close>,
  \<^verbatim>\<open>'Affine'\<close>: \<^verbatim>\<open>_run_v3\<close> raises \<^verbatim>\<open>ValueError("Registration type '...' not known.")\<close>
  at once, with no call into the library and the object unchanged; \<^verbatim>\<open>run\<close> ends in an
  exception with the object unchanged and with no call made but, at most,
  \<^verbatim>\<open>ph.start_timing()\<close>, so no registration is executed; and when the four type checks
  of \<^verbatim>\<open>run\<close> pass and \<^verbatim>\<open>ph.start_timing()\<close> does not raise, the exception of \<^verbatim>\<open>run\<close>
  is that \<^verbatim>\<open>ValueError\<close>. For each of the three strings the first call of \<^verbatim>\<open>_run_v3\<close>
  looks up the matching class (\<^verbatim>\<open>Euler<d>DTransform\<close>, \<^verbatim>\<open>Similarity<d>DTransform\<close> or
  \<^verbatim>\<open>AffineTransform\<close>, for the configured dimension and pixel type), and if the
  registration is executed the initial transform was created from that class before.
\<close>

theorem registration_type_dispatch:
  "(registration_type self \<notin> {''Rigid'', ''Similarity'', ''Affine''} \<longrightarrow>
      run_v3 w (self, tr) =
        (Inl (ValueError
           (''Registration type '' @ quoted (registration_type self) @ '' not known.'')),
         (self, tr)))
   \<and> (registration_type self \<notin> {''Rigid'', ''Similarity'', ''Affine''}
        \<and> run w (self, tr) = (r, (self', tr')) \<longrightarrow>
        (\<exists>e. r = Inl e) \<and> self' = self
        \<and> (tr' = tr \<or> tr' = tr @ [Call ''ph.start_timing'' []])
        \<and> (type_error self = None \<and> itk_raises w tr (Call ''ph.start_timing'' []) = None \<longrightarrow>
             r = Inl (ValueError
               (''Registration type '' @ quoted (registration_type self) @ '' not known.''))))
   \<and> (run_v3 w (self, tr) = (r3, (self3, tr3)) \<longrightarrow>
        (registration_type self = ''Rigid'' \<longrightarrow>
           (\<exists>zs. tr3 = tr @ Instantiate (Euler_Transform (dimension self) (pixel_type self)) # zs
              \<and> (registration_Update \<in> set zs \<longrightarrow>
                   New (Euler_Transform (dimension self) (pixel_type self)) \<in> set zs)))
      \<and> (registration_type self = ''Similarity'' \<longrightarrow>
           (\<exists>zs. tr3 = tr @ Instantiate (Similarity_Transform (dimension self) (pixel_type self)) # zs
              \<and> (registration_Update \<in> set zs \<longrightarrow>
                   New (Similarity_Transform (dimension self) (pixel_type self)) \<in> set zs)))
      \<and> (registration_type self = ''Affine'' \<longrightarrow>
           (\<exists>zs. tr3 = tr @ Instantiate (Affine_Transform (pixel_type self) (dimension self)) # zs
              \<and> (registration_Update \<in> set zs \<longrightarrow>
                   New (Affine_Transform (pixel_type self) (dimension self)) \<in> set zs))))"
proof (intro conjI impI)
  assume "registration_type self \<notin> {''Rigid'', ''Similarity'', ''Affine''}"
  then have "\<not> known_registration_type self"
    by (simp add: known_registration_type_def)
  then show "run_v3 w (self, tr) =
      (Inl (ValueError (''Registration type '' @ quoted (registration_type self) @ '' not known.'')),
       (self, tr))"
    by (rule run_v3_unknown_type)
next
  assume a: "registration_type self \<notin> {''Rigid'', ''Similarity'', ''Affine''}
    \<and> run w (self, tr) = (r, (self', tr'))"
  then have unknown: "\<not> known_registration_type self"
    by (simp add: known_registration_type_def)
  then have calls: "setup_calls self = []"
    and err: "guard_error self = Some (ValueError
        (''Registration type '' @ quoted (registration_type self) @ '' not known.''))"
    by (simp_all add: setup_calls_def guard_error_def)
  from a have "run w (self, tr) = (r, (self', tr'))" by simp
  then have "(\<exists>e. r = Inl e) \<and> self' = self
      \<and> (tr' = tr \<or> tr' = tr @ [Call ''ph.start_timing'' []])
      \<and> (type_error self = None \<and> itk_raises w tr (Call ''ph.start_timing'' []) = None \<longrightarrow>
           r = Inl (ValueError
             (''Registration type '' @ quoted (registration_type self) @ '' not known.'')))"
  proof (cases rule: run_outcome)
    case (library ys zs e)
    with calls show ?thesis by simp
  next
    case (executed zs)
    with err show ?thesis by simp
  qed (use calls err in auto)
  then show "\<exists>e. r = Inl e" "self' = self" "tr' = tr \<or> tr' = tr @ [Call ''ph.start_timing'' []]"
    "type_error self = None \<and> itk_raises w tr (Call ''ph.start_timing'' []) = None \<Longrightarrow>
       r = Inl (ValueError
         (''Registration type '' @ quoted (registration_type self) @ '' not known.''))"
    by blast+
next
  assume run: "run_v3 w (self, tr) = (r3, (self3, tr3))" and rt: "registration_type self = ''Rigid''"
  then have "known_registration_type self"
    and "transform_type_value self = Euler_Transform (dimension self) (pixel_type self)"
    by (simp_all add: known_registration_type_def transform_type_value_def)
  with run_v3_selects [OF _ run]
  show "\<exists>zs. tr3 = tr @ Instantiate (Euler_Transform (dimension self) (pixel_type self)) # zs
      \<and> (registration_Update \<in> set zs \<longrightarrow>
           New (Euler_Transform (dimension self) (pixel_type self)) \<in> set zs)"
    by simp
next
  assume run: "run_v3 w (self, tr) = (r3, (self3, tr3))"
    and rt: "registration_type self = ''Similarity''"
  then have "known_registration_type self"
    and "transform_type_value self = Similarity_Transform (dimension self) (pixel_type self)"
    by (simp_all add: known_registration_type_def transform_type_value_def)
  with run_v3_selects [OF _ run]
  show "\<exists>zs. tr3 = tr @ Instantiate (Similarity_Transform (dimension self) (pixel_type self)) # zs
      \<and> (registration_Update \<in> set zs \<longrightarrow>
           New (Similarity_Transform (dimension self) (pixel_type self)) \<in> set zs)"
    by simp
next
  assume run: "run_v3 w (self, tr) = (r3, (self3, tr3))"
    and rt: "registration_type self = ''Affine''"
  then have "known_registration_type self"
    and "transform_type_value self = Affine_Transform (pixel_type self) (dimension self)"
    by (simp_all add: known_registration_type_def transform_type_value_def)
  with run_v3_selects [OF _ run]
  show "\<exists>zs. tr3 = tr @ Instantiate (Affine_Transform (pixel_type self) (dimension self)) # zs
      \<and> (registration_Update \<in> set zs \<longrightarrow>
           New (Affine_Transform (pixel_type self) (dimension self)) \<in> set zs)"
    by simp
qed

text \<open>
  The theorem at \<open>foreign_itk\<close> (registration type \<^verbatim>\<open>'Elastic'\<close>) and at \<open>example_itk\<close>
  (registration type \<^verbatim>\<open>'Rigid'\<close>, dimension 3).
\<close>

theorem registration_type_dispatch_witness:
  "run_v3 quiet_itk (foreign_itk, []) =
     (Inl (ValueError ''Registration type 'Elastic' not known.''), (foreign_itk, []))
   \<and> (\<exists>zs. snd (snd (run_v3 quiet_itk (example_itk, []))) =
          [] @ Instantiate (Euler_Transform 3 itk_D) # zs)"
proof -
  have 1: "registration_type foreign_itk \<notin> {''Rigid'', ''Similarity'', ''Affine''}"
    by (simp add: foreign_itk_def example_itk_def)
  have 2: "registration_type example_itk = ''Rigid''" "dimension example_itk = 3"
    "pixel_type example_itk = itk_D"
    by (simp_all add: example_itk_def)
  from registration_type_dispatch [of foreign_itk quiet_itk "[]"] 1
  have "run_v3 quiet_itk (foreign_itk, []) =
     (Inl (ValueError (''Registration type '' @ quoted (registration_type foreign_itk)
        @ '' not known.'')), (foreign_itk, []))"
    by blast
  moreover have "registration_type foreign_itk = ''Elastic''"
    by (simp add: foreign_itk_def example_itk_def)
  moreover from registration_type_dispatch [of example_itk quiet_itk "[]" _ _ _
      "fst (run_v3 quiet_itk (example_itk, []))" "fst (snd (run_v3 quiet_itk (example_itk, [])))"
      "snd (snd (run_v3 quiet_itk (example_itk, [])))"] 2
  have "\<exists>zs. snd (snd (run_v3 quiet_itk (example_itk, []))) =
          [] @ Instantiate (Euler_Transform 3 itk_D) # zs"
    by auto
  ultimately show ?thesis by (simp add: quoted_def)
qed

text \<open>
  The claim as stated fails at \<open>foreign_itk\<close>, whose fixed image is not an ITK image: the
  \<^verbatim>\<open>ValueError\<close> that \<^verbatim>\<open>run\<close> raises names the fixed image, not the registration type.
\<close>

theorem registration_type_counterexample:
  "registration_type foreign_itk = ''Elastic''
   \<and> run quiet_itk (foreign_itk, []) =
       (Inl (ValueError ''Fixed image must be of type itk.Image''), (foreign_itk, []))"
  by (simp add: run_unfold type_error_def foreign_itk_def example_itk_def)

section \<open>The optimizer\<close>

text \<open>
  C7 (the claim fails as stated, since the interpolator is looked up before the optimizer
  is checked; this is what holds). For every outcome of \<^verbatim>\<open>run\<close>: if the optimizer string
  is not \<^verbatim>\<open>'RegularStepGradientDescent'\<close> or \<^verbatim>\<open>optimizer_scales\<close> is not \<^verbatim>\<open>None\<close>, the
  outcome is an exception, the object is unchanged and \<^verbatim>\<open>registration.Update()\<close> is not
  among the calls made; the exception is a \<^verbatim>\<open>ValueError\<close> unless it is one that a
  library call raised. If \<^verbatim>\<open>registration.Update()\<close> is among the calls made, then the
  optimizer string is \<^verbatim>\<open>'RegularStepGradientDescent'\<close>, \<^verbatim>\<open>optimizer_scales\<close> is
  \<^verbatim>\<open>None\<close>, and before it the optimizer was created from
  \<^verbatim>\<open>itk.RegularStepGradientDescentOptimizer\<close>, given gradient magnitude tolerance
  \<open>1e-6\<close>, minimum step length \<open>1e-6\<close>, 200 iterations and relaxation factor \<open>0.5\<close>, and
  handed to the registration.
\<close>

theorem optimizer_dispatch:
  assumes "run w (self, tr) = (r, (self', tr'))"
  shows "\<exists>ys. tr' = tr @ ys
     \<and> (optimizer self \<noteq> ''RegularStepGradientDescent'' \<or> optimizer_scales self \<noteq> None \<longrightarrow>
          self' = self \<and> registration_Update \<notin> set ys
          \<and> (\<exists>e. r = Inl e \<and> ((\<exists>msg. e = ValueError msg) \<or> (\<exists>h c. itk_raises w h c = Some e))))
     \<and> (registration_Update \<in> set ys \<longrightarrow>
          optimizer self = ''RegularStepGradientDescent'' \<and> optimizer_scales self = None
          \<and> (\<exists>before after. ys = before @ registration_Update # after
                \<and> set [New RegularStepGradientDescentOptimizer,
                        Call ''optimizer.SetGradientMagnitudeTolerance'' [Number (1 / 10 ^ 6)],
                        Call ''optimizer.SetMinimumStepLength'' [Number (1 / 10 ^ 6)],
                        Call ''optimizer.SetNumberOfIterations'' [Count 200],
                        Call ''optimizer.SetRelaxationFactor'' [Number (1 / 2)],
                        Call ''registration.SetOptimizer'' []] \<subseteq> set before))"
  using assms
proof (cases rule: run_outcome)
  case (rejected e)
  with type_error_ValueError [OF rejected(1)] show ?thesis
    by (intro exI [of _ "[]"]) auto
next
  case (timing e)
  then show ?thesis
    by (intro exI [of _ "[Call ''ph.start_timing'' []]"]) auto
next
  case (library ys zs e)
  from setup_ok_facts(1) [OF setup_prefix_ok [OF library(3)]] library show ?thesis
    by (intro exI [of _ "Call ''ph.start_timing'' [] # ys"]) auto
next
  case (guard e)
  from setup_ok_facts(1) [OF setup_calls_ok [of self]] guard guard_error_optimizer [OF guard(2)]
  show ?thesis
    by (intro exI [of _ "Call ''ph.start_timing'' [] # setup_calls self"]) auto
next
  case (executed zs)
  let ?before = "Call ''ph.start_timing'' [] # setup_calls self"
  from optimizer_calls_in_setup [OF executed(2)]
  have "set [New RegularStepGradientDescentOptimizer,
             Call ''optimizer.SetGradientMagnitudeTolerance'' [Number (1 / 10 ^ 6)],
             Call ''optimizer.SetMinimumStepLength'' [Number (1 / 10 ^ 6)],
             Call ''optimizer.SetNumberOfIterations'' [Count 200],
             Call ''optimizer.SetRelaxationFactor'' [Number (1 / 2)],
             Call ''registration.SetOptimizer'' []] \<subseteq> set ?before"
    by auto
  then have "\<exists>before after. ?before @ registration_Update # zs = before @ registration_Update # after
      \<and> set [New RegularStepGradientDescentOptimizer,
              Call ''optimizer.SetGradientMagnitudeTolerance'' [Number (1 / 10 ^ 6)],
              Call ''optimizer.SetMinimumStepLength'' [Number (1 / 10 ^ 6)],
              Call ''optimizer.SetNumberOfIterations'' [Count 200],
              Call ''optimizer.SetRelaxationFactor'' [Number (1 / 2)],
              Call ''registration.SetOptimizer'' []] \<subseteq> set before"
    by blast
  with guard_error_None(2,3) [OF executed(2)] executed(3) show ?thesis
    by (intro exI [of _ "?before @ registration_Update # zs"]) simp
qed

text \<open>
  The theorem at \<open>unknown_names_itk\<close> (optimizer \<^verbatim>\<open>'Adam'\<close>, interpolator \<^verbatim>\<open>'Cubic'\<close>) in
  \<open>strict_itk\<close>.
\<close>

theorem optimizer_dispatch_witness:
  "\<exists>ys. snd (snd (run strict_itk (unknown_names_itk, []))) = [] @ ys
     \<and> fst (snd (run strict_itk (unknown_names_itk, []))) = unknown_names_itk
     \<and> registration_Update \<notin> set ys
     \<and> (\<exists>e. fst (run strict_itk (unknown_names_itk, [])) = Inl e)"
proof -
  have "optimizer unknown_names_itk \<noteq> ''RegularStepGradientDescent''"
    by (simp add: unknown_names_itk_def example_itk_def)
  with optimizer_dispatch [of strict_itk unknown_names_itk "[]"
      "fst (run strict_itk (unknown_names_itk, []))"
      "fst (snd (run strict_itk (unknown_names_itk, [])))"
      "snd (snd (run strict_itk (unknown_names_itk, [])))"]
  show ?thesis by auto
qed

text \<open>
  The claim as stated fails there: the optimizer string is not the accepted one, and what
  \<^verbatim>\<open>run\<close> raises is the \<^verbatim>\<open>AttributeError\<close> of the interpolator lookup.
\<close>

theorem optimizer_counterexample:
  "optimizer unknown_names_itk = ''Adam''
   \<and> fst (run strict_itk (unknown_names_itk, [])) =
       Inl (AttributeError ''module itk has no attribute CubicInterpolateImageFunction'')"
  by (simp add: run_unfold type_error_def unknown_names_itk_def example_itk_def strict_itk_def
      run_v3_def transform_type_of_def interpolator_of_def instantiate_def exec)

section \<open>The getters before the first run\<close>

text \<open>
  C8 (the code does not do what the claim and the getter's own guard say). On an object
  the constructor has just returned, \<^verbatim>\<open>get_registration_transform_itk\<close> raises
  \<^verbatim>\<open>UnboundLocalError("Execute 'run' first.")\<close>, as claimed. \<^verbatim>\<open>get_registration_transform_sitk\<close>
  does not: the constructor never assigns \<^verbatim>\<open>_registration_transform_sitk\<close>, so reading it
  for the comparison with \<^verbatim>\<open>None\<close> raises \<^verbatim>\<open>AttributeError\<close>.
\<close>

theorem getters_before_run:
  assumes "WrapItkRegistration_init w fixed moving dimn ptype fixed_mask moving_mask reg_type metr
     interp init_type optim multires shrink sigmas verb oriented scales (u, tr0) = (Inr self, s0)"
  shows "get_registration_transform_itk (self, tr) =
      (Inl (UnboundLocalError (''Execute '' @ quoted ''run'' @ '' first.'')), (self, tr))
    \<and> get_registration_transform_sitk (self, tr) =
      (Inl (AttributeError
         ''WrapItkRegistration object has no attribute _registration_transform_sitk''),
       (self, tr))"
proof -
  from assms have "registration_transform_itk self = None"
    and "registration_transform_sitk self = Missing"
    by (auto simp: WrapItkRegistration_init_def instantiate_def itk_ask_def exec
        split: option.splits)
  then show ?thesis
    by (simp add: get_registration_transform_itk_def get_registration_transform_sitk_def exec)
qed

text \<open>The theorem at \<open>example_itk\<close>, built by the constructor in \<open>quiet_itk\<close>.\<close>

theorem getters_before_run_witness:
  "get_registration_transform_itk (example_itk, []) =
      (Inl (UnboundLocalError ''Execute 'run' first.''), (example_itk, []))
    \<and> get_registration_transform_sitk (example_itk, []) =
      (Inl (AttributeError
         ''WrapItkRegistration object has no attribute _registration_transform_sitk''),
       (example_itk, []))"
proof -
  have "WrapItkRegistration_init quiet_itk (Instance (Image itk_D 3) 1) (Instance (Image itk_D 3) 2)
     3 itk_D None None ''Rigid'' ''Correlation'' ''Linear'' None ''RegularStepGradientDescent''
     False [2, 1] [1, 0] True None None ((), []) =
     (Inr example_itk, snd (WrapItkRegistration_init quiet_itk (Instance (Image itk_D 3) 1)
       (Instance (Image itk_D 3) 2) 3 itk_D None None ''Rigid'' ''Correlation'' ''Linear'' None
       ''RegularStepGradientDescent'' False [2, 1] [1, 0] True None None ((), [])))"
    using example_itk_constructed by (metis prod.collapse)
  from getters_before_run [OF this, of "[]"] show ?thesis
    by (simp add: quoted_def)
qed


section \<open>The change of coordinates of RegAladin\<close>

text \<open>
  C1 (the claim fails as stated, at a transform file that holds an infinity; this is
  what holds). Let \<open>d \<ge> 2\<close> be the dimension of the fixed image and let \<^verbatim>\<open>np.loadtxt\<close>
  return a two-dimensional array \<open>M\<close> with at least \<open>d\<close> rows and \<open>d\<close> columns, \<open>A\<close> its
  top-left \<open>d\<close>-by-\<open>d\<close> block and \<open>t\<close> the first \<open>d\<close> entries of its last column. Then
  \<^verbatim>\<open>_convert_to_sitk_transform\<close> reads the file, builds the affine transform \<open>T\<close> with
  the matrix \<open>R A R\<close> (flattened row by row) and the translation \<open>R t\<close>, where \<open>R\<close> is the
  identity with the entries (0,0) and (1,1) negated and the products are those of
  float64, hands both to \<^verbatim>\<open>sitk.AffineTransform\<close> and returns \<open>T\<close> (unless that
  constructor raises), leaving the object as it was. When every entry of \<open>A\<close> and of \<open>t\<close>
  is finite, then entry by entry: \<open>A[i][j]\<close> changes sign exactly when one of \<open>i\<close>, \<open>j\<close>
  is below 2 and the other is not, \<open>t[i]\<close> changes sign exactly when \<open>i\<close> is below 2, and
  nothing else changes.
\<close>

theorem convert_to_sitk_transform_correct:
  fixes M :: matrix and d :: nat
  assumes "fixed_sitk self = Some img" and "GetDimension img = d" and "2 \<le> d"
    and "nr_raises w tr (loadtxt (registration_transform_str self)) = None"
    and "nr_matrix w tr (loadtxt (registration_transform_str self)) = Array2 M"
    and "d \<le> length M" and "\<forall>row\<in>set M. length row = c" and "d \<le> c"
  defines "A \<equiv> map (take d) (take d M)" and "t \<equiv> map last (take d M)"
  defines "T \<equiv> AffineTransform (concat (mat_mult (mat_mult (reflection d) A) (reflection d)))
                 (mat_vec (reflection d) t)"
  shows "convert_to_sitk_transform w (self, tr) =
      ((case nr_raises w (tr @ [loadtxt (registration_transform_str self)])
               (sitk_AffineTransform (matrix_of T) (translation_of T)) of
          None \<Rightarrow> Inr T
        | Some e \<Rightarrow> Inl e),
       (self, tr @ [loadtxt (registration_transform_str self),
                    sitk_AffineTransform (matrix_of T) (translation_of T)]))
    \<and> (list_all (list_all is_finite) A \<and> list_all is_finite t \<longrightarrow>
        matrix_of T =
          concat (map (\<lambda>i. map (\<lambda>j. if (i < 2) \<noteq> (j < 2) then - M ! i ! j else M ! i ! j) [0..<d])
                    [0..<d])
        \<and> translation_of T = map (\<lambda>i. if i < 2 then - last (M ! i) else last (M ! i)) [0..<d])"
  unfolding T_def A_def t_def by (rule convert_result [OF assms(1-8)])

text \<open>
  The theorem at the 4-by-4 matrix \<open>example_matrix\<close> and a three-dimensional fixed image.
\<close>

theorem convert_to_sitk_transform_witness:
  "convert_to_sitk_transform quiet_nr (example_aladin, []) =
     (Inr (AffineTransform [1, 2, - 3, 5, 6, - 7, - 9, - 10, 11] [- 4, - 8, 12]),
      (example_aladin,
       [loadtxt ''/tmp/RegAladin/registration_transform.txt'',
        sitk_AffineTransform [1, 2, - 3, 5, 6, - 7, - 9, - 10, 11] [- 4, - 8, 12]]))"
proof -
  have up: "[0..<3] = [0, 1, 2]" by (simp add: upt_rec)
  let ?M = "[[1, 2, 3, 4], [5, 6, 7, 8], [9, 10, 11, 12], [0, 0, 0, 1 :: float64]]"
  let ?A = "concat (map (\<lambda>i. map (\<lambda>j. if (i < 2) \<noteq> (j < 2) then - ?M ! i ! j else ?M ! i ! j)
      [0..<3]) [0..<3])"
  let ?t = "map (\<lambda>i. if i < 2 then - last (?M ! i) else last (?M ! i)) [0..<3]"
  have "convert_to_sitk_transform quiet_nr (example_aladin, []) =
      (Inr (AffineTransform ?A ?t),
       (example_aladin, [loadtxt (registration_transform_str example_aladin),
          sitk_AffineTransform ?A ?t]))"
    using convert_to_sitk_transform_correct [of example_aladin "SitkImage 3 8 1" 3 quiet_nr "[]"
        ?M 4] example_shape
    by (simp add: example_aladin_fields quiet_nr_def example_matrix_def float64_numeral
        float64_arith)
  then show ?thesis
    by (simp add: up example_aladin_fields)
qed

text \<open>
  The claim as stated fails at \<open>inf_nr\<close>, where the transform file begins with \<^verbatim>\<open>inf\<close>:
  the products \<open>0 * inf\<close> are NaN, so entries that the claim calls unchanged, such as the
  1 in the middle of the matrix, come out as NaN.
\<close>

theorem convert_to_sitk_transform_counterexample:
  "convert_to_sitk_transform inf_nr (example_aladin, []) =
     (Inr (AffineTransform [PInf, NaN, NaN, NaN, NaN, NaN, NaN, NaN, NaN] [0, 0, 0]),
      (example_aladin,
       [loadtxt ''/tmp/RegAladin/registration_transform.txt'',
        sitk_AffineTransform [PInf, NaN, NaN, NaN, NaN, NaN, NaN, NaN, NaN] [0, 0, 0]]))
   \<and> concat (map (\<lambda>i. map (\<lambda>j. if (i < 2) \<noteq> (j < 2) then - inf_matrix ! i ! j
         else inf_matrix ! i ! j) [0..<3]) [0..<3]) = [PInf, 0, 0, 0, 1, 0, 0, 0, 1]
   \<and> [PInf, NaN, NaN, NaN, NaN, NaN, NaN, NaN, NaN] \<noteq> [PInf, 0, 0, 0, 1, 0, 0, 0, 1]"
proof -
  have up: "[0..<3] = [0, 1, 2]" "[0..<4] = [0, 1, 2, 3]" by (simp_all add: upt_rec)
  have "converted 3 (Array2 inf_matrix) =
      Inr ([[PInf, NaN, NaN], [NaN, NaN, NaN], [NaN, NaN, NaN]], [0, 0, 0])"
    by (simp add: converted_def np_slice_block_def np_slice_last_column_def np_eye_def
        np_setitem_def np_dot_def np_dot_vec_def ncols_def inf_matrix_def up
        zero_float64_def one_float64_def plus_float64_def times_float64_def uminus_float64_def)
  then have "convert_to_sitk_transform inf_nr (example_aladin, []) =
     (Inr (AffineTransform [PInf, NaN, NaN, NaN, NaN, NaN, NaN, NaN, NaN] [0, 0, 0]),
      (example_aladin,
       [loadtxt ''/tmp/RegAladin/registration_transform.txt'',
        sitk_AffineTransform [PInf, NaN, NaN, NaN, NaN, NaN, NaN, NaN, NaN] [0, 0, 0]]))"
    by (simp add: convert_unfold example_aladin_fields inf_nr_def)
  moreover have "concat (map (\<lambda>i. map (\<lambda>j. if (i < 2) \<noteq> (j < 2) then - inf_matrix ! i ! j
         else inf_matrix ! i ! j) [0..<3]) [0..<3]) = [PInf, 0, 0, 0, 1, 0, 0, 0, 1]"
    by (simp add: inf_matrix_def up zero_float64_def uminus_float64_def)
  moreover have "[PInf, NaN, NaN, NaN, NaN, NaN, NaN, NaN, NaN] \<noteq> [PInf, 0, 0, 0, 1, 0, 0, 0, 1]"
    by (simp add: zero_float64_def)
  ultimately show ?thesis by (intro conjI)
qed

section \<open>The temporary files\<close>

text \<open>
  C5. The constructors of \<^verbatim>\<open>RegAladin\<close> and \<^verbatim>\<open>RegF3D\<close> set the paths as
  \<open>temporary_files\<close> says: the directory is \<^verbatim>\<open>DIR_TMP/subfolder\<close> and every file lies in
  it. For an object with these paths, whatever the libraries do, the calls \<^verbatim>\<open>_run\<close> makes
  begin with \<^verbatim>\<open>ph.create_directory(DIR_TMP/subfolder, delete_files=True)\<close>, then
  \<^verbatim>\<open>sitk.WriteImage\<close> of the fixed image to \<^verbatim>\<open>fixed.nii.gz\<close>, then of the moving image to
  \<^verbatim>\<open>moving.nii.gz\<close> in that directory: the calls made are a nonempty initial part of
  this sequence (when one of the three raises) or continue it, and when the tool is run
  (\<open>nreg_run\<close>) all three have been made before, in this order.
\<close>

theorem temporary_files_first:
  "temporary_files D sub (RegAladin_init D f m fm mm opts sub cores)
   \<and> temporary_files D sub (RegF3D_init D f m fm mm opts sub cores)
   \<and> (temporary_files D sub aladin
        \<and> RegAladin_run w debug (aladin, tr) = (r, (aladin', tr')) \<longrightarrow>
       (\<exists>ys. tr' = tr @ ys \<and> ys \<noteq> []
          \<and> take 3 ys = take (length ys)
              [create_directory (os_path_join D sub) True,
               WriteImage (fixed_sitk aladin) (os_path_join (os_path_join D sub) ''fixed.nii.gz''),
               WriteImage (moving_sitk aladin) (os_path_join (os_path_join D sub) ''moving.nii.gz'')]
          \<and> (nreg_run \<in> set ys \<longrightarrow> (\<exists>rest. ys =
               create_directory (os_path_join D sub) True
               # WriteImage (fixed_sitk aladin) (os_path_join (os_path_join D sub) ''fixed.nii.gz'')
               # WriteImage (moving_sitk aladin) (os_path_join (os_path_join D sub) ''moving.nii.gz'')
               # rest))))
   \<and> (temporary_files D sub f3d
        \<and> RegF3D_run w debug (f3d, tr) = (rf, (f3d', trf)) \<longrightarrow>
       (\<exists>ys. trf = tr @ ys \<and> ys \<noteq> []
          \<and> take 3 ys = take (length ys)
              [create_directory (os_path_join D sub) True,
               WriteImage (fixed_sitk f3d) (os_path_join (os_path_join D sub) ''fixed.nii.gz''),
               WriteImage (moving_sitk f3d) (os_path_join (os_path_join D sub) ''moving.nii.gz'')]
          \<and> (nreg_run \<in> set ys \<longrightarrow> (\<exists>rest. ys =
               create_directory (os_path_join D sub) True
               # WriteImage (fixed_sitk f3d) (os_path_join (os_path_join D sub) ''fixed.nii.gz'')
               # WriteImage (moving_sitk f3d) (os_path_join (os_path_join D sub) ''moving.nii.gz'')
               # rest))))"
proof (intro conjI impI)
  show "temporary_files D sub (RegAladin_init D f m fm mm opts sub cores)"
    using constructors_temporary_files(2) [of D sub f m fm mm opts cores]
    by (simp add: aladin_files_def)
  show "temporary_files D sub (RegF3D_init D f m fm mm opts sub cores)"
    using constructors_temporary_files(3) [of D sub f m fm mm opts cores]
    by (simp add: f3d_files_def)
next
  assume a: "temporary_files D sub aladin \<and> RegAladin_run w debug (aladin, tr) = (r, (aladin', tr'))"
  then have files: "temporary_files D sub aladin"
    and run: "RegAladin_run w debug (aladin, tr) = (r, (aladin', tr'))"
    by simp_all
  from run obtain ys zs others where ys: "tr' = tr @ ys" "ys \<noteq> []"
    "niftyreg_calls aladin @ others = ys @ zs"
  proof (cases rule: RegAladin_run_outcome)
    case (library ys zs e)
    then show ?thesis
      by (intro that [of ys _ zs]) (simp_all add: RegAladin_calls_def)
  next
    case (invoked zs)
    then show ?thesis
      using niftyreg_calls_nonempty [of aladin]
      by (intro that [of "RegAladin_calls debug aladin @ zs" _ "[]"])
        (simp_all add: RegAladin_calls_def)
  qed
  have reach: "nreg_run \<in> set ys \<longrightarrow> (\<exists>rest. ys =
               create_directory (os_path_join D sub) True
               # WriteImage (fixed_sitk aladin) (os_path_join (os_path_join D sub) ''fixed.nii.gz'')
               # WriteImage (moving_sitk aladin) (os_path_join (os_path_join D sub) ''moving.nii.gz'')
               # rest)"
    by (rule impI) (rule files_first(2) [OF files ys(2,3)])
  from files_first(1) [OF files ys(2,3)] ys(1,2) reach
  show "\<exists>ys. tr' = tr @ ys \<and> ys \<noteq> []
          \<and> take 3 ys = take (length ys)
              [create_directory (os_path_join D sub) True,
               WriteImage (fixed_sitk aladin) (os_path_join (os_path_join D sub) ''fixed.nii.gz''),
               WriteImage (moving_sitk aladin) (os_path_join (os_path_join D sub) ''moving.nii.gz'')]
          \<and> (nreg_run \<in> set ys \<longrightarrow> (\<exists>rest. ys =
               create_directory (os_path_join D sub) True
               # WriteImage (fixed_sitk aladin) (os_path_join (os_path_join D sub) ''fixed.nii.gz'')
               # WriteImage (moving_sitk aladin) (os_path_join (os_path_join D sub) ''moving.nii.gz'')
               # rest))"
    by (intro exI [of _ ys] conjI) assumption+
next
  assume a: "temporary_files D sub f3d \<and> RegF3D_run w debug (f3d, tr) = (rf, (f3d', trf))"
  then have files: "temporary_files D sub f3d"
    and run: "RegF3D_run w debug (f3d, tr) = (rf, (f3d', trf))"
    by simp_all
  from run obtain ys zs others where ys: "trf = tr @ ys" "ys \<noteq> []"
    "niftyreg_calls f3d @ others = ys @ zs"
  proof (cases rule: RegF3D_run_outcome)
    case (library ys zs e)
    then show ?thesis
      by (intro that [of ys _ zs]) (simp_all add: RegF3D_calls_def)
  next
    case (invoked zs)
    then show ?thesis
      using niftyreg_calls_nonempty [of f3d]
      by (intro that [of "RegF3D_calls debug f3d @ zs" _ "[]"])
        (simp_all add: RegF3D_calls_def)
  qed
  have reach: "nreg_run \<in> set ys \<longrightarrow> (\<exists>rest. ys =
               create_directory (os_path_join D sub) True
               # WriteImage (fixed_sitk f3d) (os_path_join (os_path_join D sub) ''fixed.nii.gz'')
               # WriteImage (moving_sitk f3d) (os_path_join (os_path_join D sub) ''moving.nii.gz'')
               # rest)"
    by (rule impI) (rule files_first(2) [OF files ys(2,3)])
  from files_first(1) [OF files ys(2,3)] ys(1,2) reach
  show "\<exists>ys. trf = tr @ ys \<and> ys \<noteq> []
          \<and> take 3 ys = take (length ys)
              [create_directory (os_path_join D sub) True,
               WriteImage (fixed_sitk f3d) (os_path_join (os_path_join D sub) ''fixed.nii.gz''),
               WriteImage (moving_sitk f3d) (os_path_join (os_path_join D sub) ''moving.nii.gz'')]
          \<and> (nreg_run \<in> set ys \<longrightarrow> (\<exists>rest. ys =
               create_directory (os_path_join D sub) True
               # WriteImage (fixed_sitk f3d) (os_path_join (os_path_join D sub) ''fixed.nii.gz'')
               # WriteImage (moving_sitk f3d) (os_path_join (os_path_join D sub) ''moving.nii.gz'')
               # rest))"
    by (intro exI [of _ ys] conjI) assumption+
qed


text \<open>
  The theorem at the two example wrappers, on a file system where nothing raises.
\<close>

theorem temporary_files_first_witness:
  "(\<exists>rest. snd (snd (RegAladin_run quiet_nr False (example_aladin, []))) =
      create_directory ''/tmp/RegAladin'' True
      # WriteImage (Some (SitkImage 3 8 1)) ''/tmp/RegAladin/fixed.nii.gz''
      # WriteImage (Some (SitkImage 3 8 2)) ''/tmp/RegAladin/moving.nii.gz'' # rest)
   \<and> (\<exists>rest. snd (snd (RegF3D_run quiet_nr False (example_f3d, []))) =
      create_directory ''/tmp/RegF3D'' True
      # WriteImage (Some (SitkImage 3 8 1)) ''/tmp/RegF3D/fixed.nii.gz''
      # WriteImage (Some (SitkImage 3 8 2)) ''/tmp/RegF3D/moving.nii.gz'' # rest)"
proof -
  define out where "out = RegAladin_run quiet_nr False (example_aladin, [])"
  have run: "RegAladin_run quiet_nr False (example_aladin, [])
      = (fst out, (fst (snd out), snd (snd out)))"
    by (simp add: out_def)
  have files: "temporary_files ''/tmp'' ''RegAladin'' example_aladin"
    using example_files(1) by (simp add: aladin_files_def)
  have reached: "nreg_run \<in> set (snd (snd out))"
    unfolding out_def by (rule RegAladin_run_invokes [OF quiet_nr_raises])
  from temporary_files_first [where D = "''/tmp''" and sub = "''RegAladin''"
      and aladin = example_aladin and w = quiet_nr and debug = False and tr = "[]"
      and r = "fst out" and aladin' = "fst (snd out)" and tr' = "snd (snd out)",
      THEN conjunct2, THEN conjunct2, THEN conjunct1, THEN mp, OF conjI [OF files run]]
  obtain ys where ys: "snd (snd out) = [] @ ys"
    and reach: "nreg_run \<in> set ys \<longrightarrow> (\<exists>rest. ys =
       create_directory (os_path_join ''/tmp'' ''RegAladin'') True
       # WriteImage (fixed_sitk example_aladin)
           (os_path_join (os_path_join ''/tmp'' ''RegAladin'') ''fixed.nii.gz'')
       # WriteImage (moving_sitk example_aladin)
           (os_path_join (os_path_join ''/tmp'' ''RegAladin'') ''moving.nii.gz'')
       # rest)"
    by (elim exE conjE)
  from ys reached reach have aladin: "\<exists>rest. snd (snd out) =
      create_directory ''/tmp/RegAladin'' True
      # WriteImage (Some (SitkImage 3 8 1)) ''/tmp/RegAladin/fixed.nii.gz''
      # WriteImage (Some (SitkImage 3 8 2)) ''/tmp/RegAladin/moving.nii.gz'' # rest"
    by (simp add: example_paths example_images)
  define out2 where "out2 = RegF3D_run quiet_nr False (example_f3d, [])"
  have run2: "RegF3D_run quiet_nr False (example_f3d, [])
      = (fst out2, (fst (snd out2), snd (snd out2)))"
    by (simp add: out2_def)
  have files2: "temporary_files ''/tmp'' ''RegF3D'' example_f3d"
    using example_files(2) by (simp add: f3d_files_def)
  have reached2: "nreg_run \<in> set (snd (snd out2))"
    unfolding out2_def by (rule RegF3D_run_invokes [OF quiet_nr_raises])
  from temporary_files_first [where D = "''/tmp''" and sub = "''RegF3D''"
      and f3d = example_f3d and w = quiet_nr and debug = False and tr = "[]"
      and rf = "fst out2" and f3d' = "fst (snd out2)" and trf = "snd (snd out2)",
      THEN conjunct2, THEN conjunct2, THEN conjunct2, THEN mp, OF conjI [OF files2 run2]]
  obtain ys where ys: "snd (snd out2) = [] @ ys"
    and reach: "nreg_run \<in> set ys \<longrightarrow> (\<exists>rest. ys =
       create_directory (os_path_join ''/tmp'' ''RegF3D'') True
       # WriteImage (fixed_sitk example_f3d)
           (os_path_join (os_path_join ''/tmp'' ''RegF3D'') ''fixed.nii.gz'')
       # WriteImage (moving_sitk example_f3d)
           (os_path_join (os_path_join ''/tmp'' ''RegF3D'') ''moving.nii.gz'')
       # rest)"
    by (elim exE conjE)
  from ys reached2 reach have "\<exists>rest. snd (snd out2) =
      create_directory ''/tmp/RegF3D'' True
      # WriteImage (Some (SitkImage 3 8 1)) ''/tmp/RegF3D/fixed.nii.gz''
      # WriteImage (Some (SitkImage 3 8 2)) ''/tmp/RegF3D/moving.nii.gz'' # rest"
    by (simp add: example_paths example_images)
  with aladin show ?thesis
    unfolding out_def out2_def by (rule conjI)
qed


section \<open>The results of a run\<close>

text \<open>
  C6. After a run of \<^verbatim>\<open>RegAladin\<close> that returns without an exception, on an object with
  the paths of the constructor: the last calls of the run are the tool itself, then
  \<^verbatim>\<open>sitk.ReadImage\<close> of \<^verbatim>\<open>warped_moving.nii.gz\<close> in the temporary directory, then
  \<^verbatim>\<open>np.loadtxt\<close> of \<^verbatim>\<open>registration_transform.txt\<close> there, then \<^verbatim>\<open>sitk.AffineTransform\<close>
  with the matrix and the translation of a transform \<open>T\<close>; these two files are the ones
  the tool was given as \<^verbatim>\<open>res_file\<close> and \<^verbatim>\<open>aff_file\<close>; the warped moving image of the
  object is the image that \<^verbatim>\<open>ReadImage\<close> returned, \<^verbatim>\<open>_get_warped_moving_sitk\<close> returns
  it, and the registration transform of the object is \<open>T\<close>. This \<open>T\<close> is built from the
  file: \<^verbatim>\<open>np.loadtxt\<close> returned, at that point of the run, a two-dimensional array \<open>M\<close>,
  the fixed image has a dimension \<open>d \<ge> 2\<close>, and \<open>T\<close> is the affine transform with the
  matrix \<open>R A R\<close> and the translation \<open>R t\<close>, for the top-left \<open>d\<close>-by-\<open>d\<close> block \<open>A\<close> of
  \<open>M\<close>, the first \<open>d\<close> entries \<open>t\<close> of its last column and the reflection \<open>R\<close>.

  After such a run of \<^verbatim>\<open>RegF3D\<close>: the last calls are the tool, \<^verbatim>\<open>ReadImage\<close> of
  \<^verbatim>\<open>warped_moving.nii.gz\<close> and \<^verbatim>\<open>ReadImage\<close> of \<^verbatim>\<open>registration_cpp.nii.gz\<close>, the files
  given to the tool as \<^verbatim>\<open>res_file\<close> and \<^verbatim>\<open>cpp_file\<close>; the warped moving image of the
  object is the first image read and its registration transform the second. The
  constructors set these paths.
\<close>

theorem results_read_back:
  "(aladin_files D sub aladin
      \<and> RegAladin_run w debug (aladin, tr) = (Inr (), (aladin', tr')) \<longrightarrow>
     (\<exists>before img T fixed M. tr' = tr @ before @
        [nreg_run,
         ReadImage (os_path_join (os_path_join D sub) ''warped_moving.nii.gz''),
         loadtxt (os_path_join (os_path_join D sub) ''registration_transform.txt''),
         sitk_AffineTransform (matrix_of T) (translation_of T)]
       \<and> nreg_inputs (res_file (os_path_join (os_path_join D sub) ''warped_moving.nii.gz''))
            \<in> set before
       \<and> nreg_inputs (aff_file (os_path_join (os_path_join D sub) ''registration_transform.txt''))
            \<in> set before
       \<and> img = nr_image w (tr @ before @ [nreg_run])
            (ReadImage (os_path_join (os_path_join D sub) ''warped_moving.nii.gz''))
       \<and> aladin_warped_moving_sitk aladin' = Bound img
       \<and> aladin_registration_transform_sitk aladin' = Bound T
       \<and> RegAladin_get_warped_moving_sitk (aladin', tr') = (Inr img, (aladin', tr'))
       \<and> fixed_sitk aladin = Some fixed
       \<and> nr_matrix w (tr @ before @
              [nreg_run, ReadImage (os_path_join (os_path_join D sub) ''warped_moving.nii.gz'')])
            (loadtxt (os_path_join (os_path_join D sub) ''registration_transform.txt'')) = Array2 M
       \<and> 2 \<le> GetDimension fixed
       \<and> T = AffineTransform
            (concat (mat_mult (mat_mult (reflection (GetDimension fixed))
               (map (take (GetDimension fixed)) (take (GetDimension fixed) M)))
               (reflection (GetDimension fixed))))
            (mat_vec (reflection (GetDimension fixed))
               (map last (take (GetDimension fixed) M)))))
   \<and> (f3d_files D sub f3d
      \<and> RegF3D_run w debug (f3d, tr) = (Inr (), (f3d', trf)) \<longrightarrow>
     (\<exists>before img grid. trf = tr @ before @
        [nreg_run,
         ReadImage (os_path_join (os_path_join D sub) ''warped_moving.nii.gz''),
         ReadImage (os_path_join (os_path_join D sub) ''registration_cpp.nii.gz'')]
       \<and> nreg_inputs (res_file (os_path_join (os_path_join D sub) ''warped_moving.nii.gz''))
            \<in> set before
       \<and> nreg_inputs (cpp_file (os_path_join (os_path_join D sub) ''registration_cpp.nii.gz''))
            \<in> set before
       \<and> img = nr_image w (tr @ before @ [nreg_run])
            (ReadImage (os_path_join (os_path_join D sub) ''warped_moving.nii.gz''))
       \<and> grid = nr_image w (tr @ before @
              [nreg_run, ReadImage (os_path_join (os_path_join D sub) ''warped_moving.nii.gz'')])
            (ReadImage (os_path_join (os_path_join D sub) ''registration_cpp.nii.gz''))
       \<and> f3d_warped_moving_sitk f3d' = Bound img
       \<and> f3d_registration_transform_sitk f3d' = Bound grid
       \<and> RegF3D_get_warped_moving_sitk (f3d', trf) = (Inr img, (f3d', trf))))
   \<and> aladin_files D sub (RegAladin_init D f m fm mm opts sub cores)
   \<and> f3d_files D sub (RegF3D_init D f m fm mm opts sub cores)"
  apply (intro conjI impI)
     apply (elim conjE, erule (1) RegAladin_results)
    apply (elim conjE, erule (1) RegF3D_results)
   apply (rule constructors_temporary_files)
  apply (rule constructors_temporary_files)
  done

text \<open>
  The theorem at the two example wrappers, on a file system where nothing raises, every
  image read is \<open>SitkImage 3 8 7\<close> and the transform file holds \<open>example_matrix\<close>.
\<close>

theorem results_read_back_witness:
  "(\<exists>before. snd (snd (RegAladin_run quiet_nr False (example_aladin, []))) = before @
        [nreg_run, ReadImage ''/tmp/RegAladin/warped_moving.nii.gz'',
         loadtxt ''/tmp/RegAladin/registration_transform.txt'',
         sitk_AffineTransform [1, 2, - 3, 5, 6, - 7, - 9, - 10, 11] [- 4, - 8, 12]])
   \<and> aladin_warped_moving_sitk (fst (snd (RegAladin_run quiet_nr False (example_aladin, []))))
       = Bound (SitkImage 3 8 7)
   \<and> aladin_registration_transform_sitk
       (fst (snd (RegAladin_run quiet_nr False (example_aladin, []))))
       = Bound (AffineTransform [1, 2, - 3, 5, 6, - 7, - 9, - 10, 11] [- 4, - 8, 12])
   \<and> (\<exists>before. snd (snd (RegF3D_run quiet_nr False (example_f3d, []))) = before @
        [nreg_run, ReadImage ''/tmp/RegF3D/warped_moving.nii.gz'',
         ReadImage ''/tmp/RegF3D/registration_cpp.nii.gz''])
   \<and> f3d_warped_moving_sitk (fst (snd (RegF3D_run quiet_nr False (example_f3d, []))))
       = Bound (SitkImage 3 8 7)
   \<and> f3d_registration_transform_sitk (fst (snd (RegF3D_run quiet_nr False (example_f3d, []))))
       = Bound (SitkImage 3 8 7)"
proof -
  define out where "out = RegAladin_run quiet_nr False (example_aladin, [])"
  have "fst out = Inr ()"
    unfolding out_def by (rule RegAladin_run_quiet [OF quiet_nr_raises example_convert])
  then have run: "RegAladin_run quiet_nr False (example_aladin, [])
      = (Inr (), (fst (snd out), snd (snd out)))"
    by (simp add: out_def prod_eq_iff)
  from results_read_back [where D = "''/tmp''" and sub = "''RegAladin''"
      and aladin = example_aladin and w = quiet_nr and debug = False and tr = "[]"
      and aladin' = "fst (snd out)" and tr' = "snd (snd out)",
      THEN conjunct1, THEN mp, OF conjI [OF example_files(1) run]]
  obtain before img T fixed M where
    1: "snd (snd out) = [] @ before @
        [nreg_run,
         ReadImage (os_path_join (os_path_join ''/tmp'' ''RegAladin'') ''warped_moving.nii.gz''),
         loadtxt (os_path_join (os_path_join ''/tmp'' ''RegAladin'') ''registration_transform.txt''),
         sitk_AffineTransform (matrix_of T) (translation_of T)]"
    and 2: "img = nr_image quiet_nr ([] @ before @ [nreg_run])
            (ReadImage (os_path_join (os_path_join ''/tmp'' ''RegAladin'') ''warped_moving.nii.gz''))"
    and 3: "aladin_warped_moving_sitk (fst (snd out)) = Bound img"
    and 4: "aladin_registration_transform_sitk (fst (snd out)) = Bound T"
    and 5: "fixed_sitk example_aladin = Some fixed"
    and 6: "nr_matrix quiet_nr ([] @ before @
              [nreg_run,
               ReadImage (os_path_join (os_path_join ''/tmp'' ''RegAladin'') ''warped_moving.nii.gz'')])
            (loadtxt (os_path_join (os_path_join ''/tmp'' ''RegAladin'') ''registration_transform.txt''))
          = Array2 M"
    and 7: "T = AffineTransform
            (concat (mat_mult (mat_mult (reflection (GetDimension fixed))
               (map (take (GetDimension fixed)) (take (GetDimension fixed) M)))
               (reflection (GetDimension fixed))))
            (mat_vec (reflection (GetDimension fixed))
               (map last (take (GetDimension fixed) M)))"
    by (elim exE conjE)
  from 5 have fixed: "fixed = SitkImage 3 8 1" by (simp add: example_images)
  from 6 have M: "M = [[1, 2, 3, 4], [5, 6, 7, 8], [9, 10, 11, 12], [0, 0, 0, 1]]"
    by (simp add: quiet_nr_def example_matrix_def)
  from 7 have T: "T = AffineTransform [1, 2, - 3, 5, 6, - 7, - 9, - 10, 11] [- 4, - 8, 12]"
    unfolding fixed M sitk_image.sel by (simp only: example_transform)
  have a1: "snd (snd out) = before @
        [nreg_run, ReadImage ''/tmp/RegAladin/warped_moving.nii.gz'',
         loadtxt ''/tmp/RegAladin/registration_transform.txt'',
         sitk_AffineTransform [1, 2, - 3, 5, 6, - 7, - 9, - 10, 11] [- 4, - 8, 12]]"
    using 1 by (simp add: example_paths T)
  then have a1: "\<exists>before. snd (snd out) = before @
        [nreg_run, ReadImage ''/tmp/RegAladin/warped_moving.nii.gz'',
         loadtxt ''/tmp/RegAladin/registration_transform.txt'',
         sitk_AffineTransform [1, 2, - 3, 5, 6, - 7, - 9, - 10, 11] [- 4, - 8, 12]]"
    by (rule exI [of _ before])
  have a2: "aladin_warped_moving_sitk (fst (snd out)) = Bound (SitkImage 3 8 7)"
    using 2 3 by (simp add: quiet_nr_def)
  have a3: "aladin_registration_transform_sitk (fst (snd out))
       = Bound (AffineTransform [1, 2, - 3, 5, 6, - 7, - 9, - 10, 11] [- 4, - 8, 12])"
    using 4 by (simp only: T)
  define out2 where "out2 = RegF3D_run quiet_nr False (example_f3d, [])"
  have "fst out2 = Inr ()"
    unfolding out2_def by (rule RegF3D_run_quiet [OF quiet_nr_raises])
  then have run2: "RegF3D_run quiet_nr False (example_f3d, [])
      = (Inr (), (fst (snd out2), snd (snd out2)))"
    by (simp add: out2_def prod_eq_iff)
  from results_read_back [where D = "''/tmp''" and sub = "''RegF3D''"
      and f3d = example_f3d and w = quiet_nr and debug = False and tr = "[]"
      and f3d' = "fst (snd out2)" and trf = "snd (snd out2)",
      THEN conjunct2, THEN conjunct1, THEN mp, OF conjI [OF example_files(2) run2]]
  obtain before2 img2 grid where
    b5: "snd (snd out2) = [] @ before2 @
        [nreg_run,
         ReadImage (os_path_join (os_path_join ''/tmp'' ''RegF3D'') ''warped_moving.nii.gz''),
         ReadImage (os_path_join (os_path_join ''/tmp'' ''RegF3D'') ''registration_cpp.nii.gz'')]"
    and b6: "img2 = nr_image quiet_nr ([] @ before2 @ [nreg_run])
            (ReadImage (os_path_join (os_path_join ''/tmp'' ''RegF3D'') ''warped_moving.nii.gz''))"
    and b7: "grid = nr_image quiet_nr ([] @ before2 @
              [nreg_run,
               ReadImage (os_path_join (os_path_join ''/tmp'' ''RegF3D'') ''warped_moving.nii.gz'')])
            (ReadImage (os_path_join (os_path_join ''/tmp'' ''RegF3D'') ''registration_cpp.nii.gz''))"
    and b8: "f3d_warped_moving_sitk (fst (snd out2)) = Bound img2"
    and b9: "f3d_registration_transform_sitk (fst (snd out2)) = Bound grid"
    by (elim exE conjE)
  have "snd (snd out2) = before2 @
        [nreg_run, ReadImage ''/tmp/RegF3D/warped_moving.nii.gz'',
         ReadImage ''/tmp/RegF3D/registration_cpp.nii.gz'']"
    using b5 by (simp add: example_paths)
  then have b1: "\<exists>before. snd (snd out2) = before @
        [nreg_run, ReadImage ''/tmp/RegF3D/warped_moving.nii.gz'',
         ReadImage ''/tmp/RegF3D/registration_cpp.nii.gz'']"
    by (rule exI [of _ before2])
  have b2: "f3d_warped_moving_sitk (fst (snd out2)) = Bound (SitkImage 3 8 7)"
    using b6 b8 by (simp add: quiet_nr_def)
  have b3: "f3d_registration_transform_sitk (fst (snd out2)) = Bound (SitkImage 3 8 7)"
    using b7 b9 by (simp add: quiet_nr_def)
  from a1 a2 a3 b1 b2 b3 show ?thesis
    unfolding out_def out2_def by - ((rule conjI, assumption)+, assumption)
qed

section \<open>The masks\<close>

text \<open>
  C4 (the claim fails as stated for a run that ends before the registration; this is
  what holds). In every wrapper a mask is used only when it is there, and in every run
  that gets as far as the registration every mask that is there has been used.

  \<^verbatim>\<open>WrapItkRegistration.run\<close>, whatever the library does: every call satisfies
  \<open>itk_mask_ok\<close>, that is, the calls that cast a mask and attach it to the metric are
  made only for a mask that is not \<^verbatim>\<open>None\<close>; when the registration is executed
  (\<^verbatim>\<open>registration.Update()\<close>), then for every mask that is not \<^verbatim>\<open>None\<close> the eight calls
  that give it to the caster, update the caster, take its output, disconnect it, create
  an \<^verbatim>\<open>itk.ImageMaskSpatialObject\<close> of the wrapper's dimension, set its image and
  attach it to the metric have been made before, one after the other in this order; and
  when the type checks and the guards of \<^verbatim>\<open>_run_v3\<close> pass and no call raises, the
  registration is executed, with or without masks.

  \<^verbatim>\<open>RegAladin._run\<close> and \<^verbatim>\<open>RegF3D._run\<close>, on an object with the paths of the constructor
  and whatever the libraries do: every call satisfies \<open>mask_ok\<close>, that is, an image is
  written to the file of the fixed (moving) mask only when that mask is not \<^verbatim>\<open>None\<close>, and
  then it is that mask, and \<^verbatim>\<open>rmask_file\<close> (\<^verbatim>\<open>fmask_file\<close>) is set only when the fixed
  (moving) mask is not \<^verbatim>\<open>None\<close>, and then to that file; when the tool is run, every
  mask that is not \<^verbatim>\<open>None\<close> has been written to its file and named in the inputs
  before; and when no call raises the tool is run, with or without masks.
\<close>

theorem masks_optional:
  "(run w (self, tr) = (r, (self', tr')) \<longrightarrow>
     (\<exists>ys. tr' = tr @ ys \<and> list_all (itk_mask_ok self) ys
       \<and> (registration_Update \<in> set ys \<longrightarrow>
            (\<forall>msk. moving_itk_mask self = Some msk \<longrightarrow> before_update
               [mask_caster_SetInput msk,
                Call ''self._mask_caster.Update'' [],
                Call ''self._mask_caster.GetOutput'' [],
                Call ''moving_itk_mask.DisconnectPipeline'' [],
                Instantiate (ImageMaskSpatialObject (dimension self)),
                New (ImageMaskSpatialObject (dimension self)),
                Call ''moving_mask_object.SetImage'' [],
                metric_SetMovingImageMask] ys)
            \<and> (\<forall>msk. fixed_itk_mask self = Some msk \<longrightarrow> before_update
               [mask_caster_SetInput msk,
                Call ''self._mask_caster.Update'' [],
                Call ''self._mask_caster.GetOutput'' [],
                Call ''fixed_itk_mask.DisconnectPipeline'' [],
                Instantiate (ImageMaskSpatialObject (dimension self)),
                New (ImageMaskSpatialObject (dimension self)),
                Call ''fixed_mask_object.SetImage'' [],
                metric_SetFixedImageMask] ys))
       \<and> (type_error self = None \<and> guard_error self = None
            \<and> (\<forall>h c. itk_raises w h c = None) \<longrightarrow> registration_Update \<in> set ys)))
   \<and> (temporary_files D sub aladin
        \<and> RegAladin_run nw debug (aladin, ntr) = (ra, (aladin', tra)) \<longrightarrow>
     (\<exists>ys. tra = ntr @ ys \<and> list_all (mask_ok aladin) ys
       \<and> (nreg_run \<in> set ys \<longrightarrow> (\<exists>before rest. ys = before @ nreg_run # rest
           \<and> nreg_run \<notin> set before
           \<and> (\<forall>msk. fixed_sitk_mask aladin = Some msk \<longrightarrow>
                WriteImage (Some msk) (fixed_mask_str aladin) \<in> set before
                \<and> nreg_inputs (rmask_file (fixed_mask_str aladin)) \<in> set before)
           \<and> (\<forall>msk. moving_sitk_mask aladin = Some msk \<longrightarrow>
                WriteImage (Some msk) (moving_mask_str aladin) \<in> set before
                \<and> nreg_inputs (fmask_file (moving_mask_str aladin)) \<in> set before)))
       \<and> ((\<forall>h c. nr_raises nw h c = None) \<longrightarrow> nreg_run \<in> set ys)))
   \<and> (temporary_files D sub f3d
        \<and> RegF3D_run nw debug (f3d, ntr) = (rf, (f3d', trf)) \<longrightarrow>
     (\<exists>ys. trf = ntr @ ys \<and> list_all (mask_ok f3d) ys
       \<and> (nreg_run \<in> set ys \<longrightarrow> (\<exists>before rest. ys = before @ nreg_run # rest
           \<and> nreg_run \<notin> set before
           \<and> (\<forall>msk. fixed_sitk_mask f3d = Some msk \<longrightarrow>
                WriteImage (Some msk) (fixed_mask_str f3d) \<in> set before
                \<and> nreg_inputs (rmask_file (fixed_mask_str f3d)) \<in> set before)
           \<and> (\<forall>msk. moving_sitk_mask f3d = Some msk \<longrightarrow>
                WriteImage (Some msk) (moving_mask_str f3d) \<in> set before
                \<and> nreg_inputs (fmask_file (moving_mask_str f3d)) \<in> set before)))
       \<and> ((\<forall>h c. nr_raises nw h c = None) \<longrightarrow> nreg_run \<in> set ys)))"
  apply (intro conjI impI)
    apply (erule run_masks)
   apply (elim conjE, erule (1) RegAladin_run_masks)
  apply (elim conjE, erule (1) RegF3D_run_masks)
  done

text \<open>
  The theorem at \<open>masked_itk\<close>, which has a fixed mask and no moving mask, in a library
  where nothing raises, and at \<open>example_aladin\<close>, which has a fixed mask and no moving
  mask either.
\<close>

theorem masks_optional_witness:
  "before_update
     [mask_caster_SetInput (Instance (Image itk_D 3) 3),
      Call ''self._mask_caster.Update'' [],
      Call ''self._mask_caster.GetOutput'' [],
      Call ''fixed_itk_mask.DisconnectPipeline'' [],
      Instantiate (ImageMaskSpatialObject 3),
      New (ImageMaskSpatialObject 3),
      Call ''fixed_mask_object.SetImage'' [],
      metric_SetFixedImageMask] (snd (snd (run quiet_itk (masked_itk, []))))
   \<and> metric_SetMovingImageMask \<notin> set (snd (snd (run quiet_itk (masked_itk, []))))
   \<and> (\<exists>before rest. snd (snd (RegAladin_run quiet_nr False (example_aladin, [])))
          = before @ nreg_run # rest
        \<and> WriteImage (Some (SitkImage 3 1 3)) ''/tmp/RegAladin/fixed_mask.nii.gz'' \<in> set before
        \<and> nreg_inputs (rmask_file ''/tmp/RegAladin/fixed_mask.nii.gz'') \<in> set before)
   \<and> (\<forall>p. nreg_inputs (fmask_file p)
          \<notin> set (snd (snd (RegAladin_run quiet_nr False (example_aladin, [])))))"
proof -
  define out where "out = run quiet_itk (masked_itk, [])"
  have run: "run quiet_itk (masked_itk, []) = (fst out, (fst (snd out), snd (snd out)))"
    by (simp add: out_def)
  from masks_optional [where w = quiet_itk and self = masked_itk and tr = "[]"
      and r = "fst out" and self' = "fst (snd out)" and tr' = "snd (snd out)",
      THEN conjunct1, THEN mp, OF run]
  obtain ys where ys: "snd (snd out) = [] @ ys"
    and ok: "list_all (itk_mask_ok masked_itk) ys"
    and executed: "registration_Update \<in> set ys \<longrightarrow>
            (\<forall>msk. moving_itk_mask masked_itk = Some msk \<longrightarrow> before_update
               [mask_caster_SetInput msk,
                Call ''self._mask_caster.Update'' [],
                Call ''self._mask_caster.GetOutput'' [],
                Call ''moving_itk_mask.DisconnectPipeline'' [],
                Instantiate (ImageMaskSpatialObject (dimension masked_itk)),
                New (ImageMaskSpatialObject (dimension masked_itk)),
                Call ''moving_mask_object.SetImage'' [],
                metric_SetMovingImageMask] ys)
            \<and> (\<forall>msk. fixed_itk_mask masked_itk = Some msk \<longrightarrow> before_update
               [mask_caster_SetInput msk,
                Call ''self._mask_caster.Update'' [],
                Call ''self._mask_caster.GetOutput'' [],
                Call ''fixed_itk_mask.DisconnectPipeline'' [],
                Instantiate (ImageMaskSpatialObject (dimension masked_itk)),
                New (ImageMaskSpatialObject (dimension masked_itk)),
                Call ''fixed_mask_object.SetImage'' [],
                metric_SetFixedImageMask] ys)"
    and proceeds: "type_error masked_itk = None \<and> guard_error masked_itk = None
            \<and> (\<forall>h c. itk_raises quiet_itk h c = None) \<longrightarrow> registration_Update \<in> set ys"
    by (elim exE conjE)
  have te: "type_error masked_itk = None"
    by (simp add: type_error_def masked_itk_def example_itk_def)
  have ge: "guard_error masked_itk = None"
    by (simp add: guard_error_def known_registration_type_def metric_value_def masked_itk_def
        example_itk_def)
  have quiet: "\<forall>h c. itk_raises quiet_itk h c = None"
    by (simp add: quiet_itk_def)
  from mp [OF proceeds conjI [OF te conjI [OF ge quiet]]]
  have upd: "registration_Update \<in> set ys" .
  have fm: "fixed_itk_mask masked_itk = Some (Instance (Image itk_D 3) 3)"
    and mm: "moving_itk_mask masked_itk = None"
    and dm: "dimension masked_itk = 3"
    by (simp_all add: masked_itk_def example_itk_def)
  from mp [OF executed upd, THEN conjunct2, rule_format, OF fm]
  have i1: "before_update
     [mask_caster_SetInput (Instance (Image itk_D 3) 3),
      Call ''self._mask_caster.Update'' [],
      Call ''self._mask_caster.GetOutput'' [],
      Call ''fixed_itk_mask.DisconnectPipeline'' [],
      Instantiate (ImageMaskSpatialObject 3),
      New (ImageMaskSpatialObject 3),
      Call ''fixed_mask_object.SetImage'' [],
      metric_SetFixedImageMask] (snd (snd out))"
    unfolding dm using ys by simp
  from ok mm have "metric_SetMovingImageMask \<notin> set ys"
    by (auto simp: list_all_iff itk_mask_ok_def)
  with ys have i2: "metric_SetMovingImageMask \<notin> set (snd (snd out))"
    by simp
  define out1 where "out1 = RegAladin_run quiet_nr False (example_aladin, [])"
  have run1: "RegAladin_run quiet_nr False (example_aladin, [])
      = (fst out1, (fst (snd out1), snd (snd out1)))"
    by (simp add: out1_def)
  have files: "temporary_files ''/tmp'' ''RegAladin'' example_aladin"
    using example_files(1) by (simp add: aladin_files_def)
  from masks_optional [where D = "''/tmp''" and sub = "''RegAladin''"
      and aladin = example_aladin and nw = quiet_nr and debug = False and ntr = "[]"
      and ra = "fst out1" and aladin' = "fst (snd out1)" and tra = "snd (snd out1)",
      THEN conjunct2, THEN conjunct1, THEN mp, OF conjI [OF files run1]]
  obtain zs where zs: "snd (snd out1) = [] @ zs"
    and ok: "list_all (mask_ok example_aladin) zs"
    and reached: "nreg_run \<in> set zs \<longrightarrow> (\<exists>before rest. zs = before @ nreg_run # rest
           \<and> nreg_run \<notin> set before
           \<and> (\<forall>msk. fixed_sitk_mask example_aladin = Some msk \<longrightarrow>
                WriteImage (Some msk) (fixed_mask_str example_aladin) \<in> set before
                \<and> nreg_inputs (rmask_file (fixed_mask_str example_aladin)) \<in> set before)
           \<and> (\<forall>msk. moving_sitk_mask example_aladin = Some msk \<longrightarrow>
                WriteImage (Some msk) (moving_mask_str example_aladin) \<in> set before
                \<and> nreg_inputs (fmask_file (moving_mask_str example_aladin)) \<in> set before))"
    and invoked: "(\<forall>h c. nr_raises quiet_nr h c = None) \<longrightarrow> nreg_run \<in> set zs"
    by (elim exE conjE)
  from files have path: "fixed_mask_str example_aladin = ''/tmp/RegAladin/fixed_mask.nii.gz''"
    by (simp add: temporary_files_def example_paths)
  from invoked quiet_nr_raises have "nreg_run \<in> set zs" by (rule mp)
  with reached obtain before rest where "zs = before @ nreg_run # rest"
    and "\<forall>msk. fixed_sitk_mask example_aladin = Some msk \<longrightarrow>
                WriteImage (Some msk) (fixed_mask_str example_aladin) \<in> set before
                \<and> nreg_inputs (rmask_file (fixed_mask_str example_aladin)) \<in> set before"
    by (elim impE exE conjE)
  with zs have "snd (snd out1) = before @ nreg_run # rest"
    and "WriteImage (Some (SitkImage 3 1 3)) ''/tmp/RegAladin/fixed_mask.nii.gz'' \<in> set before"
    and "nreg_inputs (rmask_file ''/tmp/RegAladin/fixed_mask.nii.gz'') \<in> set before"
    by (simp_all add: example_images path)
  then have given: "\<exists>before rest. snd (snd out1) = before @ nreg_run # rest
        \<and> WriteImage (Some (SitkImage 3 1 3)) ''/tmp/RegAladin/fixed_mask.nii.gz'' \<in> set before
        \<and> nreg_inputs (rmask_file ''/tmp/RegAladin/fixed_mask.nii.gz'') \<in> set before"
    by (intro exI [of _ before] exI [of _ rest] conjI) assumption+
  have absent: "\<forall>p. nreg_inputs (fmask_file p) \<notin> set (snd (snd out1))"
    using ok zs by (auto simp: list_all_iff mask_ok_def example_images)
  from conjI [OF i1 conjI [OF i2 conjI [OF given absent]]] show ?thesis
    unfolding out_def out1_def .
qed

text \<open>
  The claim as stated fails at \<open>uc_masked_itk\<close>, the object the constructor builds when
  it is given a fixed mask of pixel type \<^verbatim>\<open>itk.UC\<close> for images of pixel type \<^verbatim>\<open>itk.D\<close>:
  the fixed mask is not \<^verbatim>\<open>None\<close>, and \<^verbatim>\<open>run\<close> raises in its own type check without a
  single call, so the mask is neither cast nor attached to the metric.
\<close>

theorem masks_optional_counterexample:
  "fst (WrapItkRegistration_init quiet_itk (Instance (Image itk_D 3) 1) (Instance (Image itk_D 3) 2)
     3 itk_D (Some (Instance (Image itk_UC 3) 3)) None ''Rigid'' ''Correlation'' ''Linear'' None
     ''RegularStepGradientDescent'' False [2, 1] [1, 0] True None None ((), []))
     = Inr uc_masked_itk
   \<and> fixed_itk_mask uc_masked_itk = Some (Instance (Image itk_UC 3) 3)
   \<and> run quiet_itk (uc_masked_itk, []) =
       (Inl (ValueError ''Fixed image mask must be of type itk.Image''), (uc_masked_itk, []))"
proof -
  have "fst (WrapItkRegistration_init quiet_itk (Instance (Image itk_D 3) 1)
     (Instance (Image itk_D 3) 2)
     3 itk_D (Some (Instance (Image itk_UC 3) 3)) None ''Rigid'' ''Correlation'' ''Linear'' None
     ''RegularStepGradientDescent'' False [2, 1] [1, 0] True None None ((), []))
     = Inr uc_masked_itk"
    by (simp add: WrapItkRegistration_init_def uc_masked_itk_def example_itk_def quiet_itk_def
        instantiate_def itk_ask_def exec)
  moreover have "fixed_itk_mask uc_masked_itk = Some (Instance (Image itk_UC 3) 3)"
    by (simp add: uc_masked_itk_def example_itk_def)
  moreover have "run quiet_itk (uc_masked_itk, []) =
       (Inl (ValueError ''Fixed image mask must be of type itk.Image''), (uc_masked_itk, []))"
    by (simp add: run_unfold type_error_def uc_masked_itk_def example_itk_def)
  ultimately show ?thesis by (intro conjI)
qed
end
